theory Spec2Isabelle
  imports Complex_Main "HOL-Library.Sublist" "HOL-Library.Multiset"
begin

section \<open>JavaScript values\<close>

text \<open>
  Strings are modelled as \<open>string\<close>; case mapping and white space are those of the ASCII
  range. A missing (\<^verbatim>\<open>undefined\<close>) string property is the empty string, which the
  source treats alike wherever it tests one (\<^verbatim>\<open>!str\<close>, \<^verbatim>\<open>a || b\<close>, \<^verbatim>\<open>a && ...\<close>).
  Times are milliseconds as returned by \<^verbatim>\<open>Date.now()\<close>, modelled as \<open>int\<close>.
\<close>

definition toUpperCase_char :: "char \<Rightarrow> char" where
  "toUpperCase_char c =
     (case map_of (zip ''abcdefghijklmnopqrstuvwxyz'' ''ABCDEFGHIJKLMNOPQRSTUVWXYZ'') c of
        Some u \<Rightarrow> u | None \<Rightarrow> c)"

definition toUpperCase :: "string \<Rightarrow> string" where
  "toUpperCase s = map toUpperCase_char s"

definition toLowerCase_char :: "char \<Rightarrow> char" where
  "toLowerCase_char c =
     (case map_of (zip ''ABCDEFGHIJKLMNOPQRSTUVWXYZ'' ''abcdefghijklmnopqrstuvwxyz'') c of
        Some l \<Rightarrow> l | None \<Rightarrow> c)"

definition toLowerCase :: "string \<Rightarrow> string" where
  "toLowerCase s = map toLowerCase_char s"

text \<open>\<^verbatim>\<open>s.includes(pat)\<close>: \<open>pat\<close> occurs in \<open>s\<close> as a contiguous substring.\<close>

definition str_includes :: "string \<Rightarrow> string \<Rightarrow> bool" where
  "str_includes s pat = sublist pat s"

definition isWhiteSpace :: "char \<Rightarrow> bool" where
  "isWhiteSpace c = (c \<in> set [CHR '' '', CHR 0x09, CHR 0x0A, CHR 0x0B, CHR 0x0C, CHR 0x0D])"

definition trim :: "string \<Rightarrow> string" where
  "trim s = rev (dropWhile isWhiteSpace (rev (dropWhile isWhiteSpace s)))"

text \<open>
  A cached value with the time it was stored: the objects \<^verbatim>\<open>{ data, timestamp }\<close>
  (also \<^verbatim>\<open>{ balance, timestamp }\<close>, \<^verbatim>\<open>{ balances, timestamp }\<close>,
  \<^verbatim>\<open>{ prices, timestamp }\<close>) that the caches hold.
\<close>

record 'a stamped =
  data :: 'a
  timestamp :: int

text \<open>
  An error as the handlers inspect it: \<^verbatim>\<open>err.message\<close>, \<^verbatim>\<open>err.response.status\<close>
  (\<open>None\<close> when there is no \<^verbatim>\<open>err.response\<close>) and \<^verbatim>\<open>err.code\<close>. An awaited
  request either resolves with a value or rejects with an error.
\<close>

record js_error =
  message :: string
  response_status :: "nat option"
  code :: string

datatype 'a outcome = Resolved 'a | Rejected js_error

text \<open>\<^verbatim>\<open>new Error(msg)\<close>.\<close>

definition Error :: "string \<Rightarrow> js_error" where
  "Error msg = \<lparr>message = msg, response_status = None, code = []\<rparr>"

text \<open>
  An object that serves as a dictionary (an object literal, a spread copy, or an object
  read by \<^verbatim>\<open>JSON.parse\<close>) is modelled by the map of its own properties. Its
  prototype is \<^verbatim>\<open>Object.prototype\<close>, so \<^verbatim>\<open>obj[key]\<close> finds an own property, or
  else what \<^verbatim>\<open>Object.prototype\<close> has under the key: one of its functions, or under
  \<^verbatim>\<open>__proto__\<close> the prototype itself. Such an inherited value is truthy and has none
  of the properties the program reads from an entry (\<^verbatim>\<open>price\<close>, \<^verbatim>\<open>quote\<close>, ...).
  Under any other key \<^verbatim>\<open>obj[key]\<close> is \<^verbatim>\<open>undefined\<close>.
\<close>

definition Object_prototype :: "string list" where
  "Object_prototype =
     [''constructor'', ''__defineGetter__'', ''__defineSetter__'', ''hasOwnProperty'',
      ''__lookupGetter__'', ''__lookupSetter__'', ''isPrototypeOf'', ''propertyIsEnumerable'',
      ''toString'', ''valueOf'', ''__proto__'', ''toLocaleString'']"

datatype 'a property = Own 'a | Inherited | Absent

definition getProperty :: "(string \<rightharpoonup> 'a) \<Rightarrow> string \<Rightarrow> 'a property" where
  "getProperty obj key =
     (case obj key of
        Some v \<Rightarrow> Own v
      | None \<Rightarrow> if key \<in> set Object_prototype then Inherited else Absent)"

text \<open>
  \<^verbatim>\<open>obj[key] = v\<close> for an object \<open>v\<close>: the own property is created or replaced,
  except under the key \<^verbatim>\<open>__proto__\<close>, where the setter of \<^verbatim>\<open>Object.prototype\<close>
  makes \<open>v\<close> the prototype of \<open>obj\<close> and no property is created. Nothing modelled
  here reads an object after its prototype was replaced in this way.
\<close>

definition setProperty :: "(string \<rightharpoonup> 'a) \<Rightarrow> string \<Rightarrow> 'a \<Rightarrow> (string \<rightharpoonup> 'a)" where
  "setProperty obj key v = (if key = ''__proto__'' then obj else obj(key \<mapsto> v))"

text \<open>
  A property that should hold a number, as JSON delivers it: it is missing
  (\<^verbatim>\<open>undefined\<close>), or a number, or another value (\<^verbatim>\<open>null\<close>, a string, a boolean,
  an object or an array), which has no method \<^verbatim>\<open>toFixed\<close>.
\<close>

datatype jsonNumber = Missing | Numeric rat | NonNumeric

section \<open>The price proxy: rate limiter (scripts/fetch-coinmarketcap-api.js)\<close>

text \<open>
  The module-level variables \<^verbatim>\<open>requestCount\<close> and \<^verbatim>\<open>windowStart\<close> form the state.
\<close>

definition RATE_LIMIT_WINDOW :: int where
  "RATE_LIMIT_WINDOW = 60 * 1000"

definition MAX_REQUESTS_PER_WINDOW :: nat where
  "MAX_REQUESTS_PER_WINDOW = 25"

record limiter =
  requestCount :: nat
  windowStart :: int

datatype verdict = Next | Status429

text \<open>The callback of \<^verbatim>\<open>setInterval(..., RATE_LIMIT_WINDOW)\<close>, fired at time \<open>now\<close>.\<close>

definition resetTimer :: "int \<Rightarrow> limiter \<Rightarrow> limiter" where
  "resetTimer now s = \<lparr>requestCount = 0, windowStart = now\<rparr>"

text \<open>The first \<^verbatim>\<open>if\<close> of the middleware: a new window is opened when the old one elapsed.\<close>

definition openWindow :: "int \<Rightarrow> limiter \<Rightarrow> limiter" where
  "openWindow now s =
     (if now - windowStart s > RATE_LIMIT_WINDOW
      then \<lparr>requestCount = 0, windowStart = now\<rparr> else s)"

definition rateLimiter :: "int \<Rightarrow> limiter \<Rightarrow> verdict \<times> limiter" where
  "rateLimiter now s =
     (let s1 = openWindow now s in
      if requestCount s1 \<ge> MAX_REQUESTS_PER_WINDOW then (Status429, s1)
      else (Next, s1\<lparr>requestCount := requestCount s1 + 1\<rparr>))"

text \<open>
  A run of the server: requests and timer firings, each with the time at which it is
  handled. \<open>served\<close> counts, beside the program's own variables, the requests passed on
  to a route handler since the counter was last reset, and \<open>passed\<close> lists the times of
  all requests passed on so far (latest first).
\<close>

datatype event = Request int | TimerFires int

record trace =
  rl :: limiter
  served :: nat
  passed :: "int list"

definition handle :: "trace \<Rightarrow> event \<Rightarrow> trace" where
  "handle t e =
     (case e of
        TimerFires now \<Rightarrow> t\<lparr>rl := resetTimer now (rl t), served := 0\<rparr>
      | Request now \<Rightarrow>
          (let elapsed = (now - windowStart (rl t) > RATE_LIMIT_WINDOW);
               base = (if elapsed then 0 else served t)
           in case rateLimiter now (rl t) of
                (Next, s') \<Rightarrow> \<lparr>rl = s', served = base + 1, passed = now # passed t\<rparr>
              | (Status429, s') \<Rightarrow> \<lparr>rl = s', served = base, passed = passed t\<rparr>))"

definition startup :: "int \<Rightarrow> trace" where
  "startup t0 = \<lparr>rl = \<lparr>requestCount = 0, windowStart = t0\<rparr>, served = 0, passed = []\<rparr>"

definition run :: "int \<Rightarrow> event list \<Rightarrow> trace" where
  "run t0 evs = foldl handle (startup t0) evs"

text \<open>
  A sliding interval: the number of requests passed on to a handler at a time \<open>x\<close>
  with \<open>a \<le> x < b\<close>.
\<close>

definition passedWithin :: "int \<Rightarrow> int \<Rightarrow> trace \<Rightarrow> nat" where
  "passedWithin a b t = length (filter (\<lambda>x. a \<le> x \<and> x < b) (passed t))"

section \<open>The price proxy: \<^verbatim>\<open>GET /api/price/:symbol\<close>\<close>

definition CACHE_DURATION :: int where
  "CACHE_DURATION = 5 * 60 * 1000"

text \<open>
  The \<^verbatim>\<open>responseData\<close> object, which is also what \<^verbatim>\<open>priceCache\<close> stores; the
  browser keeps the part \<^verbatim>\<open>{ price, percentChange24h, lastUpdated }\<close> of it.
\<close>

record quote =
  price :: rat
  percentChange24h :: rat
  lastUpdated :: string

record priceInfo = quote +
  pi_symbol :: string
  pi_name :: string

text \<open>
  What CoinMarketCap answered: the HTTP status and the object \<^verbatim>\<open>response.data.data\<close>,
  keyed by symbol (\<open>None\<close> when \<^verbatim>\<open>response.data\<close> or \<^verbatim>\<open>response.data.data\<close> is
  missing). \<open>usd_price\<close> is \<^verbatim>\<open>data.quote.USD.price\<close>, \<open>Missing\<close> also when
  \<^verbatim>\<open>data.quote\<close> or \<^verbatim>\<open>data.quote.USD\<close> is missing.
\<close>

record cmc_quote =
  cmc_name :: string
  usd_price :: jsonNumber
  last_updated :: string
  percent_change_24h :: rat

record cmc_response =
  http_status :: nat
  quotes :: "(string \<rightharpoonup> cmc_quote) option"

datatype body = PriceJson priceInfo | ErrorJson string

datatype reply = Reply (status: nat) (payload: body)

type_synonym priceCache = "string \<rightharpoonup> priceInfo stamped"

text \<open>
  The handler's result: the reply, \<^verbatim>\<open>priceCache\<close> afterwards, and whether the request
  to CoinMarketCap was made. \<open>isoNow\<close> stands for \<^verbatim>\<open>new Date().toISOString()\<close> and
  \<open>upstream\<close> for the answer CoinMarketCap gives when asked. \<^verbatim>\<open>priceCache\<close> is a
  \<^verbatim>\<open>Map\<close>. A price that is not a number makes \<^verbatim>\<open>price.toFixed(2)\<close> throw, which
  the inner \<^verbatim>\<open>catch\<close> answers with status 500.
\<close>

definition price_endpoint ::
  "priceCache \<Rightarrow> int \<Rightarrow> string \<Rightarrow> string \<Rightarrow> cmc_response outcome \<Rightarrow> reply \<times> priceCache \<times> bool"
where
  "price_endpoint priceCache now isoNow symbol upstream =
     (let cacheKey = toUpperCase symbol in
      case (case priceCache cacheKey of
              Some cachedData \<Rightarrow>
                if now - timestamp cachedData < CACHE_DURATION then Some cachedData else None
            | None \<Rightarrow> None) of
        Some cachedData \<Rightarrow> (Reply 200 (PriceJson (data cachedData)), priceCache, False)
      | None \<Rightarrow>
         (case upstream of
            Resolved response \<Rightarrow>
              (case (if http_status response = 200
                     then map_option (\<lambda>listing. getProperty listing symbol) (quotes response)
                     else None) of
                 Some (Own d) \<Rightarrow>
                   (case usd_price d of
                      Numeric p \<Rightarrow>
                        (let responseData =
                               \<lparr>price = p,
                                percentChange24h = percent_change_24h d,
                                lastUpdated = (if last_updated d \<noteq> [] then last_updated d else isoNow),
                                pi_symbol = symbol,
                                pi_name = (if cmc_name d \<noteq> [] then cmc_name d else symbol)\<rparr>
                         in (Reply 200 (PriceJson responseData),
                             priceCache(cacheKey \<mapsto> \<lparr>data = responseData, timestamp = now\<rparr>),
                             True))
                    | NonNumeric \<Rightarrow>
                        (Reply 500 (ErrorJson ''Error processing price data''), priceCache, True)
                    | Missing \<Rightarrow>
                        (Reply 404 (ErrorJson ''Price data not available''), priceCache, True))
               | Some Inherited \<Rightarrow>
                   (Reply 404 (ErrorJson ''Price data not available''), priceCache, True)
               | _ \<Rightarrow>
                   (Reply 404 (ErrorJson ''Token not found or invalid format''), priceCache, True))
          | Rejected error \<Rightarrow>
              (case response_status error of
                 Some st \<Rightarrow>
                   if st = 429 then
                     (case priceCache (toUpperCase symbol) of
                        Some c \<Rightarrow> (Reply 200 (PriceJson (data c)), priceCache, True)
                      | None \<Rightarrow>
                          (Reply 429 (ErrorJson ''Rate limit exceeded on upstream API''),
                           priceCache, True))
                   else (Reply st (ErrorJson ''API Error''), priceCache, True)
               | None \<Rightarrow>
                   if code error = ''ECONNABORTED''
                   then (Reply 504 (ErrorJson ''Request timeout''), priceCache, True)
                   else (Reply 500 (ErrorJson (message error)), priceCache, True))))"

text \<open>
  \<^verbatim>\<open>GET /api/prices\<close>: the \<^verbatim>\<open>forEach\<close> that answers symbols from the cache and
  collects the others in \<^verbatim>\<open>symbolsToFetch\<close>.
\<close>

definition prices_from_cache ::
  "priceCache \<Rightarrow> int \<Rightarrow> string list \<Rightarrow> (string \<times> priceInfo) list \<times> string list"
where
  "prices_from_cache priceCache now symbolArray =
     (let hit = (\<lambda>symbol. case priceCache symbol of
                    Some c \<Rightarrow>
                      if now - timestamp c < CACHE_DURATION then Some (symbol, data c) else None
                  | None \<Rightarrow> None)
      in (List.map_filter hit symbolArray,
          filter (\<lambda>symbol. hit symbol = None) symbolArray))"

section \<open>Batching of array lookups\<close>

text \<open>\<^verbatim>\<open>xs.slice(i, j)\<close> for \<open>0 \<le> i \<le> j\<close>; indices past the end are clamped.\<close>

definition slice :: "'a list \<Rightarrow> nat \<Rightarrow> nat \<Rightarrow> 'a list" where
  "slice xs i j = take (j - i) (drop i xs)"

text \<open>
  The loop \<^verbatim>\<open>for (let i = 0; i < xs.length; i += batchSize) { batch = xs.slice(i, i + batchSize); ... }\<close>
  shared by \<^verbatim>\<open>fetchTokenBalances\<close>, \<^verbatim>\<open>fetchPriceData\<close> and \<^verbatim>\<open>fetchTokenPrices\<close>:
  the list of the batches it forms, from index \<open>i\<close> on. \<^verbatim>\<open>batchSize\<close> is a positive
  constant in all three; the test \<open>0 < batchSize\<close> only makes the function total.
\<close>

function batches :: "nat \<Rightarrow> 'a list \<Rightarrow> nat \<Rightarrow> 'a list list" where
  "batches batchSize xs i =
     (if i < length xs \<and> 0 < batchSize
      then slice xs i (i + batchSize) # batches batchSize xs (i + batchSize)
      else [])"
  by pat_completeness auto
termination
  by (relation "measure (\<lambda>(batchSize, xs, i). length xs - i)") auto

declare batches.simps [simp del]

definition tokenBalance_batches :: "'a list \<Rightarrow> 'a list list" where
  "tokenBalance_batches sortedAddresses = batches 5 sortedAddresses 0"

definition priceData_batches :: "'a list \<Rightarrow> 'a list list" where
  "priceData_batches symbolsToFetch = batches 3 symbolsToFetch 0"

definition walletSymbols_batches :: "'a list \<Rightarrow> 'a list list" where
  "walletSymbols_batches symbols = batches 5 symbols 0"

text \<open>
  \<^verbatim>\<open>Array.prototype.sort(compare)\<close>: a stable sort; \<open>compare a b \<le> 0\<close> keeps \<open>a\<close>
  before \<open>b\<close>.
\<close>

fun insert_by :: "('a \<Rightarrow> 'a \<Rightarrow> rat) \<Rightarrow> 'a \<Rightarrow> 'a list \<Rightarrow> 'a list" where
  "insert_by compare x [] = [x]"
| "insert_by compare x (y # ys) =
     (if compare x y \<le> 0 then x # y # ys else y # insert_by compare x ys)"

definition sort_by :: "('a \<Rightarrow> 'a \<Rightarrow> rat) \<Rightarrow> 'a list \<Rightarrow> 'a list" where
  "sort_by compare xs = foldr (insert_by compare) xs []"

text \<open>\<^verbatim>\<open>xs.indexOf(x)\<close>, \<open>-1\<close> when \<open>x\<close> is not an element.\<close>

fun indexOf :: "'a list \<Rightarrow> 'a \<Rightarrow> int" where
  "indexOf [] x = -1"
| "indexOf (y # ys) x = (if y = x then 0 else (let r = indexOf ys x in if r = -1 then -1 else r + 1))"

text \<open>A token as \<^verbatim>\<open>processTokenTransactions\<close> records it in \<^verbatim>\<open>uniqueTokens\<close>.\<close>

record token =
  address :: string
  symbol :: string
  name :: string
  decimals :: int

text \<open>
  \<^verbatim>\<open>uniqueTokens\<close> is an object keyed by the lower-cased contract address; it is
  modelled as an association list in insertion order, the order of \<^verbatim>\<open>Object.keys\<close>.
  Contract addresses are hexadecimal numbers (\<^verbatim>\<open>0x...\<close>), so no key names a property
  of \<^verbatim>\<open>Object.prototype\<close>.
\<close>

type_synonym uniqueTokens = "(string \<times> token) list"

definition priorityTokens :: "string list" where
  "priorityTokens = [''USDC'', ''USDT'', ''DAI'', ''WETH'', ''WBTC'', ''LINK'']"

definition priority :: "uniqueTokens \<Rightarrow> string \<Rightarrow> int" where
  "priority uniqueTokens a =
     (case map_of uniqueTokens a of
        Some tokenA \<Rightarrow> indexOf priorityTokens (symbol tokenA)
      | None \<Rightarrow> -1)"

definition comparePriority :: "uniqueTokens \<Rightarrow> string \<Rightarrow> string \<Rightarrow> rat" where
  "comparePriority uniqueTokens a b =
     (let priorityA = priority uniqueTokens a; priorityB = priority uniqueTokens b in
      if priorityA \<noteq> -1 \<and> priorityB \<noteq> -1 then of_int (priorityA - priorityB)
      else if priorityA \<noteq> -1 then -1
      else if priorityB \<noteq> -1 then 1
      else 0)"

definition sortedAddresses :: "uniqueTokens \<Rightarrow> string list" where
  "sortedAddresses uniqueTokens = sort_by (comparePriority uniqueTokens) (map fst uniqueTokens)"

section \<open>WalletAssets: numbers read from strings\<close>

text \<open>
  A JavaScript number is \<^verbatim>\<open>NaN\<close> or a value, modelled as an exact rational: the
  rounding of IEEE doubles, infinities and underflow are not modelled.
\<close>

datatype number = NaN | Num rat

definition js_times :: "number \<Rightarrow> number \<Rightarrow> number" where
  "js_times a b = (case (a, b) of (Num x, Num y) \<Rightarrow> Num (x * y) | _ \<Rightarrow> NaN)"

definition js_gt :: "number \<Rightarrow> number \<Rightarrow> bool" where
  "js_gt a b = (case (a, b) of (Num x, Num y) \<Rightarrow> x > y | _ \<Rightarrow> False)"

definition js_ge :: "number \<Rightarrow> number \<Rightarrow> bool" where
  "js_ge a b = (case (a, b) of (Num x, Num y) \<Rightarrow> x \<ge> y | _ \<Rightarrow> False)"

definition isNaN :: "number \<Rightarrow> bool" where
  "isNaN a = (a = NaN)"

definition isDigit :: "char \<Rightarrow> bool" where
  "isDigit c = (c \<in> set ''0123456789'')"

definition digitValue :: "char \<Rightarrow> nat" where
  "digitValue c =
     (case map_of (zip ''0123456789'' [0, 1, 2, 3, 4, 5, 6, 7, 8, 9]) c of
        Some d \<Rightarrow> d | None \<Rightarrow> 0)"

definition digitsValue :: "string \<Rightarrow> nat" where
  "digitsValue ds = foldl (\<lambda>acc c. 10 * acc + digitValue c) 0 ds"

text \<open>
  An optional sign in front of the rest of the string.
\<close>

definition signed :: "string \<Rightarrow> bool \<times> string" where
  "signed t =
     (case t of
        [] \<Rightarrow> (False, [])
      | c # r \<Rightarrow> if c = CHR ''-'' then (True, r) else if c = CHR ''+'' then (False, r) else (False, t))"

text \<open>
  \<^verbatim>\<open>parseFloat\<close> on decimal literals: leading white space, an optional sign, digits
  with an optional fraction; what follows is ignored, and a string with no digit there is
  \<^verbatim>\<open>NaN\<close>. Exponents and \<^verbatim>\<open>Infinity\<close> are not modelled (the balance strings are
  produced by \<^verbatim>\<open>ethers.formatUnits\<close>, which writes neither).
\<close>

definition parseFloat :: "string \<Rightarrow> number" where
  "parseFloat s =
     (let (neg, u) = signed (dropWhile isWhiteSpace s);
          ip = takeWhile isDigit u;
          rest = dropWhile isDigit u;
          fp = (case rest of [] \<Rightarrow> [] | c # r \<Rightarrow> if c = CHR ''.'' then takeWhile isDigit r else [])
      in if ip = [] \<and> fp = [] then NaN
         else Num ((if neg then -1 else 1) *
                   (of_nat (digitsValue ip) + of_nat (digitsValue fp) / 10 ^ length fp)))"

text \<open>\<^verbatim>\<open>parseInt(s, 10)\<close>: \<open>None\<close> is \<^verbatim>\<open>NaN\<close>.\<close>

definition parseInt :: "string \<Rightarrow> int option" where
  "parseInt s =
     (let (neg, u) = signed (dropWhile isWhiteSpace s);
          ip = takeWhile isDigit u
      in if ip = [] then None
         else Some ((if neg then -1 else 1) * int (digitsValue ip)))"

section \<open>WalletAssets: spam filter\<close>

text \<open>
  The alternatives of \<^verbatim>\<open>URL_PATTERN_REGEX\<close>, each a literal string once the escapes
  are resolved. The regular expression has the flag \<^verbatim>\<open>i\<close>: it matches when an
  alternative occurs in the string, letter case ignored.
\<close>

definition URL_PATTERNS :: "string list" where
  "URL_PATTERNS =
     [''http'', ''https'', ''www.'', ''.com'', ''.net'', ''.org'', ''.io'', ''.xyz'', ''.eth'',
      ''.app'', ''.finance'', ''.exchange'', ''.crypto'', ''://'', ''.me'', ''.co'', ''.site'',
      ''.info'', ''url='', ''link='', ''website'', ''telegram'', ''twitter'', ''discord'',
      ''t.me/'', ''github'']"

definition URL_PATTERN_REGEX_test :: "string \<Rightarrow> bool" where
  "URL_PATTERN_REGEX_test str =
     (let canonical = toUpperCase str in
      list_ex (str_includes canonical) (map toUpperCase URL_PATTERNS))"

definition containsUrlPattern :: "string \<Rightarrow> bool" where
  "containsUrlPattern str = (if str = [] then False else URL_PATTERN_REGEX_test str)"

text \<open>What the spam filter lets through: a symbol that is not blank, and no URL pattern.\<close>

definition notSpam :: "string \<Rightarrow> string \<Rightarrow> bool" where
  "notSpam sy nm =
     (sy \<noteq> [] \<and> trim sy \<noteq> [] \<and> \<not> URL_PATTERN_REGEX_test sy \<and> \<not> URL_PATTERN_REGEX_test nm)"

section \<open>WalletAssets: \<^verbatim>\<open>processTokenTransactions\<close>\<close>

text \<open>A token transfer as Etherscan lists it (the fields the function reads).\<close>

record tx =
  contractAddress :: string
  tokenSymbol :: string
  tokenName :: string
  tokenDecimal :: string

text \<open>
  The variables of the loop. \<^verbatim>\<open>uniqueTokens[tokenAddress] = ...\<close> replaces the value
  of a key the object has and appends a new key otherwise.
\<close>

record processing =
  uniqueTokens :: uniqueTokens
  processedAddresses :: "string list"
  tokensWithSymbols :: nat
  tokensWithoutSymbols :: nat
  tokensWithUrlPatterns :: nat

fun assign :: "string \<Rightarrow> 'v \<Rightarrow> (string \<times> 'v) list \<Rightarrow> (string \<times> 'v) list" where
  "assign k v [] = [(k, v)]"
| "assign k v (p # ps) = (if fst p = k then (k, v) # ps else p # assign k v ps)"

definition processTx :: "processing \<Rightarrow> tx \<Rightarrow> processing" where
  "processTx st t =
     (if contractAddress t = [] then st
      else
        let tokenAddress = toLowerCase (contractAddress t) in
        if tokenAddress \<in> set (processedAddresses st) then st
        else
          let st1 = st\<lparr>processedAddresses := processedAddresses st @ [tokenAddress]\<rparr>;
              hasSymbol = (tokenSymbol t \<noteq> [] \<and> trim (tokenSymbol t) \<noteq> []);
              containsUrl = (containsUrlPattern (tokenSymbol t) \<or> containsUrlPattern (tokenName t))
          in
          if containsUrl then st1\<lparr>tokensWithUrlPatterns := tokensWithUrlPatterns st1 + 1\<rparr>
          else if hasSymbol then
            st1\<lparr>tokensWithSymbols := tokensWithSymbols st1 + 1,
                uniqueTokens :=
                  assign tokenAddress
                    \<lparr>address = contractAddress t,
                     symbol = tokenSymbol t,
                     name = (if tokenName t \<noteq> [] then tokenName t else tokenSymbol t),
                     decimals = (case parseInt (tokenDecimal t) of
                                   None \<Rightarrow> 18
                                 | Some d \<Rightarrow> if d = 0 then 18 else d)\<rparr>
                    (uniqueTokens st1)\<rparr>
          else st1\<lparr>tokensWithoutSymbols := tokensWithoutSymbols st1 + 1\<rparr>)"

definition processTokenTransactions :: "tx list \<Rightarrow> processing" where
  "processTokenTransactions tokenTxs =
     foldl processTx
       \<lparr>uniqueTokens = [], processedAddresses = [], tokensWithSymbols = 0,
        tokensWithoutSymbols = 0, tokensWithUrlPatterns = 0\<rparr>
       tokenTxs"

section \<open>WalletAssets: the asset list of \<^verbatim>\<open>fetchAssets\<close>\<close>

text \<open>
  What \<^verbatim>\<open>fetchTokenBalance\<close> returns for a token: the token's fields and its balance.
  \<open>error\<close> is \<open>False\<close> and \<open>cacheTime\<close> is \<open>None\<close> where the object has no such property.
\<close>

record tokenData = token +
  balance :: string
  balanceRaw :: string
  cacheTime :: "int option"
  error :: bool

text \<open>
  An entry of \<^verbatim>\<open>assetsWithValue\<close>. The ETH entry is the literal
  \<^verbatim>\<open>{ symbol, name, balance, usdValue }\<close>; the token fields it does not have are given
  the values of \<open>ethFields\<close>, which nothing reads.
\<close>

record asset = tokenData +
  usdValue :: number

text \<open>
  The price object of the browser, keyed by symbol: the own properties of an object that
  is used as a dictionary.
\<close>

type_synonym prices = "string \<rightharpoonup> quote"

definition validBalances :: "tokenData list \<Rightarrow> tokenData list" where
  "validBalances tokenBalances =
     filter (\<lambda>t. \<not> error t \<and>
                 js_gt (parseFloat (balance t)) (Num 0) \<and>
                 symbol t \<noteq> [] \<and>
                 trim (symbol t) \<noteq> [] \<and>
                 \<not> containsUrlPattern (symbol t) \<and>
                 \<not> containsUrlPattern (name t))
       tokenBalances"

definition ethAsset :: "string \<Rightarrow> prices \<Rightarrow> asset" where
  "ethAsset ethBalance ps =
     \<lparr>address = [], symbol = ''ETH'', name = ''Ethereum'', decimals = 0,
      balance = ethBalance, balanceRaw = [], cacheTime = None, error = False,
      usdValue = (case ps ''ETH'' of
                    Some q \<Rightarrow> js_times (parseFloat ethBalance) (Num (price q))
                  | None \<Rightarrow> Num 0)\<rparr>"

text \<open>
  The callback of \<^verbatim>\<open>validBalances.map\<close>. When \<^verbatim>\<open>prices[asset.symbol]\<close> is an
  inherited value, its \<^verbatim>\<open>price\<close> is \<^verbatim>\<open>undefined\<close>, and the product of a number
  and \<^verbatim>\<open>undefined\<close> is \<^verbatim>\<open>NaN\<close>. \<^verbatim>\<open>ETH\<close> is no property of
  \<^verbatim>\<open>Object.prototype\<close>, so \<^verbatim>\<open>prices.ETH\<close> above is an own property or
  \<^verbatim>\<open>undefined\<close>.
\<close>

definition withUsdValue :: "prices \<Rightarrow> tokenData \<Rightarrow> asset" where
  "withUsdValue ps a =
     (let p = (case getProperty ps (symbol a) of
                 Own q \<Rightarrow> Num (price q)
               | Inherited \<Rightarrow> NaN
               | Absent \<Rightarrow> Num 0) in
      tokenData.extend a (asset.fields (js_times (parseFloat (balance a)) p)))"

text \<open>
  \<^verbatim>\<open>ethBalance\<close> is the component's state variable as the callback captured it, not
  the balance just fetched.
\<close>

definition assetsWithValue :: "string \<Rightarrow> tokenData list \<Rightarrow> prices \<Rightarrow> asset list" where
  "assetsWithValue ethBalance tokenBalances ps =
     ethAsset ethBalance ps # map (withUsdValue ps) (validBalances tokenBalances)"

definition totalNetWorth :: "asset list \<Rightarrow> rat" where
  "totalNetWorth as =
     foldl (\<lambda>total a. case usdValue a of
                         Num v \<Rightarrow> if v \<noteq> 0 then total + v else total
                       | NaN \<Rightarrow> total)
       0 as"

definition compareUsdValue :: "asset \<Rightarrow> asset \<Rightarrow> rat" where
  "compareUsdValue a b =
     (case (usdValue b, usdValue a) of (Num y, Num x) \<Rightarrow> y - x | _ \<Rightarrow> 0)"

text \<open>The value a number adds to a sum; \<^verbatim>\<open>NaN\<close> entries are left out of sums.\<close>

definition numberValue :: "number \<Rightarrow> rat" where
  "numberValue n = (case n of Num v \<Rightarrow> v | NaN \<Rightarrow> 0)"

text \<open>
  The effects of a successful run of \<^verbatim>\<open>fetchAssets\<close> after the balances and prices are
  in: the argument of \<^verbatim>\<open>onAssetsLoaded\<close> (no entry lacks \<^verbatim>\<open>usdValue\<close>, so the final
  \<^verbatim>\<open>map\<close> returns every entry as it is), the argument of \<^verbatim>\<open>updateNetWorth\<close> and the
  list given to \<^verbatim>\<open>setAssets\<close>.
\<close>

record loaded =
  onAssetsLoaded :: "asset list"
  updateNetWorth :: rat
  setAssets :: "asset list"

definition fetchAssets_finish :: "string \<Rightarrow> tokenData list \<Rightarrow> prices \<Rightarrow> loaded" where
  "fetchAssets_finish ethBalance tokenBalances ps =
     (let assetsWithValue = assetsWithValue ethBalance tokenBalances ps in
      \<lparr>onAssetsLoaded = assetsWithValue,
       updateNetWorth = totalNetWorth assetsWithValue,
       setAssets = sort_by compareUsdValue (tl assetsWithValue)\<rparr>)"

text \<open>
  Example inputs: the balances of six tokens (two held, one advertising a web site, one
  with a blank symbol, one with balance zero, one whose balance request failed), a price
  object, and three token transfers.
\<close>

definition exampleBalances :: "tokenData list" where
  "exampleBalances =
     [\<lparr>address = ''0xA'', symbol = ''USDC'', name = ''USD Coin'', decimals = 6,
       balance = ''12.50'', balanceRaw = ''12500000'', cacheTime = Some 7, error = False\<rparr>,
      \<lparr>address = ''0xB'', symbol = ''WIN'', name = ''claim at www.win.io'', decimals = 18,
       balance = ''1.0'', balanceRaw = ''1000000000000000000'', cacheTime = Some 7, error = False\<rparr>,
      \<lparr>address = ''0xC'', symbol = ''  '', name = ''Blank'', decimals = 18,
       balance = ''2.0'', balanceRaw = ''2000000000000000000'', cacheTime = Some 7, error = False\<rparr>,
      \<lparr>address = ''0xD'', symbol = ''FOO'', name = ''Foo'', decimals = 18,
       balance = ''0.0'', balanceRaw = ''0'', cacheTime = Some 7, error = False\<rparr>,
      \<lparr>address = ''0xE'', symbol = ''BAR'', name = ''Bar'', decimals = 18,
       balance = ''Error'', balanceRaw = ''0'', cacheTime = None, error = True\<rparr>,
      \<lparr>address = ''0xF'', symbol = ''BAZ'', name = ''Baz'', decimals = 18,
       balance = ''3.0'', balanceRaw = ''3000000000000000000'', cacheTime = Some 7, error = False\<rparr>]"

definition examplePrices :: prices where
  "examplePrices =
     [''ETH'' \<mapsto> \<lparr>price = 2000, percentChange24h = 1, lastUpdated = ''t''\<rparr>,
      ''USDC'' \<mapsto> \<lparr>price = 2, percentChange24h = 0, lastUpdated = ''t''\<rparr>]"

definition exampleTxs :: "tx list" where
  "exampleTxs =
     [\<lparr>contractAddress = ''0xAB'', tokenSymbol = ''USDC'', tokenName = ''USD Coin'',
       tokenDecimal = ''6''\<rparr>,
      \<lparr>contractAddress = ''0xEF'', tokenSymbol = ''WIN'', tokenName = ''claim at www.win.io'',
       tokenDecimal = ''18''\<rparr>,
      \<lparr>contractAddress = ''0xCD'', tokenSymbol = ''  '', tokenName = ''Blank'',
       tokenDecimal = ''18''\<rparr>]"

section \<open>WalletAssets: \<^verbatim>\<open>fetchEthBalance\<close>\<close>

text \<open>
  What a run of a fetching function did: the value it returned, the cache afterwards,
  whether it made its network request, and the lines it wrote with \<^verbatim>\<open>console.error\<close>.
\<close>

record ('r, 'c) ran =
  returned :: 'r
  cache :: 'c
  fetched :: bool
  logged :: "string list"

text \<open>
  The items \<^verbatim>\<open>eth-balance-${walletAddress}\<close> of \<^verbatim>\<open>sessionStorage\<close>, by wallet
  address. Items are written by this function only, so they parse, and writing them is
  taken to succeed. \<open>now\<close> is the clock at the cache check and \<open>later\<close> the clock when the
  result is stored; \<open>rpc\<close> is the outcome of \<^verbatim>\<open>provider.getBalance\<close>, formatted by
  \<^verbatim>\<open>ethers.formatEther\<close>.
\<close>

definition fetchEthBalance ::
  "(string \<rightharpoonup> string stamped) \<Rightarrow> string \<Rightarrow> int \<Rightarrow> int \<Rightarrow> string outcome
   \<Rightarrow> (string, string \<rightharpoonup> string stamped) ran"
where
  "fetchEthBalance session walletAddress now later rpc =
     (case (case session walletAddress of
              Some cachedData \<Rightarrow>
                if now - timestamp cachedData < 2 * 60 * 1000 then Some (data cachedData) else None
            | None \<Rightarrow> None) of
        Some cachedBalance \<Rightarrow>
          \<lparr>returned = cachedBalance, cache = session, fetched = False, logged = []\<rparr>
      | None \<Rightarrow>
          (case rpc of
             Resolved formattedBalance \<Rightarrow>
               \<lparr>returned = formattedBalance,
                cache = session(walletAddress \<mapsto> \<lparr>data = formattedBalance, timestamp = later\<rparr>),
                fetched = True, logged = []\<rparr>
           | Rejected err \<Rightarrow>
               \<lparr>returned = ''Error'', cache = session, fetched = True,
                logged = [''Failed to fetch ETH balance:'']\<rparr>))"

section \<open>StakingData\<close>

text \<open>
  An element of \<^verbatim>\<open>stats.data\<close>, with the properties the component reads:
  \<^verbatim>\<open>staking_token.symbol\<close>, \<^verbatim>\<open>staking_token.slug\<close>, \<^verbatim>\<open>protocol.id\<close>,
  \<^verbatim>\<open>protocol.name\<close>, \<^verbatim>\<open>apy\<close> and the names of its chains. The answers of the
  four endpoints that are used: protocols as pairs of id and name, tokens as pairs of
  slug and symbol, and the pools.
\<close>

record stats_item =
  staking_token_symbol :: string
  staking_token_slug :: string
  protocol_id :: string
  protocol_name :: string
  apy :: jsonNumber
  chain_names :: "string list"

record stakingwatch =
  protocols :: "(string \<times> string) list"
  tokens :: "(string \<times> string) list"
  stats :: "stats_item list"

text \<open>
  A row of \<^verbatim>\<open>stakingData\<close>. The strings \<^verbatim>\<open>apr\<close> and \<^verbatim>\<open>tvl\<close> of the source are
  renderings of numbers for the table and are left out.
\<close>

record opportunity =
  protocol :: string
  asset :: string
  aprValue :: rat
  chains :: "string list"

text \<open>\<^verbatim>\<open>new Map(pairs).get(k)\<close>: the last pair with the key counts.\<close>

definition Map_get :: "('k \<times> 'v) list \<Rightarrow> 'k \<rightharpoonup> 'v" where
  "Map_get pairs k = map_of (rev pairs) k"

definition assetName :: "(string \<times> string) list \<Rightarrow> stats_item \<Rightarrow> string" where
  "assetName tokenList item =
     (let listedSymbol = (case Map_get tokenList (staking_token_slug item) of
                            Some s \<Rightarrow> s | None \<Rightarrow> [])
      in if staking_token_symbol item \<noteq> [] then staking_token_symbol item
         else if listedSymbol \<noteq> [] then listedSymbol
         else ''Unknown'')"

definition protocolName :: "(string \<times> string) list \<Rightarrow> stats_item \<Rightarrow> string" where
  "protocolName protocolList item =
     (let listed = (case Map_get protocolList (protocol_id item) of
                      Some n \<Rightarrow> n | None \<Rightarrow> [])
      in if listed \<noteq> [] then listed
         else if protocol_name item \<noteq> [] then protocol_name item
         else ''Unknown'')"

text \<open>
  \<^verbatim>\<open>aprValue\<close>, which is \<^verbatim>\<open>item.apy\<close> unless that is \<^verbatim>\<open>undefined\<close>.
\<close>

definition aprOf :: "stats_item \<Rightarrow> jsonNumber" where
  "aprOf item = (case apy item of Missing \<Rightarrow> Numeric 0 | v \<Rightarrow> v)"

text \<open>
  The exception of a call of \<^verbatim>\<open>toFixed\<close> on a value that has no such method. Its
  message depends on the value and on the engine and is only written to the console; it
  is given here as the name of the method.
\<close>

definition TypeError :: js_error where
  "TypeError = Error ''toFixed''"

text \<open>
  The callback of \<^verbatim>\<open>stats.data.reduce\<close>; \<open>row\<close> is the object it pushes for a pool
  whose \<^verbatim>\<open>aprValue\<close> is the number \<open>v\<close>. For an \<^verbatim>\<open>aprValue\<close> other than 0 the
  callback evaluates \<^verbatim>\<open>aprValue.toFixed(2)\<close>, which throws when the value is not a
  number; the exception ends the \<^verbatim>\<open>reduce\<close>.
\<close>

definition row :: "stakingwatch \<Rightarrow> stats_item \<Rightarrow> rat \<Rightarrow> opportunity" where
  "row api item v =
     \<lparr>protocol = protocolName (protocols api) item,
      asset = assetName (tokens api) item,
      aprValue = v,
      chains = chain_names item\<rparr>"

definition reducer ::
  "stakingwatch \<Rightarrow> opportunity list \<Rightarrow> stats_item \<Rightarrow> js_error + opportunity list"
where
  "reducer api acc item =
     (if assetName (tokens api) item = ''Unknown'' then Inr acc
      else case aprOf item of
             Numeric v \<Rightarrow> if v \<le> 0 then Inr acc else Inr (acc @ [row api item v])
           | _ \<Rightarrow> Inl TypeError)"

definition processedData :: "stakingwatch \<Rightarrow> js_error + opportunity list" where
  "processedData api =
     foldl (\<lambda>acc item. case acc of Inl err \<Rightarrow> Inl err | Inr rows \<Rightarrow> reducer api rows item)
       (Inr []) (stats api)"

definition sortedData :: "stakingwatch \<Rightarrow> js_error + opportunity list" where
  "sortedData api =
     (case processedData api of
        Inl err \<Rightarrow> Inl err
      | Inr rows \<Rightarrow> Inr (sort_by (\<lambda>a b. aprValue b - aprValue a) rows))"

text \<open>The two \<^verbatim>\<open>useMemo\<close> values: the user's symbols and the rows shown.\<close>

definition userAssetSymbols :: "asset list \<Rightarrow> string set" where
  "userAssetSymbols userAssets =
     set (map (\<lambda>a. toUpperCase (symbol a)) (filter (\<lambda>a. symbol a \<noteq> []) userAssets))"

definition filteredStakingData :: "opportunity list \<Rightarrow> asset list \<Rightarrow> opportunity list" where
  "filteredStakingData stakingData userAssets =
     (if userAssets = [] then []
      else filter (\<lambda>item. toUpperCase (asset item) \<in> userAssetSymbols userAssets) stakingData)"

text \<open>
  \<^verbatim>\<open>fetchStakingData\<close>: the new value of the state \<^verbatim>\<open>stakingData\<close> is returned;
  the cache is the item \<^verbatim>\<open>staking-data-cache\<close> of \<^verbatim>\<open>sessionStorage\<close>. A request
  that fails and an exception while the answers are processed end in the same
  \<^verbatim>\<open>catch\<close>, which writes to the console and sets the error message that the
  component then shows in place of the table; the state \<^verbatim>\<open>stakingData\<close> stays as it
  was.
\<close>

definition fetchStakingData ::
  "opportunity list stamped option \<Rightarrow> string \<Rightarrow> int \<Rightarrow> int \<Rightarrow> stakingwatch outcome
   \<Rightarrow> opportunity list
   \<Rightarrow> (opportunity list, opportunity list stamped option) ran"
where
  "fetchStakingData session walletAddress now later api stakingData =
     (if walletAddress = [] then
        \<lparr>returned = stakingData, cache = session, fetched = False, logged = []\<rparr>
      else
        case (case session of
                Some cachedData \<Rightarrow>
                  if now - timestamp cachedData < 10 * 60 * 1000 then Some (data cachedData)
                  else None
              | None \<Rightarrow> None) of
          Some cached \<Rightarrow> \<lparr>returned = cached, cache = session, fetched = False, logged = []\<rparr>
        | None \<Rightarrow>
            (case (case api of
                     Resolved answers \<Rightarrow> sortedData answers
                   | Rejected err \<Rightarrow> Inl err) of
               Inr sortedRows \<Rightarrow>
                 \<lparr>returned = sortedRows,
                  cache = Some \<lparr>data = sortedRows, timestamp = later\<rparr>,
                  fetched = True, logged = []\<rparr>
             | Inl err \<Rightarrow>
                 \<lparr>returned = stakingData, cache = session, fetched = True,
                  logged = [''Error fetching staking data:'']\<rparr>))"

text \<open>Example: the answers of the service with six pools.\<close>

definition exampleStaking :: stakingwatch where
  "exampleStaking =
     \<lparr>protocols = [(''1'', ''Lido''), (''2'', ''Rocket Pool'')],
      tokens = [(''usd-coin'', ''usdc'')],
      stats =
        [\<lparr>staking_token_symbol = ''ETH'', staking_token_slug = ''ethereum'', protocol_id = ''2'',
          protocol_name = ''rocket'', apy = Numeric 3, chain_names = [''Ethereum'']\<rparr>,
         \<lparr>staking_token_symbol = [], staking_token_slug = ''usd-coin'', protocol_id = ''9'',
          protocol_name = ''Aave'', apy = Numeric (9 / 2), chain_names = []\<rparr>,
         \<lparr>staking_token_symbol = ''eth'', staking_token_slug = ''ethereum'', protocol_id = ''1'',
          protocol_name = [], apy = Numeric 4, chain_names = [''Ethereum'']\<rparr>,
         \<lparr>staking_token_symbol = ''SOL'', staking_token_slug = ''solana'', protocol_id = ''7'',
          protocol_name = ''Marinade'', apy = Numeric 7, chain_names = [''Solana'']\<rparr>,
         \<lparr>staking_token_symbol = ''ETH'', staking_token_slug = ''ethereum'', protocol_id = ''3'',
          protocol_name = ''Frozen'', apy = Numeric 0, chain_names = []\<rparr>,
         \<lparr>staking_token_symbol = [], staking_token_slug = ''mystery'', protocol_id = ''4'',
          protocol_name = ''Nameless'', apy = Numeric 8, chain_names = []\<rparr>]\<rparr>"

section \<open>WalletAssets: \<^verbatim>\<open>fetchTokenBalance\<close> and \<^verbatim>\<open>fetchTokenBalances\<close>\<close>

definition CACHE_EXPIRY :: int where
  "CACHE_EXPIRY = 5 * 60 * 1000"

text \<open>
  The resolved value of \<^verbatim>\<open>contract.balanceOf\<close> as the function uses it: formatted by
  \<^verbatim>\<open>ethers.formatUnits\<close> and printed by \<^verbatim>\<open>toString\<close>. A rejection stands for any
  exception in the \<^verbatim>\<open>try\<close> block, the 4 s timeout included.
\<close>

record chainBalance =
  formatted :: string
  raw :: string

text \<open>\<^verbatim>\<open>globalTokenBalanceCache\<close>, keyed by \<^verbatim>\<open>`${walletAddress}-${tokenAddress}`\<close>.\<close>

type_synonym balanceCache = "string \<rightharpoonup> tokenData"

definition fetchTokenBalance ::
  "balanceCache \<Rightarrow> string \<Rightarrow> token \<Rightarrow> string \<Rightarrow> int \<Rightarrow> int \<Rightarrow> chainBalance outcome
   \<Rightarrow> (tokenData option, balanceCache) ran"
where
  "fetchTokenBalance globalTokenBalanceCache walletAddress tok tokenAddress now later rpc =
     (let cacheKey = walletAddress @ ''-'' @ tokenAddress in
      case (case globalTokenBalanceCache cacheKey of
              Some cachedData \<Rightarrow>
                if now - (case cacheTime cachedData of Some t \<Rightarrow> t | None \<Rightarrow> 0) < CACHE_EXPIRY
                then Some cachedData else None
            | None \<Rightarrow> None) of
        Some cachedData \<Rightarrow>
          \<lparr>returned = Some cachedData, cache = globalTokenBalanceCache, fetched = False,
           logged = []\<rparr>
      | None \<Rightarrow>
          if containsUrlPattern (symbol tok) \<or> containsUrlPattern (name tok) then
            \<lparr>returned = None, cache = globalTokenBalanceCache, fetched = False, logged = []\<rparr>
          else if symbol tok = [] \<or> trim (symbol tok) = [] then
            \<lparr>returned = None, cache = globalTokenBalanceCache, fetched = False, logged = []\<rparr>
          else
            (case rpc of
               Resolved b \<Rightarrow>
                 (let tokenData =
                        token.extend tok
                          (tokenData.fields (formatted b) (raw b) (Some later) False)
                  in \<lparr>returned = Some tokenData,
                      cache = globalTokenBalanceCache(cacheKey \<mapsto> tokenData),
                      fetched = True, logged = []\<rparr>)
             | Rejected err \<Rightarrow>
                 \<lparr>returned = Some (token.extend tok (tokenData.fields ''Error'' ''0'' None True)),
                  cache = globalTokenBalanceCache, fetched = True,
                  logged = [''Error fetching balance for '' @ symbol tok @ '':'']\<rparr>))"

text \<open>
  What the requests of one run of \<^verbatim>\<open>fetchAssets\<close> meet: whether the Etherscan key is
  configured, the outcome of each request (per token address for the balances, per
  symbol for the prices), and the clock. The clock is read as \<open>t_check\<close> when a stored item
  is checked and as \<open>t_store\<close> when a result is stored; for the balance of a token these are
  \<open>checkedAt\<close> and \<open>storedAt\<close> of its address.
\<close>

record etherscan =
  es_status :: string
  es_message :: string
  es_result :: "tx list"

record world =
  apiKeyDefined :: bool
  ethRpc :: "string outcome"
  etherscanApi :: "etherscan outcome"
  balanceOf :: "string \<Rightarrow> chainBalance outcome"
  proxy :: "string \<Rightarrow> reply outcome"
  t_check :: int
  t_store :: int
  checkedAt :: "string \<Rightarrow> int"
  storedAt :: "string \<Rightarrow> int"

text \<open>
  The variables of the batch loop: \<^verbatim>\<open>globalTokenBalanceCache\<close>, the results of the
  calls so far with their token address (\<^verbatim>\<open>batchResults\<close> of all batches, in order),
  \<^verbatim>\<open>tokenBalances\<close>, the token addresses whose balance was requested from the chain,
  and the lines written with \<^verbatim>\<open>console.error\<close>.
\<close>

record balanceLoop =
  globalCache :: balanceCache
  batchResults :: "(string \<times> tokenData option) list"
  tokenBalances :: "tokenData list"
  requested :: "string list"
  errorLines :: "string list"

text \<open>
  One call \<^verbatim>\<open>fetchTokenBalance(walletAddress, uniqueTokens[tokenAddress], tokenAddress)\<close>
  of a batch. The calls of a batch run side by side; as each reads and writes only the
  cache key of its own token address, they are taken one after the other. The addresses
  are keys of \<^verbatim>\<open>uniqueTokens\<close>, so the lookup succeeds.
\<close>

definition fetchOne :: "world \<Rightarrow> string \<Rightarrow> uniqueTokens \<Rightarrow> balanceLoop \<Rightarrow> string \<Rightarrow> balanceLoop" where
  "fetchOne w walletAddress toks st tokenAddress =
     (case map_of toks tokenAddress of
        None \<Rightarrow> st
      | Some tok \<Rightarrow>
          (let r = fetchTokenBalance (globalCache st) walletAddress tok tokenAddress
                     (checkedAt w tokenAddress) (storedAt w tokenAddress) (balanceOf w tokenAddress)
           in \<lparr>globalCache = cache r,
               batchResults = batchResults st @ [(tokenAddress, returned r)],
               tokenBalances = tokenBalances st @ (case returned r of Some d \<Rightarrow> [d] | None \<Rightarrow> []),
               requested = requested st @ (if fetched r then [tokenAddress] else []),
               errorLines = errorLines st @ logged r\<rparr>))"

definition balanceLoop :: "world \<Rightarrow> string \<Rightarrow> uniqueTokens \<Rightarrow> balanceCache \<Rightarrow> balanceLoop" where
  "balanceLoop w walletAddress toks globalTokenBalanceCache =
     foldl (\<lambda>st batch. foldl (fetchOne w walletAddress toks) st batch)
       \<lparr>globalCache = globalTokenBalanceCache, batchResults = [], tokenBalances = [],
        requested = [], errorLines = []\<rparr>
       (tokenBalance_batches (sortedAddresses toks))"

text \<open>
  The entries of a cached batch that belong to the current tokens
  (\<^verbatim>\<open>validCachedBalances\<close>).
\<close>

definition validCachedBalances :: "uniqueTokens \<Rightarrow> tokenData list \<Rightarrow> tokenData list" where
  "validCachedBalances toks balances =
     filter (\<lambda>t. address t \<noteq> [] \<and> map_of toks (toLowerCase (address t)) \<noteq> None) balances"

text \<open>
  \<^verbatim>\<open>fetchTokenBalances\<close>. The two caches are the items
  \<^verbatim>\<open>token-balances-${walletAddress}\<close> of \<^verbatim>\<open>sessionStorage\<close>, by wallet address, and
  \<^verbatim>\<open>globalTokenBalanceCache\<close>.
\<close>

definition fetchTokenBalances ::
  "(string \<rightharpoonup> tokenData list stamped) \<Rightarrow> balanceCache \<Rightarrow> string \<Rightarrow> uniqueTokens \<Rightarrow> world
   \<Rightarrow> (tokenData list, (string \<rightharpoonup> tokenData list stamped) \<times> balanceCache) ran"
where
  "fetchTokenBalances session globalTokenBalanceCache walletAddress toks w =
     (if toks = [] then
        \<lparr>returned = [], cache = (session, globalTokenBalanceCache), fetched = False, logged = []\<rparr>
      else
        case (case session walletAddress of
                Some cachedBatchData \<Rightarrow>
                  if t_check w - timestamp cachedBatchData < CACHE_EXPIRY
                     \<and> validCachedBalances toks (data cachedBatchData) \<noteq> []
                  then Some (validCachedBalances toks (data cachedBatchData)) else None
              | None \<Rightarrow> None) of
          Some cachedBalances \<Rightarrow>
            \<lparr>returned = cachedBalances, cache = (session, globalTokenBalanceCache),
             fetched = False, logged = []\<rparr>
        | None \<Rightarrow>
            (let st = balanceLoop w walletAddress toks globalTokenBalanceCache in
             \<lparr>returned = tokenBalances st,
              cache = (session(walletAddress \<mapsto> \<lparr>data = tokenBalances st, timestamp = t_store w\<rparr>),
                       globalCache st),
              fetched = (requested st \<noteq> []),
              logged = errorLines st\<rparr>))"

section \<open>WalletAssets: \<^verbatim>\<open>fetchPriceData\<close>\<close>

text \<open>\<^verbatim>\<open>[...new Set(xs)]\<close>: the elements in the order of their first occurrence.\<close>

definition unique :: "'a list \<Rightarrow> 'a list" where
  "unique xs = rev (remdups (rev xs))"

text \<open>
  The variables of the price loop: \<^verbatim>\<open>priceData\<close>, the symbols requested from the
  proxy, and the lines written with \<^verbatim>\<open>console.error\<close>.
\<close>

record priceLoop =
  priceData :: prices
  asked :: "string list"
  priceErrors :: "string list"

text \<open>
  One request \<^verbatim>\<open>axios.get(`${PROXY_API_URL}/api/price/${symbol}`)\<close> with its
  \<^verbatim>\<open>then\<close>, its \<^verbatim>\<open>catch\<close> and the \<^verbatim>\<open>forEach\<close> that stores the result. The proxy
  sends a price object with status 200 and an error object with any other status. The
  function requests the symbols of \<^verbatim>\<open>symbolsToFetch\<close>, which are never names of
  properties of \<^verbatim>\<open>Object.prototype\<close>.
\<close>

definition fetchPrice :: "world \<Rightarrow> priceLoop \<Rightarrow> string \<Rightarrow> priceLoop" where
  "fetchPrice w st sy =
     (case proxy w sy of
        Resolved response \<Rightarrow>
          (case payload response of
             PriceJson d \<Rightarrow>
               if status response = 200 then
                 st\<lparr>priceData := setProperty (priceData st) sy
                        \<lparr>price = price d, percentChange24h = percentChange24h d,
                         lastUpdated = lastUpdated d\<rparr>,
                    asked := asked st @ [sy]\<rparr>
               else st\<lparr>asked := asked st @ [sy]\<rparr>
           | ErrorJson e \<Rightarrow> st\<lparr>asked := asked st @ [sy]\<rparr>)
      | Rejected err \<Rightarrow>
          st\<lparr>asked := asked st @ [sy],
             priceErrors := priceErrors st @ [''Error fetching price for '' @ sy @ '':'']\<rparr>)"

definition symbolsOf :: "'a token_scheme list \<Rightarrow> string list" where
  "symbolsOf allAssets =
     (let symbols = unique (map symbol allAssets) in
      if ''ETH'' \<in> set symbols then symbols else symbols @ [''ETH''])"

text \<open>
  \<^verbatim>\<open>fetchPriceData\<close>; the cache is the item \<^verbatim>\<open>price-data-cache\<close> of
  \<^verbatim>\<open>sessionStorage\<close>. Reading and writing the item are taken to succeed, so the outer
  \<^verbatim>\<open>catch\<close> of the function is not entered.
\<close>

definition priceCacheOf :: "prices stamped option \<Rightarrow> world \<Rightarrow> prices" where
  "priceCacheOf session w =
     (case session of
        Some cachedData \<Rightarrow>
          if t_check w - timestamp cachedData < 2 * 60 * 1000 then data cachedData
          else Map.empty
      | None \<Rightarrow> Map.empty)"

text \<open>
  \<^verbatim>\<open>symbols.filter(symbol => !priceCache[symbol])\<close>: an entry of the cache is an
  object and an inherited value is truthy too, so a symbol is kept when
  \<^verbatim>\<open>priceCache[symbol]\<close> is \<^verbatim>\<open>undefined\<close>.
\<close>

definition symbolsToFetch :: "prices stamped option \<Rightarrow> 'a token_scheme list \<Rightarrow> world \<Rightarrow> string list" where
  "symbolsToFetch session allAssets w =
     filter (\<lambda>sy. getProperty (priceCacheOf session w) sy = Absent) (symbolsOf allAssets)"

definition priceLoop :: "world \<Rightarrow> prices \<Rightarrow> string list \<Rightarrow> priceLoop" where
  "priceLoop w priceCache toFetch =
     foldl (\<lambda>st batch. foldl (fetchPrice w) st batch)
       \<lparr>priceData = priceCache, asked = [], priceErrors = []\<rparr>
       (priceData_batches toFetch)"

definition fetchPriceData ::
  "prices stamped option \<Rightarrow> 'a token_scheme list \<Rightarrow> world \<Rightarrow> (prices, prices stamped option) ran"
where
  "fetchPriceData session allAssets w =
     (if allAssets = [] then
        \<lparr>returned = Map.empty, cache = session, fetched = False, logged = []\<rparr>
      else if symbolsToFetch session allAssets w = [] then
        \<lparr>returned = priceCacheOf session w, cache = session, fetched = False, logged = []\<rparr>
      else
        let st = priceLoop w (priceCacheOf session w) (symbolsToFetch session allAssets w)
        in \<lparr>returned = priceData st,
            cache = Some \<lparr>data = priceData st, timestamp = t_store w\<rparr>,
            fetched = True, logged = priceErrors st\<rparr>)"

section \<open>WalletAssets: \<^verbatim>\<open>fetchTokenData\<close>, \<^verbatim>\<open>fetchAssets\<close> and the fetch effect\<close>

definition isRateLimitMessage :: "js_error \<Rightarrow> bool" where
  "isRateLimitMessage err =
     (str_includes (message err) ''rate limit'' \<or>
      str_includes (message err) ''too many requests'' \<or>
      str_includes (message err) ''429'')"

definition isRateLimitError :: "js_error \<Rightarrow> bool" where
  "isRateLimitError err = (isRateLimitMessage err \<or> response_status err = Some 429)"

text \<open>
  \<^verbatim>\<open>fetchTokenData\<close>: the transactions it returns or the error it throws, and whether
  it called \<^verbatim>\<open>setIsRateLimited(true)\<close>.
\<close>

definition fetchTokenData :: "world \<Rightarrow> (js_error + tx list) \<times> bool" where
  "fetchTokenData w =
     (if \<not> apiKeyDefined w then
        (Inl (Error ''REACT_APP_ETHERSCAN_API_KEY is not defined in .env file''), False)
      else
        case (case etherscanApi w of
                Resolved response \<Rightarrow>
                  if es_status response \<noteq> ''1'' then
                    Inl (Error (''Etherscan API error: '' @
                          (if es_message response \<noteq> [] then es_message response
                           else ''Unknown error'')))
                  else Inr (es_result response)
              | Rejected err \<Rightarrow> Inl err) of
          Inr result \<Rightarrow> (Inr result, False)
        | Inl err \<Rightarrow>
            if isRateLimitError err then (Inr [], True)
            else (Inl (Error (''Failed to fetch token data: '' @ message err)), False))"

text \<open>
  The stored items and caches that a run of \<^verbatim>\<open>fetchAssets\<close> reads and writes.
\<close>

record stores =
  ethItems :: "string \<rightharpoonup> string stamped"
  batchItems :: "string \<rightharpoonup> tokenData list stamped"
  balances :: balanceCache
  priceItem :: "prices stamped option"

text \<open>
  What a run of \<^verbatim>\<open>fetchAssets\<close> does to the component: the argument of
  \<^verbatim>\<open>setEthBalance\<close>, whether \<^verbatim>\<open>setIsRateLimited(true)\<close> was called, the effects of a
  run that reached its end (\<open>None\<close> when an error was caught instead), and the lines
  written with \<^verbatim>\<open>console.error\<close> by the requests.
\<close>

record assetRun =
  setEthBalance :: "string option"
  setIsRateLimited :: bool
  completed :: "loaded option"
  consoleErrors :: "string list"

text \<open>
  \<^verbatim>\<open>fetchAssets\<close> for a connected wallet (\<open>addr\<close> is not empty); \<open>captured\<close> is the
  state \<^verbatim>\<open>ethBalance\<close> as the callback captured it. \<^verbatim>\<open>fetchPriceData\<close> reads only
  the symbols of \<^verbatim>\<open>allAssets\<close>. When \<^verbatim>\<open>fetchTokenData\<close> throws, the \<^verbatim>\<open>catch\<close> of
  \<^verbatim>\<open>fetchAssets\<close> tests the message of the error for a rate limit.
\<close>

definition fetchAssets :: "stores \<Rightarrow> string \<Rightarrow> string \<Rightarrow> world \<Rightarrow> assetRun \<times> stores" where
  "fetchAssets s addr captured w =
     (let eth = fetchEthBalance (ethItems s) addr (t_check w) (t_store w) (ethRpc w);
          s1 = s\<lparr>ethItems := cache eth\<rparr>
      in case fetchTokenData w of
           (Inl err, flag) \<Rightarrow>
             (\<lparr>setEthBalance = None,
               setIsRateLimited = (flag \<or> isRateLimitMessage err),
               completed = None,
               consoleErrors = logged eth\<rparr>, s1)
         | (Inr tokenTxs, flag) \<Rightarrow>
             (let toks = uniqueTokens (processTokenTransactions tokenTxs);
                  tb = fetchTokenBalances (batchItems s1) (balances s1) addr toks w;
                  s2 = s1\<lparr>batchItems := fst (cache tb), balances := snd (cache tb)\<rparr>;
                  allAssets = ethAsset captured Map.empty
                              # map (withUsdValue Map.empty) (validBalances (returned tb));
                  pr = fetchPriceData (priceItem s2) allAssets w;
                  s3 = s2\<lparr>priceItem := cache pr\<rparr>
              in (\<lparr>setEthBalance = Some (returned eth),
                   setIsRateLimited = flag,
                   completed = Some (fetchAssets_finish captured (returned tb) (returned pr)),
                   consoleErrors = logged eth @ logged tb @ logged pr\<rparr>, s3)))"

text \<open>
  The state of the component that the fetch effect reads, and \<open>fetchesStarted\<close>, the
  number of calls of \<^verbatim>\<open>fetchAssets\<close> so far. The effect runs with the current address
  (empty when there is none); a run of \<^verbatim>\<open>fetchAssets\<close> that settles hands in whether
  it called \<^verbatim>\<open>setIsRateLimited(true)\<close>. No code sets the flag back.
\<close>

record component =
  isRateLimited :: bool
  initialFetchDone :: bool
  fetchesStarted :: nat

datatype happening = EffectRuns string | FetchSettles assetRun

definition react :: "component \<Rightarrow> happening \<Rightarrow> component" where
  "react c h =
     (case h of
        EffectRuns addr \<Rightarrow>
          if isRateLimited c then c
          else if \<not> initialFetchDone c \<or> addr \<noteq> [] then
            c\<lparr>initialFetchDone := True, fetchesStarted := fetchesStarted c + 1\<rparr>
          else c
      | FetchSettles r \<Rightarrow>
          if setIsRateLimited r then c\<lparr>isRateLimited := True\<rparr> else c)"

section \<open>WalletSymbols and LendingData: cached fetches\<close>

text \<open>
  An entry of \<^verbatim>\<open>tokenPrices\<close> in WalletSymbols, the object
  \<^verbatim>\<open>{ price, percentChange24h }\<close>; a field is \<open>None\<close> when it is
  \<^verbatim>\<open>undefined\<close>.
\<close>

record symbolPrice =
  sp_price :: "rat option"
  sp_percentChange24h :: "rat option"

type_synonym tokenPrices = "string \<rightharpoonup> symbolPrice"

text \<open>
  The variables of the batch loop of \<^verbatim>\<open>fetchTokenPrices\<close>: \<^verbatim>\<open>newPrices\<close>, the
  batches for which \<^verbatim>\<open>/api/prices?symbols=...\<close> was requested, and the lines written
  with \<^verbatim>\<open>console.error\<close>.
\<close>

record symbolLoop =
  newPrices :: tokenPrices
  batchRequests :: "string list list"
  batchErrors :: "string list"

text \<open>
  One batch: the request and the \<^verbatim>\<open>forEach\<close> over the symbols of the batch.
  \<open>batchProxy\<close> gives the outcome of the request, resolved with the object the proxy
  sends with status 200, whose entries have the form of \<^verbatim>\<open>responseData\<close>. For an
  inherited \<^verbatim>\<open>response.data[symbol]\<close> both fields of the new entry are
  \<^verbatim>\<open>undefined\<close>.
\<close>

definition fetchBatchPrices ::
  "(string list \<Rightarrow> (string \<rightharpoonup> priceInfo) outcome) \<Rightarrow> symbolLoop \<Rightarrow> string list \<Rightarrow> symbolLoop"
where
  "fetchBatchPrices batchProxy st batch =
     (let st1 = st\<lparr>batchRequests := batchRequests st @ [batch]\<rparr> in
      case batchProxy batch of
        Resolved answer \<Rightarrow>
          st1\<lparr>newPrices :=
               foldl (\<lambda>m sy. case getProperty answer sy of
                                Own d \<Rightarrow>
                                  setProperty m sy
                                    \<lparr>sp_price = Some (price d),
                                     sp_percentChange24h = Some (percentChange24h d)\<rparr>
                              | Inherited \<Rightarrow>
                                  setProperty m sy
                                    \<lparr>sp_price = None, sp_percentChange24h = None\<rparr>
                              | Absent \<Rightarrow> m)
                 (newPrices st1) batch\<rparr>
      | Rejected err \<Rightarrow>
          st1\<lparr>batchErrors := batchErrors st1 @ [''Error fetching batch prices:'']\<rparr>)"

definition tokenPriceLoop ::
  "(string list \<Rightarrow> (string \<rightharpoonup> priceInfo) outcome) \<Rightarrow> tokenPrices \<Rightarrow> string list \<Rightarrow> symbolLoop"
where
  "tokenPriceLoop batchProxy cachedPrices symbols =
     foldl (fetchBatchPrices batchProxy)
       \<lparr>newPrices = cachedPrices, batchRequests = [], batchErrors = []\<rparr>
       (walletSymbols_batches symbols)"

text \<open>
  \<^verbatim>\<open>fetchTokenPrices\<close> of WalletSymbols; the cache is the item
  \<^verbatim>\<open>wallet-symbols-price-cache\<close>. The value returned here is the argument of
  \<^verbatim>\<open>setTokenPrices\<close>; the count the function returns is left out. A stored object
  that is too old is the start of \<^verbatim>\<open>newPrices\<close>.
\<close>

definition fetchTokenPrices ::
  "tokenPrices stamped option \<Rightarrow> string list \<Rightarrow> int \<Rightarrow> int
   \<Rightarrow> (string list \<Rightarrow> (string \<rightharpoonup> priceInfo) outcome)
   \<Rightarrow> (tokenPrices, tokenPrices stamped option) ran"
where
  "fetchTokenPrices session symbols tc ts batchProxy =
     (case (case session of
              Some cachedData \<Rightarrow>
                if tc - timestamp cachedData < 2 * 60 * 1000 then Some (data cachedData) else None
            | None \<Rightarrow> None) of
        Some cachedPrices \<Rightarrow>
          \<lparr>returned = cachedPrices, cache = session, fetched = False, logged = []\<rparr>
      | None \<Rightarrow>
          (let cachedPrices = (case session of Some cachedData \<Rightarrow> data cachedData
                               | None \<Rightarrow> Map.empty);
               st = tokenPriceLoop batchProxy cachedPrices symbols
           in \<lparr>returned = newPrices st,
               cache = Some \<lparr>data = newPrices st, timestamp = ts\<rparr>,
               fetched = (batchRequests st \<noteq> []),
               logged = batchErrors st\<rparr>))"

text \<open>
  \<^verbatim>\<open>fetchLendingData\<close>; the cache is the item \<^verbatim>\<open>lending-data-cache\<close>. The request
  resolves with the rows the function computes from the pools of the response (filtered
  and sorted; their type is left open), or with \<open>None\<close> when the response has no data;
  it is rejected when the request fails or the response is not a list of pools. The value
  returned is the new state \<^verbatim>\<open>lendingData\<close>. A failed request falls back on the stored
  rows, whatever their age.
\<close>

definition fetchLendingData ::
  "'r list stamped option \<Rightarrow> int \<Rightarrow> int \<Rightarrow> 'r list option outcome \<Rightarrow> 'r list
   \<Rightarrow> ('r list, 'r list stamped option) ran"
where
  "fetchLendingData session tc ts api lendingData =
     (case (case session of
              Some cachedData \<Rightarrow>
                if tc - timestamp cachedData < 15 * 60 * 1000 then Some (data cachedData) else None
            | None \<Rightarrow> None) of
        Some cached \<Rightarrow> \<lparr>returned = cached, cache = session, fetched = False, logged = []\<rparr>
      | None \<Rightarrow>
          (case api of
             Resolved (Some filteredData) \<Rightarrow>
               \<lparr>returned = filteredData,
                cache = Some \<lparr>data = filteredData, timestamp = ts\<rparr>,
                fetched = True, logged = []\<rparr>
           | Resolved None \<Rightarrow>
               \<lparr>returned = lendingData, cache = session, fetched = True, logged = []\<rparr>
           | Rejected err \<Rightarrow>
               (case session of
                  Some cachedData \<Rightarrow>
                    \<lparr>returned = data cachedData, cache = session, fetched = True,
                     logged = [''Error fetching lending data:'']\<rparr>
                | None \<Rightarrow>
                    \<lparr>returned = lendingData, cache = session, fetched = True,
                     logged = [''Error fetching lending data:'']\<rparr>)))"

section \<open>Notions used in the properties\<close>

text \<open>A stored entry exists and its age at time \<open>tc\<close> is below \<open>ttl\<close>.\<close>

definition fresh :: "int \<Rightarrow> int \<Rightarrow> 'a stamped option \<Rightarrow> bool" where
  "fresh ttl tc item = (case item of Some c \<Rightarrow> tc - timestamp c < ttl | None \<Rightarrow> False)"

text \<open>
  The entry of \<^verbatim>\<open>globalTokenBalanceCache\<close> with the time it carries
  (\<^verbatim>\<open>cachedData.cacheTime || 0\<close>).
\<close>

definition stampedBalance :: "tokenData option \<Rightarrow> tokenData stamped option" where
  "stampedBalance item =
     map_option (\<lambda>d. \<lparr>data = d, timestamp = (case cacheTime d of Some t \<Rightarrow> t | None \<Rightarrow> 0)\<rparr>) item"

text \<open>
  Two loop states agree away from the token address \<open>t\<close>: on every cache key of another
  address and on the results of the calls for other addresses.
\<close>

definition agreeAway :: "string \<Rightarrow> string \<Rightarrow> balanceLoop \<Rightarrow> balanceLoop \<Rightarrow> bool" where
  "agreeAway walletAddress t st st' =
     ((\<forall>a. a \<noteq> t \<longrightarrow>
          globalCache st (walletAddress @ ''-'' @ a) = globalCache st' (walletAddress @ ''-'' @ a)) \<and>
      filter (\<lambda>p. fst p \<noteq> t) (batchResults st) = filter (\<lambda>p. fst p \<noteq> t) (batchResults st'))"

text \<open>Example: a wallet whose token balance request is answered with HTTP 429.\<close>

definition tooManyRequests :: js_error where
  "tooManyRequests =
     \<lparr>message = ''Request failed with status code 429'', response_status = Some 429,
      code = ''ERR_BAD_REQUEST''\<rparr>"

definition exampleWorld :: world where
  "exampleWorld =
     \<lparr>apiKeyDefined = True,
      ethRpc = Resolved ''1.5'',
      etherscanApi = Resolved \<lparr>es_status = ''1'', es_message = ''OK'', es_result = exampleTxs\<rparr>,
      balanceOf = (\<lambda>a. Rejected tooManyRequests),
      proxy = (\<lambda>sy. Resolved (Reply 200 (PriceJson
                 \<lparr>price = 2000, percentChange24h = 1, lastUpdated = ''t'',
                  pi_symbol = sy, pi_name = sy\<rparr>))),
      t_check = 1000, t_store = 1900,
      checkedAt = (\<lambda>a. 1200), storedAt = (\<lambda>a. 1500)\<rparr>"

text \<open>
  Example: a wallet that received one token, whose symbol is \<^verbatim>\<open>constructor\<close>, and
  holds 2.0 of it.
\<close>

definition constructorWorld :: world where
  "constructorWorld =
     exampleWorld
       \<lparr>etherscanApi := Resolved \<lparr>es_status = ''1'', es_message = ''OK'', es_result =
            [\<lparr>contractAddress = ''0xC0'', tokenSymbol = ''constructor'',
              tokenName = ''Constructor Token'', tokenDecimal = ''18''\<rparr>]\<rparr>,
        balanceOf := (\<lambda>a. Resolved \<lparr>formatted = ''2.0'', raw = ''2000000000000000000''\<rparr>)\<rparr>"

text \<open>
  Example: a stored batch of token balances that holds the balance of a token the wallet
  no longer lists, one that holds the balance of USDC, and a stored price object that
  holds a price of USDC.
\<close>

definition staleBatch :: "string \<rightharpoonup> tokenData list stamped" where
  "staleBatch =
     [''0xW'' \<mapsto>
        \<lparr>data = [\<lparr>address = ''0xDD'', symbol = ''OLD'', name = ''Old Token'', decimals = 18,
                   balance = ''1.0'', balanceRaw = ''1000000000000000000'', cacheTime = Some 800,
                   error = False\<rparr>],
         timestamp = 900\<rparr>]"

definition usdcBatch :: "string \<rightharpoonup> tokenData list stamped" where
  "usdcBatch =
     [''0xW'' \<mapsto>
        \<lparr>data = [\<lparr>address = ''0xAB'', symbol = ''USDC'', name = ''USD Coin'', decimals = 6,
                   balance = ''12.50'', balanceRaw = ''12500000'', cacheTime = Some 800,
                   error = False\<rparr>],
         timestamp = 900\<rparr>]"

definition usdcPrices :: "prices stamped option" where
  "usdcPrices =
     Some \<lparr>data = [''USDC'' \<mapsto> \<lparr>price = 1, percentChange24h = 0, lastUpdated = ''t''\<rparr>],
           timestamp = 0\<rparr>"

definition noStores :: stores where
  "noStores = \<lparr>ethItems = Map.empty, batchItems = Map.empty, balances = Map.empty, priceItem = None\<rparr>"

text \<open>
  A run \<open>r\<close> of a cached fetch is a lookup with time to live \<open>ttl\<close> on the stored entry
  \<open>item\<close>: when the entry exists and is younger than \<open>ttl\<close>, no request is made, the
  stored value is the result and the cache \<open>c0\<close> is left as it was; otherwise the request
  is made.
\<close>

definition ttlLookup :: "int \<Rightarrow> int \<Rightarrow> 'a stamped option \<Rightarrow> ('a, 'c) ran \<Rightarrow> 'c \<Rightarrow> bool" where
  "ttlLookup ttl tc item r c0 =
     (if fresh ttl tc item
      then \<not> fetched r \<and> map_option data item = Some (returned r) \<and> cache r = c0
      else fetched r)"

text \<open>The entries of a stored batch that belong to the current tokens.\<close>

definition storedValid :: "uniqueTokens \<Rightarrow> tokenData list stamped option \<Rightarrow> tokenData list" where
  "storedValid toks item =
     (case item of Some c \<Rightarrow> validCachedBalances toks (data c) | None \<Rightarrow> [])"

text \<open>The APY of a pool when it is a number.\<close>

definition apyNumber :: "stats_item \<Rightarrow> rat" where
  "apyNumber item = (case apy item of Numeric v \<Rightarrow> v | _ \<Rightarrow> 0)"

text \<open>
  Example: the pools of the example above and one more pool of a known asset whose APY
  the service reports as \<^verbatim>\<open>null\<close>.
\<close>

definition nullApyStaking :: stakingwatch where
  "nullApyStaking =
     exampleStaking
       \<lparr>stats := stats exampleStaking @
          [\<lparr>staking_token_symbol = ''ETH'', staking_token_slug = ''ethereum'', protocol_id = ''5'',
            protocol_name = ''Paused'', apy = NonNumeric, chain_names = [''Ethereum'']\<rparr>]\<rparr>"

text \<open>The price object a stored item holds; empty when there is no item.\<close>

definition storedPrices :: "(string \<rightharpoonup> 'a) stamped option \<Rightarrow> (string \<rightharpoonup> 'a)" where
  "storedPrices item = (case item of Some c \<Rightarrow> data c | None \<Rightarrow> Map.empty)"

section \<open>Properties of the rate limiter\<close>

lemma handle_served_eq:
  "served t = requestCount (rl t) \<Longrightarrow> served (handle t e) = requestCount (rl (handle t e))"
  by (cases e) (auto simp: handle_def rateLimiter_def openWindow_def resetTimer_def Let_def)

lemma handle_count_le:
  "requestCount (rl t) \<le> MAX_REQUESTS_PER_WINDOW \<Longrightarrow>
   requestCount (rl (handle t e)) \<le> MAX_REQUESTS_PER_WINDOW"
  by (cases e)
     (auto simp: handle_def rateLimiter_def openWindow_def resetTimer_def Let_def
                 MAX_REQUESTS_PER_WINDOW_def)

lemma foldl_handle_inv:
  "served t = requestCount (rl t) \<and> requestCount (rl t) \<le> MAX_REQUESTS_PER_WINDOW \<Longrightarrow>
   served (foldl handle t evs) = requestCount (rl (foldl handle t evs)) \<and>
   requestCount (rl (foldl handle t evs)) \<le> MAX_REQUESTS_PER_WINDOW"
proof (induction evs arbitrary: t)
  case Nil
  then show ?case by simp
next
  case (Cons e evs)
  have "served (handle t e) = requestCount (rl (handle t e))"
    using Cons.prems handle_served_eq by blast
  moreover have "requestCount (rl (handle t e)) \<le> MAX_REQUESTS_PER_WINDOW"
    using Cons.prems handle_count_le by blast
  ultimately show ?case using Cons.IH [of "handle t e"] by simp
qed

text \<open>
  Claim C4, as amended. Between two consecutive resets of the counter the limiter passes
  at most 25 requests on: the number passed since the last reset is the counter, and the
  counter never exceeds 25. A request is answered 429, with both variables unchanged,
  when the counter stands at 25 after the elapsed-window check; otherwise the counter is
  incremented by one and the request proceeds. The counter is set to zero by the
  elapsed-window check exactly when more than 60000 ms passed since \<open>windowStart\<close>,
  and by every firing of the timer.
\<close>

theorem rateLimiter_fixed_window:
  "served (run t0 evs) = requestCount (rl (run t0 evs)) \<and>
   served (run t0 evs) \<le> 25 \<and>
   (requestCount (openWindow now s) \<ge> 25 \<longrightarrow> rateLimiter now s = (Status429, s)) \<and>
   (requestCount (openWindow now s) < 25 \<longrightarrow>
      rateLimiter now s =
        (Next, (openWindow now s)\<lparr>requestCount := requestCount (openWindow now s) + 1\<rparr>)) \<and>
   (now - windowStart s > 60000 \<longrightarrow> openWindow now s = \<lparr>requestCount = 0, windowStart = now\<rparr>) \<and>
   (now - windowStart s \<le> 60000 \<longrightarrow> openWindow now s = s) \<and>
   resetTimer now s = \<lparr>requestCount = 0, windowStart = now\<rparr>"
proof -
  have inv: "served (run t0 evs) = requestCount (rl (run t0 evs)) \<and>
             requestCount (rl (run t0 evs)) \<le> MAX_REQUESTS_PER_WINDOW"
    unfolding run_def by (rule foldl_handle_inv) (simp add: startup_def)
  have rej: "requestCount (openWindow now s) \<ge> 25 \<longrightarrow> rateLimiter now s = (Status429, s)"
    by (auto simp: rateLimiter_def openWindow_def Let_def MAX_REQUESTS_PER_WINDOW_def)
  have acc: "requestCount (openWindow now s) < 25 \<longrightarrow>
      rateLimiter now s =
        (Next, (openWindow now s)\<lparr>requestCount := requestCount (openWindow now s) + 1\<rparr>)"
    by (simp add: rateLimiter_def Let_def MAX_REQUESTS_PER_WINDOW_def)
  have win: "(now - windowStart s > 60000 \<longrightarrow>
               openWindow now s = \<lparr>requestCount = 0, windowStart = now\<rparr>) \<and>
             (now - windowStart s \<le> 60000 \<longrightarrow> openWindow now s = s)"
    by (simp add: openWindow_def RATE_LIMIT_WINDOW_def)
  from inv rej acc win show ?thesis
    by (simp add: resetTimer_def MAX_REQUESTS_PER_WINDOW_def)
qed

theorem rateLimiter_fixed_window_witness:
  "served (run 0 [Request 10, Request 20, TimerFires 60000, Request 60001]) = 1 \<and>
   rateLimiter 70 \<lparr>requestCount = 25, windowStart = 0\<rparr>
     = (Status429, \<lparr>requestCount = 25, windowStart = 0\<rparr>) \<and>
   rateLimiter 70 \<lparr>requestCount = 3, windowStart = 0\<rparr>
     = (Next, \<lparr>requestCount = 4, windowStart = 0\<rparr>) \<and>
   openWindow 60001 \<lparr>requestCount = 25, windowStart = 0\<rparr>
     = \<lparr>requestCount = 0, windowStart = 60001\<rparr>"
  using rateLimiter_fixed_window [of 0 "[Request 10, Request 20, TimerFires 60000, Request 60001]"
      70 "\<lparr>requestCount = 25, windowStart = 0\<rparr>"]
    rateLimiter_fixed_window [of 0 "[]" 70 "\<lparr>requestCount = 3, windowStart = 0\<rparr>"]
    rateLimiter_fixed_window [of 0 "[]" 60001 "\<lparr>requestCount = 25, windowStart = 0\<rparr>"]
  by (simp add: run_def startup_def handle_def rateLimiter_def openWindow_def resetTimer_def
      RATE_LIMIT_WINDOW_def MAX_REQUESTS_PER_WINDOW_def Let_def)

text \<open>
  Claim C4 as stated fails for one-minute intervals that span a reset: 25 requests at
  59000 ms, the timer at 60000 ms and 25 more requests at 60500 ms are all passed on, 50
  requests within the one-minute interval starting at 59000 ms.
\<close>

theorem rateLimiter_sliding_window_counterexample:
  "passedWithin 59000 (59000 + RATE_LIMIT_WINDOW)
     (run 0 (replicate 25 (Request 59000) @ [TimerFires 60000] @ replicate 25 (Request 60500)))
   = 50"
  by code_simp


section \<open>Properties of the price endpoint\<close>

text \<open>
  Claim C10. When CoinMarketCap answers a single-symbol request with HTTP 429, the
  endpoint replies 200 with the cached entry for the symbol whenever \<^verbatim>\<open>priceCache\<close>
  holds one, whatever its age, and replies 429 only when it holds none; the cache is
  left as it was.
\<close>

theorem price_endpoint_upstream_429:
  "fst (price_endpoint priceCache now isoNow sy
          (Rejected \<lparr>message = m, response_status = Some 429, code = c\<rparr>))
     = (case priceCache (toUpperCase sy) of
          Some e \<Rightarrow> Reply 200 (PriceJson (data e))
        | None \<Rightarrow> Reply 429 (ErrorJson ''Rate limit exceeded on upstream API'')) \<and>
   (status (fst (price_endpoint priceCache now isoNow sy
          (Rejected \<lparr>message = m, response_status = Some 429, code = c\<rparr>))) = 429
      \<longleftrightarrow> priceCache (toUpperCase sy) = None) \<and>
   fst (snd (price_endpoint priceCache now isoNow sy
          (Rejected \<lparr>message = m, response_status = Some 429, code = c\<rparr>))) = priceCache"
  by (auto simp: price_endpoint_def Let_def split: option.splits)

theorem price_endpoint_upstream_429_witness:
  "fst (price_endpoint
      [''ETH'' \<mapsto> \<lparr>data = \<lparr>price = 2000, percentChange24h = 1, lastUpdated = ''t'',
                            pi_symbol = ''ETH'', pi_name = ''Ethereum''\<rparr>,
                    timestamp = 0\<rparr>]
      900000 ''later'' ''eth'' (Rejected tooManyRequests))
     = Reply 200 (PriceJson \<lparr>price = 2000, percentChange24h = 1, lastUpdated = ''t'',
                             pi_symbol = ''ETH'', pi_name = ''Ethereum''\<rparr>) \<and>
   status (fst (price_endpoint Map.empty 900000 ''later'' ''eth'' (Rejected tooManyRequests))) = 429"
  using price_endpoint_upstream_429 [where priceCache =
        "[''ETH'' \<mapsto> \<lparr>data = \<lparr>price = 2000, percentChange24h = 1, lastUpdated = ''t'',
                              pi_symbol = ''ETH'', pi_name = ''Ethereum''\<rparr>,
                      timestamp = 0\<rparr>]"
      and now = 900000 and isoNow = "''later''" and sy = "''eth''"
      and m = "''Request failed with status code 429''" and c = "''ERR_BAD_REQUEST''"]
    price_endpoint_upstream_429 [where priceCache = Map.empty
      and now = 900000 and isoNow = "''later''" and sy = "''eth''"
      and m = "''Request failed with status code 429''" and c = "''ERR_BAD_REQUEST''"]
  by (simp add: tooManyRequests_def toUpperCase_def toUpperCase_char_def)

section \<open>Properties of the batching\<close>

lemma batches_step:
  "i < length xs \<Longrightarrow> 0 < k \<Longrightarrow>
   batches k xs i = slice xs i (i + k) # batches k xs (i + k)"
  by (subst batches.simps) simp

lemma batches_stop: "\<not> i < length xs \<Longrightarrow> batches k xs i = []"
  by (subst batches.simps) simp

lemma concat_batches: "0 < k \<Longrightarrow> concat (batches k xs i) = drop i xs"
proof (induction k xs i rule: batches.induct)
  case (1 k xs i)
  show ?case
  proof (cases "i < length xs")
    case True
    have "concat (batches k xs i) = slice xs i (i + k) @ drop (i + k) xs"
      using True 1 by (simp add: batches_step)
    also have "\<dots> = take k (drop i xs) @ drop k (drop i xs)"
      by (simp add: slice_def add.commute)
    also have "\<dots> = drop i xs"
      by (rule append_take_drop_id)
    finally show ?thesis .
  next
    case False
    then show ?thesis by (simp add: batches_stop)
  qed
qed



lemma mset_insert_by: "mset (insert_by compare x xs) = add_mset x (mset xs)"
  by (induction xs) simp_all

lemma mset_sort_by: "mset (sort_by compare xs) = mset xs"
  by (induction xs) (simp_all add: sort_by_def mset_insert_by)


section \<open>Properties of the asset list\<close>

lemma URL_PATTERNS_canonical:
  "map toUpperCase URL_PATTERNS =
     [''HTTP'', ''HTTPS'', ''WWW.'', ''.COM'', ''.NET'', ''.ORG'', ''.IO'', ''.XYZ'', ''.ETH'',
      ''.APP'', ''.FINANCE'', ''.EXCHANGE'', ''.CRYPTO'', ''://'', ''.ME'', ''.CO'', ''.SITE'',
      ''.INFO'', ''URL='', ''LINK='', ''WEBSITE'', ''TELEGRAM'', ''TWITTER'', ''DISCORD'',
      ''T.ME/'', ''GITHUB'']"
  by (simp add: URL_PATTERNS_def toUpperCase_def toUpperCase_char_def)

lemmas url_test_eval =
  URL_PATTERN_REGEX_test_def URL_PATTERNS_canonical Let_def str_includes_def
  toUpperCase_def toUpperCase_char_def sublist_code prefix_code

lemma URL_PATTERN_REGEX_test_empty: "\<not> URL_PATTERN_REGEX_test []"
  by (simp add: url_test_eval)

lemma example_url_tests:
  "\<not> URL_PATTERN_REGEX_test ''USDC''" "\<not> URL_PATTERN_REGEX_test ''USD Coin''"
  "\<not> URL_PATTERN_REGEX_test ''WIN''" "URL_PATTERN_REGEX_test ''claim at www.win.io''"
  "\<not> URL_PATTERN_REGEX_test ''  ''" "\<not> URL_PATTERN_REGEX_test ''Blank''"
  "\<not> URL_PATTERN_REGEX_test ''FOO''" "\<not> URL_PATTERN_REGEX_test ''Foo''"
  "\<not> URL_PATTERN_REGEX_test ''BAR''" "\<not> URL_PATTERN_REGEX_test ''Bar''"
  "\<not> URL_PATTERN_REGEX_test ''BAZ''" "\<not> URL_PATTERN_REGEX_test ''Baz''"
  "\<not> URL_PATTERN_REGEX_test ''ETH''" "\<not> URL_PATTERN_REGEX_test ''Ethereum''"
  by (simp_all add: url_test_eval)

lemmas parse_eval =
  parseFloat_def parseInt_def signed_def isWhiteSpace_def isDigit_def digitsValue_def
  digitValue_def

lemma example_validBalances:
  "validBalances exampleBalances =
     [\<lparr>address = ''0xA'', symbol = ''USDC'', name = ''USD Coin'', decimals = 6,
       balance = ''12.50'', balanceRaw = ''12500000'', cacheTime = Some 7, error = False\<rparr>,
      \<lparr>address = ''0xF'', symbol = ''BAZ'', name = ''Baz'', decimals = 18,
       balance = ''3.0'', balanceRaw = ''3000000000000000000'', cacheTime = Some 7, error = False\<rparr>]"
  by (simp add: validBalances_def exampleBalances_def containsUrlPattern_def example_url_tests
      trim_def parse_eval js_gt_def)

lemma example_uniqueTokens:
  "uniqueTokens (processTokenTransactions exampleTxs) =
     [(''0xab'', \<lparr>address = ''0xAB'', symbol = ''USDC'', name = ''USD Coin'', decimals = 6\<rparr>)]"
  by (simp add: processTokenTransactions_def exampleTxs_def processTx_def Let_def
      containsUrlPattern_def example_url_tests trim_def parse_eval
      toLowerCase_def toLowerCase_char_def)

lemma containsUrlPattern_eq: "containsUrlPattern str = URL_PATTERN_REGEX_test str"
  using URL_PATTERN_REGEX_test_empty by (simp add: containsUrlPattern_def)

lemma set_assign: "set (assign k v ps) \<subseteq> insert (k, v) (set ps)"
  by (induction ps) auto

lemma processTx_notSpam:
  assumes "\<forall>p \<in> set (uniqueTokens st). notSpam (symbol (snd p)) (name (snd p))"
  shows "\<forall>p \<in> set (uniqueTokens (processTx st t)). notSpam (symbol (snd p)) (name (snd p))"
proof
  fix p
  assume p: "p \<in> set (uniqueTokens (processTx st t))"
  show "notSpam (symbol (snd p)) (name (snd p))"
  proof (cases "p \<in> set (uniqueTokens st)")
    case True
    with assms show ?thesis by blast
  next
    case False
    let ?k = "toLowerCase (contractAddress t)"
    let ?v = "\<lparr>address = contractAddress t, symbol = tokenSymbol t,
               name = (if tokenName t \<noteq> [] then tokenName t else tokenSymbol t),
               decimals = (case parseInt (tokenDecimal t) of
                             None \<Rightarrow> 18 | Some d \<Rightarrow> if d = 0 then 18 else d)\<rparr>"
    from p False have stored:
      "p \<in> set (assign ?k ?v (uniqueTokens st)) \<and>
       \<not> (containsUrlPattern (tokenSymbol t) \<or> containsUrlPattern (tokenName t)) \<and>
       tokenSymbol t \<noteq> [] \<and> trim (tokenSymbol t) \<noteq> []"
      by (auto simp: processTx_def Let_def split: if_splits)
    with False have "p = (?k, ?v)"
      using set_assign [of ?k ?v "uniqueTokens st"] by auto
    with stored show ?thesis
      by (auto simp: notSpam_def containsUrlPattern_eq)
  qed
qed

lemma foldl_processTx_notSpam:
  "\<forall>p \<in> set (uniqueTokens st). notSpam (symbol (snd p)) (name (snd p)) \<Longrightarrow>
   \<forall>p \<in> set (uniqueTokens (foldl processTx st txs)). notSpam (symbol (snd p)) (name (snd p))"
proof (induction txs arbitrary: st)
  case Nil
  then show ?case by simp
next
  case (Cons t txs)
  from Cons.prems have "\<forall>p \<in> set (uniqueTokens (processTx st t)).
      notSpam (symbol (snd p)) (name (snd p))"
    by (rule processTx_notSpam)
  then show ?case using Cons.IH by simp
qed

lemma validBalances_notSpam:
  "t \<in> set (validBalances tbs) \<Longrightarrow> notSpam (symbol t) (name t)"
  by (auto simp: validBalances_def notSpam_def containsUrlPattern_eq)

lemma validBalances_positive:
  "t \<in> set (validBalances tbs) \<Longrightarrow> js_gt (parseFloat (balance t)) (Num 0)"
  by (simp add: validBalances_def)

lemma withUsdValue_fields:
  "symbol (withUsdValue ps a) = symbol a \<and> name (withUsdValue ps a) = name a \<and>
   balance (withUsdValue ps a) = balance a \<and>
   usdValue (withUsdValue ps a) =
     js_times (parseFloat (balance a))
       (case getProperty ps (symbol a) of
          Own q \<Rightarrow> Num (price q) | Inherited \<Rightarrow> NaN | Absent \<Rightarrow> Num 0)"
  by (simp add: withUsdValue_def Let_def tokenData.defs asset.defs)

lemma ethAsset_notSpam: "notSpam (symbol (ethAsset b ps)) (name (ethAsset b ps))"
  by (simp add: ethAsset_def notSpam_def trim_def isWhiteSpace_def example_url_tests)

text \<open>
  Claim C9. No asset given to \<^verbatim>\<open>onAssetsLoaded\<close> has an empty or blank symbol, and
  none has a symbol or a name that the URL pattern matches: the final filter of
  \<^verbatim>\<open>fetchAssets\<close> removes such tokens whatever the earlier stages returned. The tokens
  \<^verbatim>\<open>processTokenTransactions\<close> keeps satisfy the same, for every transaction list.
\<close>

theorem no_spam_tokens_delivered:
  "(\<forall>a \<in> set (onAssetsLoaded (fetchAssets_finish ethBalance tbs ps)).
      symbol a \<noteq> [] \<and> trim (symbol a) \<noteq> [] \<and>
      \<not> URL_PATTERN_REGEX_test (symbol a) \<and> \<not> URL_PATTERN_REGEX_test (name a)) \<and>
   (\<forall>p \<in> set (uniqueTokens (processTokenTransactions tokenTxs)).
      symbol (snd p) \<noteq> [] \<and> trim (symbol (snd p)) \<noteq> [] \<and>
      \<not> URL_PATTERN_REGEX_test (symbol (snd p)) \<and> \<not> URL_PATTERN_REGEX_test (name (snd p)))"
proof -
  have fin: "\<forall>a \<in> set (onAssetsLoaded (fetchAssets_finish ethBalance tbs ps)).
      notSpam (symbol a) (name a)"
    using ethAsset_notSpam validBalances_notSpam
    by (auto simp: fetchAssets_finish_def assetsWithValue_def Let_def withUsdValue_fields)
  have "\<forall>p \<in> set (uniqueTokens (processTokenTransactions tokenTxs)).
      notSpam (symbol (snd p)) (name (snd p))"
    unfolding processTokenTransactions_def by (rule foldl_processTx_notSpam) simp
  with fin show ?thesis unfolding notSpam_def by blast
qed

theorem no_spam_tokens_delivered_witness:
  "map symbol (onAssetsLoaded (fetchAssets_finish ''1.5'' exampleBalances Map.empty))
     = [''ETH'', ''USDC'', ''BAZ''] \<and>
   \<not> URL_PATTERN_REGEX_test ''USDC'' \<and> \<not> URL_PATTERN_REGEX_test ''USD Coin'' \<and>
   map fst (uniqueTokens (processTokenTransactions exampleTxs)) = [''0xab'']"
  using no_spam_tokens_delivered [of "''1.5''" exampleBalances Map.empty exampleTxs]
  by (simp add: fetchAssets_finish_def assetsWithValue_def example_validBalances
      example_uniqueTokens ethAsset_def withUsdValue_def tokenData.defs asset.defs Let_def)

lemma foldl_netWorth:
  "foldl (\<lambda>total a. case usdValue a of
                       Num v \<Rightarrow> if v \<noteq> 0 then total + v else total
                     | NaN \<Rightarrow> total) acc as
   = acc + sum_list (map (\<lambda>a. numberValue (usdValue a))
                        (filter (\<lambda>a. \<not> isNaN (usdValue a)) as))"
proof (induction as arbitrary: acc)
  case Nil
  then show ?case by simp
next
  case (Cons a as)
  show ?case
    by (cases "usdValue a") (simp_all add: Cons.IH isNaN_def numberValue_def)
qed

lemma positive_times_zero:
  "js_gt b (Num 0) \<Longrightarrow> js_times b (Num 0) = Num 0"
  by (cases b) (simp_all add: js_gt_def js_times_def)

lemma times_NaN: "js_times b NaN = NaN"
  by (cases b) (simp_all add: js_times_def)

lemma usdValue_token:
  assumes "t \<in> set (validBalances tbs)"
  shows "usdValue (withUsdValue ps t) =
           (case getProperty ps (symbol (withUsdValue ps t)) of
              Own q \<Rightarrow> js_times (parseFloat (balance (withUsdValue ps t))) (Num (price q))
            | Inherited \<Rightarrow> NaN
            | Absent \<Rightarrow> Num 0)"
proof (cases "getProperty ps (symbol t)")
  case (Own q)
  then show ?thesis by (simp add: withUsdValue_fields)
next
  case Inherited
  then show ?thesis by (simp add: withUsdValue_fields times_NaN)
next
  case Absent
  with validBalances_positive [OF assms] show ?thesis
    by (simp add: withUsdValue_fields positive_times_zero)
qed

lemma getProperty_ETH:
  "getProperty ps ''ETH'' = (case ps ''ETH'' of Some q \<Rightarrow> Own q | None \<Rightarrow> Absent)"
  by (simp add: getProperty_def Object_prototype_def)

lemma usdValue_eth:
  "usdValue (ethAsset b ps) =
     (case getProperty ps (symbol (ethAsset b ps)) of
        Own q \<Rightarrow> js_times (parseFloat (balance (ethAsset b ps))) (Num (price q))
      | Inherited \<Rightarrow> NaN
      | Absent \<Rightarrow> Num 0)"
  by (simp add: ethAsset_def getProperty_ETH split: option.splits)

text \<open>
  What the final list holds as \<open>usdValue\<close>: \<^verbatim>\<open>parseFloat(balance)\<close> times the price
  that the price object has as an own property under the asset's symbol; \<^verbatim>\<open>NaN\<close>
  when it has none and the symbol names a property of \<^verbatim>\<open>Object.prototype\<close>; and 0
  otherwise. The net worth reported to the wallet context is the sum of \<open>usdValue\<close> over
  the assets of the list (the ETH entry included) whose \<open>usdValue\<close> is a number.
\<close>

lemma usdValue_by_lookup:
  "(\<forall>a \<in> set (onAssetsLoaded (fetchAssets_finish ethBalance tbs ps)).
      usdValue a =
        (case getProperty ps (symbol a) of
           Own q \<Rightarrow> js_times (parseFloat (balance a)) (Num (price q))
         | Inherited \<Rightarrow> NaN
         | Absent \<Rightarrow> Num 0)) \<and>
   updateNetWorth (fetchAssets_finish ethBalance tbs ps) =
     sum_list (map (\<lambda>a. numberValue (usdValue a))
       (filter (\<lambda>a. \<not> isNaN (usdValue a))
          (onAssetsLoaded (fetchAssets_finish ethBalance tbs ps))))"
proof -
  have "\<forall>a \<in> set (assetsWithValue ethBalance tbs ps).
      usdValue a =
        (case getProperty ps (symbol a) of
           Own q \<Rightarrow> js_times (parseFloat (balance a)) (Num (price q))
         | Inherited \<Rightarrow> NaN
         | Absent \<Rightarrow> Num 0)"
    using usdValue_eth usdValue_token by (auto simp: assetsWithValue_def)
  then show ?thesis
    by (simp add: fetchAssets_finish_def Let_def totalNetWorth_def foldl_netWorth)
qed

lemma example_assets:
  "assetsWithValue b exampleBalances ps =
     [ethAsset b ps,
      withUsdValue ps
        \<lparr>address = ''0xA'', symbol = ''USDC'', name = ''USD Coin'', decimals = 6,
         balance = ''12.50'', balanceRaw = ''12500000'', cacheTime = Some 7, error = False\<rparr>,
      withUsdValue ps
        \<lparr>address = ''0xF'', symbol = ''BAZ'', name = ''Baz'', decimals = 18,
         balance = ''3.0'', balanceRaw = ''3000000000000000000'', cacheTime = Some 7, error = False\<rparr>]"
  by (simp add: assetsWithValue_def example_validBalances)

lemma set_sort_by: "set (sort_by compare xs) = set xs"
  using mset_sort_by [of compare xs] by (metis set_mset_mset)

text \<open>
  Claim C6, as amended. Every token of the final list (every entry after the ETH entry,
  and every asset given to \<^verbatim>\<open>setAssets\<close> for display) has
  \<^verbatim>\<open>parseFloat(balance) > 0\<close>. The ETH entry carries the component's
  \<^verbatim>\<open>ethBalance\<close> as it is; when that is a non-negative number, every entry of the
  list has a non-negative balance.
\<close>

theorem token_balances_positive:
  "(\<forall>a \<in> set (tl (onAssetsLoaded (fetchAssets_finish ethBalance tbs ps))).
      js_gt (parseFloat (balance a)) (Num 0)) \<and>
   (\<forall>a \<in> set (setAssets (fetchAssets_finish ethBalance tbs ps)).
      js_gt (parseFloat (balance a)) (Num 0)) \<and>
   symbol (hd (onAssetsLoaded (fetchAssets_finish ethBalance tbs ps))) = ''ETH'' \<and>
   balance (hd (onAssetsLoaded (fetchAssets_finish ethBalance tbs ps))) = ethBalance \<and>
   (js_ge (parseFloat ethBalance) (Num 0) \<longrightarrow>
      (\<forall>a \<in> set (onAssetsLoaded (fetchAssets_finish ethBalance tbs ps)).
         js_ge (parseFloat (balance a)) (Num 0)))"
proof -
  have tokens: "\<forall>a \<in> set (map (withUsdValue ps) (validBalances tbs)).
      js_gt (parseFloat (balance a)) (Num 0)"
    using validBalances_positive by (auto simp: withUsdValue_fields)
  have ge: "js_gt n (Num 0) \<Longrightarrow> js_ge n (Num 0)" for n
    by (cases n) (simp_all add: js_gt_def js_ge_def)
  from tokens ge show ?thesis
    by (auto simp: fetchAssets_finish_def assetsWithValue_def Let_def set_sort_by ethAsset_def)
qed

theorem token_balances_positive_witness:
  "map balance (onAssetsLoaded (fetchAssets_finish ''1.5'' exampleBalances Map.empty))
     = [''1.5'', ''12.50'', ''3.0''] \<and>
   js_ge (parseFloat ''1.5'') (Num 0) \<and>
   js_gt (parseFloat ''12.50'') (Num 0) \<and> js_gt (parseFloat ''3.0'') (Num 0)"
proof -
  have list: "map balance (onAssetsLoaded (fetchAssets_finish ''1.5'' exampleBalances Map.empty))
      = [''1.5'', ''12.50'', ''3.0'']"
    by (simp add: fetchAssets_finish_def Let_def example_assets ethAsset_def withUsdValue_fields)
  have eth: "js_ge (parseFloat ''1.5'') (Num 0)"
    by (simp add: parse_eval js_ge_def)
  have "\<forall>n \<in> set (map (\<lambda>a. parseFloat (balance a))
          (tl (onAssetsLoaded (fetchAssets_finish ''1.5'' exampleBalances Map.empty)))).
          js_gt n (Num 0)"
    using token_balances_positive [of "''1.5''" exampleBalances Map.empty] by simp
  then have "\<forall>n \<in> set (map parseFloat
          (tl (map balance (onAssetsLoaded (fetchAssets_finish ''1.5'' exampleBalances Map.empty))))).
          js_gt n (Num 0)"
    by (simp add: map_tl comp_def)
  then have "js_gt (parseFloat ''12.50'') (Num 0) \<and> js_gt (parseFloat ''3.0'') (Num 0)"
    unfolding list by simp
  with list eth show ?thesis by simp
qed

text \<open>
  Claim C6 as stated fails for the ETH entry. A run whose ETH balance request is rejected
  returns \<^verbatim>\<open>'Error'\<close>, which becomes the component's \<^verbatim>\<open>ethBalance\<close>; the list then
  given to \<^verbatim>\<open>onAssetsLoaded\<close> starts with an ETH entry whose balance is that string, and
  \<^verbatim>\<open>parseFloat('Error')\<close> is \<^verbatim>\<open>NaN\<close>, not a non-negative number.
\<close>

theorem eth_balance_error_counterexample:
  "balance (hd (onAssetsLoaded (fetchAssets_finish
      (returned (fetchEthBalance Map.empty ''0xW'' 1000 1900
         (Rejected \<lparr>message = ''timeout'', response_status = None, code = ''TIMEOUT''\<rparr>)))
      [] Map.empty))) = ''Error'' \<and>
   parseFloat ''Error'' = NaN \<and>
   \<not> js_ge (parseFloat (balance (hd (onAssetsLoaded (fetchAssets_finish
      (returned (fetchEthBalance Map.empty ''0xW'' 1000 1900
         (Rejected \<lparr>message = ''timeout'', response_status = None, code = ''TIMEOUT''\<rparr>)))
      [] Map.empty))))) (Num 0)"
  by (simp add: fetchAssets_finish_def assetsWithValue_def validBalances_def ethAsset_def
      fetchEthBalance_def Let_def parse_eval js_ge_def)

section \<open>Properties of StakingData\<close>

lemma insert_by_insort:
  "insert_by (\<lambda>a b. f b - f a) x xs = insort_key (\<lambda>a. - f a) x xs"
  by (induction xs) simp_all

lemma sort_by_sort_key:
  "sort_by (\<lambda>a b. f b - f a) xs = sort_key (\<lambda>a. - f a) xs"
  by (induction xs) (simp_all add: sort_by_def insert_by_insort)

text \<open>
  A pool is listed when its asset symbol is known and its APY is a positive number; a pool
  of a known asset whose APY is no number ends the \<^verbatim>\<open>reduce\<close> with an exception.
\<close>

lemma foldl_reducer_thrown:
  "foldl (\<lambda>acc item. case acc of Inl err \<Rightarrow> Inl err | Inr rows \<Rightarrow> reducer api rows item)
     (Inl err) items = Inl err"
  by (induction items) simp_all

lemma foldl_reducer:
  assumes "\<forall>item \<in> set items. assetName (tokens api) item \<noteq> ''Unknown'' \<longrightarrow> apy item \<noteq> NonNumeric"
  shows "foldl (\<lambda>acc item. case acc of Inl err \<Rightarrow> Inl err | Inr rows \<Rightarrow> reducer api rows item)
           (Inr acc) items =
         Inr (acc @ map (\<lambda>item. row api item (apyNumber item))
                    (filter (\<lambda>item. assetName (tokens api) item \<noteq> ''Unknown'' \<and>
                                     0 < apyNumber item) items))"
  using assms
proof (induction items arbitrary: acc)
  case Nil
  then show ?case by simp
next
  case (Cons item items)
  from Cons.prems have step: "reducer api acc item =
      Inr (if assetName (tokens api) item \<noteq> ''Unknown'' \<and> 0 < apyNumber item
           then acc @ [row api item (apyNumber item)] else acc)"
    by (cases "apy item") (auto simp: reducer_def aprOf_def apyNumber_def)
  from Cons.prems have rest:
    "\<forall>item \<in> set items. assetName (tokens api) item \<noteq> ''Unknown'' \<longrightarrow> apy item \<noteq> NonNumeric"
    by simp
  show ?case
    by (simp add: step Cons.IH [OF rest])
qed

lemma assetName_nonempty: "assetName tokenList item \<noteq> []"
  by (simp add: assetName_def Let_def)

lemma toUpperCase_empty: "toUpperCase s = [] \<longleftrightarrow> s = []"
  by (simp add: toUpperCase_def)

lemma userAssetSymbols_member:
  assumes "s \<noteq> []"
  shows "toUpperCase s \<in> userAssetSymbols userAssets \<longleftrightarrow>
           (\<exists>a \<in> set userAssets. toUpperCase (symbol a) = toUpperCase s)"
proof
  assume "toUpperCase s \<in> userAssetSymbols userAssets"
  then show "\<exists>a \<in> set userAssets. toUpperCase (symbol a) = toUpperCase s"
    by (auto simp: userAssetSymbols_def)
next
  assume "\<exists>a \<in> set userAssets. toUpperCase (symbol a) = toUpperCase s"
  then obtain a where a: "a \<in> set userAssets" "toUpperCase (symbol a) = toUpperCase s"
    by blast
  with assms have "symbol a \<noteq> []"
    using toUpperCase_empty [of s] toUpperCase_empty [of "symbol a"] by auto
  with a have "toUpperCase (symbol a) \<in>
      (\<lambda>a. toUpperCase (symbol a)) ` {a \<in> set userAssets. symbol a \<noteq> []}"
    by blast
  then have "toUpperCase (symbol a) \<in> userAssetSymbols userAssets"
    unfolding userAssetSymbols_def by simp
  with a show "toUpperCase s \<in> userAssetSymbols userAssets" by simp
qed

lemma filteredStakingData_rows:
  assumes "\<forall>r \<in> set rows. asset r \<noteq> []"
  shows "filteredStakingData rows userAssets =
           filter (\<lambda>r. \<exists>a \<in> set userAssets. toUpperCase (symbol a) = toUpperCase (asset r)) rows"
proof (cases "userAssets = []")
  case True
  then show ?thesis by (simp add: filteredStakingData_def)
next
  case False
  from assms have "\<forall>r \<in> set rows.
      (toUpperCase (asset r) \<in> userAssetSymbols userAssets) =
      (\<exists>a \<in> set userAssets. toUpperCase (symbol a) = toUpperCase (asset r))"
    using userAssetSymbols_member by blast
  with False show ?thesis
    by (simp add: filteredStakingData_def cong: filter_cong)
qed

text \<open>
  When every pool of a known asset has a number or nothing as its APY, the answers are
  processed without an exception, and the rows StakingData shows are exactly the rows of
  the fetched pools that have a known asset symbol and an APY above 0 and whose asset
  symbol equals, letter case ignored, the symbol of one of the user's assets, in
  descending order of APY; with no user assets no row is shown.
\<close>

lemma staking_rows_of_numbers:
  assumes "\<forall>item \<in> set (stats api).
             assetName (tokens api) item \<noteq> ''Unknown'' \<longrightarrow> apy item \<noteq> NonNumeric"
  shows "\<exists>rows. sortedData api = Inr rows \<and>
           mset (filteredStakingData rows userAssets) =
             mset (map (\<lambda>item. row api item (apyNumber item))
               (filter (\<lambda>item. assetName (tokens api) item \<noteq> ''Unknown'' \<and> 0 < apyNumber item \<and>
                          (\<exists>a \<in> set userAssets.
                             toUpperCase (symbol a) = toUpperCase (assetName (tokens api) item)))
                  (stats api))) \<and>
           sorted_wrt (\<lambda>r r'. aprValue r \<ge> aprValue r') (filteredStakingData rows userAssets) \<and>
           filteredStakingData rows [] = []"
proof -
  let ?P = "\<lambda>r. \<exists>a \<in> set userAssets. toUpperCase (symbol a) = toUpperCase (asset r)"
  let ?ok = "\<lambda>item. assetName (tokens api) item \<noteq> ''Unknown'' \<and> 0 < apyNumber item"
  let ?row = "\<lambda>item. row api item (apyNumber item)"
  let ?pd = "map ?row (filter ?ok (stats api))"
  let ?rows = "sort_key (\<lambda>r. - aprValue r) ?pd"
  have pd: "processedData api = Inr ?pd"
    using foldl_reducer [OF assms, of "[]"] by (simp add: processedData_def)
  then have sd: "sortedData api = Inr ?rows"
    by (simp add: sortedData_def sort_by_sort_key)
  have named: "\<forall>r \<in> set ?rows. asset r \<noteq> []"
    by (auto simp: row_def assetName_nonempty)
  have "mset (filter ?P ?rows) = mset (filter ?P ?pd)"
    by simp
  also have "filter ?P ?pd = map ?row (filter (\<lambda>item. ?P (?row item)) (filter ?ok (stats api)))"
    by (simp add: filter_map comp_def)
  also have "filter (\<lambda>item. ?P (?row item)) (filter ?ok (stats api)) =
      filter (\<lambda>item. ?ok item \<and>
                (\<exists>a \<in> set userAssets.
                   toUpperCase (symbol a) = toUpperCase (assetName (tokens api) item)))
        (stats api)"
    by (simp add: row_def conj_commute)
  finally have m: "mset (filter ?P ?rows) =
      mset (map ?row
        (filter (\<lambda>item. ?ok item \<and>
                  (\<exists>a \<in> set userAssets.
                     toUpperCase (symbol a) = toUpperCase (assetName (tokens api) item)))
           (stats api)))" .
  have "sorted (map (\<lambda>r. - aprValue r) ?rows)"
    by simp
  then have "sorted (map (\<lambda>r. - aprValue r) (filter ?P ?rows))"
    by (rule sorted_filter)
  then have o: "sorted_wrt (\<lambda>r r'. aprValue r \<ge> aprValue r') (filter ?P ?rows)"
    by (simp add: sorted_map)
  have e: "filteredStakingData ?rows [] = []"
    by (simp add: filteredStakingData_def)
  have f: "filteredStakingData ?rows userAssets = filter ?P ?rows"
    by (rule filteredStakingData_rows [OF named])
  show ?thesis
  proof (intro exI conjI)
    show "sortedData api = Inr ?rows" by (rule sd)
    show "mset (filteredStakingData ?rows userAssets) =
      mset (map ?row
        (filter (\<lambda>item. assetName (tokens api) item \<noteq> ''Unknown'' \<and> 0 < apyNumber item \<and>
                  (\<exists>a \<in> set userAssets.
                     toUpperCase (symbol a) = toUpperCase (assetName (tokens api) item)))
           (stats api)))"
      using m unfolding f by (simp add: conj_assoc)
    show "sorted_wrt (\<lambda>r r'. aprValue r \<ge> aprValue r') (filteredStakingData ?rows userAssets)"
      using o unfolding f .
    show "filteredStakingData ?rows [] = []" by (rule e)
  qed
qed

lemma example_sortedData:
  "sortedData exampleStaking = Inr
     [\<lparr>protocol = ''Marinade'', asset = ''SOL'', aprValue = 7, chains = [''Solana'']\<rparr>,
      \<lparr>protocol = ''Aave'', asset = ''usdc'', aprValue = 9 / 2, chains = []\<rparr>,
      \<lparr>protocol = ''Lido'', asset = ''eth'', aprValue = 4, chains = [''Ethereum'']\<rparr>,
      \<lparr>protocol = ''Rocket Pool'', asset = ''ETH'', aprValue = 3, chains = [''Ethereum'']\<rparr>]"
  by (simp add: sortedData_def processedData_def exampleStaking_def reducer_def row_def
      assetName_def protocolName_def aprOf_def Map_get_def sort_by_def Let_def)

lemma example_shown:
  "filteredStakingData
     [\<lparr>protocol = ''Marinade'', asset = ''SOL'', aprValue = 7, chains = [''Solana'']\<rparr>,
      \<lparr>protocol = ''Aave'', asset = ''usdc'', aprValue = 9 / 2, chains = []\<rparr>,
      \<lparr>protocol = ''Lido'', asset = ''eth'', aprValue = 4, chains = [''Ethereum'']\<rparr>,
      \<lparr>protocol = ''Rocket Pool'', asset = ''ETH'', aprValue = 3, chains = [''Ethereum'']\<rparr>]
     (assetsWithValue ''1.5'' exampleBalances examplePrices) =
     [\<lparr>protocol = ''Aave'', asset = ''usdc'', aprValue = 9 / 2, chains = []\<rparr>,
      \<lparr>protocol = ''Lido'', asset = ''eth'', aprValue = 4, chains = [''Ethereum'']\<rparr>,
      \<lparr>protocol = ''Rocket Pool'', asset = ''ETH'', aprValue = 3, chains = [''Ethereum'']\<rparr>]"
  by (simp add: filteredStakingData_def userAssetSymbols_def example_assets
      ethAsset_def withUsdValue_fields toUpperCase_def toUpperCase_char_def)

lemma example_thrown: "sortedData nullApyStaking = Inl TypeError"
  by (simp add: sortedData_def processedData_def nullApyStaking_def exampleStaking_def
      reducer_def row_def assetName_def protocolName_def aprOf_def Map_get_def Let_def)

text \<open>
  Claim C8 fails in the code when the service reports the APY of a pool of a known asset
  as \<^verbatim>\<open>null\<close>. With the pools of the example, \<^verbatim>\<open>aprValue.toFixed(2)\<close> throws for
  that pool, the \<^verbatim>\<open>catch\<close> of \<^verbatim>\<open>fetchStakingData\<close> is entered, nothing is stored
  and the state \<^verbatim>\<open>stakingData\<close> stays empty, so no row is shown; the same answers
  without that pool give the three rows the claim describes for a user who holds ETH and
  USDC.
\<close>

theorem null_apy_no_rows:
  "fetchStakingData None ''0xW'' 1000 1900 (Resolved nullApyStaking) [] =
     \<lparr>returned = [], cache = None, fetched = True, logged = [''Error fetching staking data:'']\<rparr> \<and>
   filteredStakingData
     (returned (fetchStakingData None ''0xW'' 1000 1900 (Resolved nullApyStaking) []))
     (assetsWithValue ''1.5'' exampleBalances examplePrices) = [] \<and>
   map asset (filteredStakingData
     (returned (fetchStakingData None ''0xW'' 1000 1900 (Resolved exampleStaking) []))
     (assetsWithValue ''1.5'' exampleBalances examplePrices)) = [''usdc'', ''eth'', ''ETH''] \<and>
   map apy (filter (\<lambda>item. staking_token_symbol item = ''ETH'') (stats nullApyStaking))
     = [Numeric 3, Numeric 0, NonNumeric]"
proof -
  have bad: "fetchStakingData None ''0xW'' 1000 1900 (Resolved nullApyStaking) [] =
     \<lparr>returned = [], cache = None, fetched = True, logged = [''Error fetching staking data:'']\<rparr>"
    by (simp add: fetchStakingData_def example_thrown)
  have good: "returned (fetchStakingData None ''0xW'' 1000 1900 (Resolved exampleStaking) []) =
     [\<lparr>protocol = ''Marinade'', asset = ''SOL'', aprValue = 7, chains = [''Solana'']\<rparr>,
      \<lparr>protocol = ''Aave'', asset = ''usdc'', aprValue = 9 / 2, chains = []\<rparr>,
      \<lparr>protocol = ''Lido'', asset = ''eth'', aprValue = 4, chains = [''Ethereum'']\<rparr>,
      \<lparr>protocol = ''Rocket Pool'', asset = ''ETH'', aprValue = 3, chains = [''Ethereum'']\<rparr>]"
    by (simp add: fetchStakingData_def example_sortedData)
  have pools: "map apy (filter (\<lambda>item. staking_token_symbol item = ''ETH'') (stats nullApyStaking))
     = [Numeric 3, Numeric 0, NonNumeric]"
    by (simp add: nullApyStaking_def exampleStaking_def)
  have none: "filteredStakingData [] (assetsWithValue ''1.5'' exampleBalances examplePrices) = []"
    by (simp add: filteredStakingData_def)
  from pools show ?thesis
    unfolding bad good by (simp add: none example_shown)
qed

section \<open>Properties of the requests of WalletAssets\<close>

lemma fetchTokenBalance_cache_other:
  "k \<noteq> walletAddress @ ''-'' @ a \<Longrightarrow>
   cache (fetchTokenBalance g walletAddress tok a tc ts rpc) k = g k"
  by (simp add: fetchTokenBalance_def Let_def split: option.splits outcome.splits)

lemma fetchTokenBalance_local:
  assumes "g (walletAddress @ ''-'' @ a) = g' (walletAddress @ ''-'' @ a)"
  shows "returned (fetchTokenBalance g walletAddress tok a tc ts rpc)
           = returned (fetchTokenBalance g' walletAddress tok a tc ts rpc) \<and>
         cache (fetchTokenBalance g walletAddress tok a tc ts rpc) (walletAddress @ ''-'' @ a)
           = cache (fetchTokenBalance g' walletAddress tok a tc ts rpc) (walletAddress @ ''-'' @ a)"
  using assms
  by (simp add: fetchTokenBalance_def Let_def split: option.splits outcome.splits)

lemma fetchOne_agreeAway:
  assumes R: "agreeAway walletAddress t st st'"
    and same: "\<forall>a. a \<noteq> t \<longrightarrow> balanceOf w a = balanceOf w' a \<and>
                 checkedAt w a = checkedAt w' a \<and> storedAt w a = storedAt w' a"
  shows "agreeAway walletAddress t (fetchOne w walletAddress toks st a)
           (fetchOne w' walletAddress toks st' a)"
proof (cases "map_of toks a")
  case None
  with R show ?thesis by (simp add: fetchOne_def)
next
  case (Some tok)
  let ?r = "fetchTokenBalance (globalCache st) walletAddress tok a
              (checkedAt w a) (storedAt w a) (balanceOf w a)"
  let ?r' = "fetchTokenBalance (globalCache st') walletAddress tok a
              (checkedAt w' a) (storedAt w' a) (balanceOf w' a)"
  have st: "fetchOne w walletAddress toks st a =
      \<lparr>globalCache = cache ?r, batchResults = batchResults st @ [(a, returned ?r)],
       tokenBalances = tokenBalances st @ (case returned ?r of Some d \<Rightarrow> [d] | None \<Rightarrow> []),
       requested = requested st @ (if fetched ?r then [a] else []),
       errorLines = errorLines st @ logged ?r\<rparr>"
    using Some by (simp add: fetchOne_def Let_def)
  have st': "fetchOne w' walletAddress toks st' a =
      \<lparr>globalCache = cache ?r', batchResults = batchResults st' @ [(a, returned ?r')],
       tokenBalances = tokenBalances st' @ (case returned ?r' of Some d \<Rightarrow> [d] | None \<Rightarrow> []),
       requested = requested st' @ (if fetched ?r' then [a] else []),
       errorLines = errorLines st' @ logged ?r'\<rparr>"
    using Some by (simp add: fetchOne_def Let_def)
  show ?thesis
  proof (cases "a = t")
    case True
    have "cache ?r (walletAddress @ ''-'' @ b) = cache ?r' (walletAddress @ ''-'' @ b)"
      if "b \<noteq> t" for b
      using that True R fetchTokenBalance_cache_other [of "walletAddress @ ''-'' @ b" walletAddress a]
      by (simp add: agreeAway_def)
    with R True show ?thesis
      unfolding st st' by (simp add: agreeAway_def)
  next
    case False
    with same have eq: "balanceOf w a = balanceOf w' a" "checkedAt w a = checkedAt w' a"
      "storedAt w a = storedAt w' a" by simp_all
    from R False have g: "globalCache st (walletAddress @ ''-'' @ a)
        = globalCache st' (walletAddress @ ''-'' @ a)"
      by (simp add: agreeAway_def)
    note loc = fetchTokenBalance_local [where g = "globalCache st" and g' = "globalCache st'"
        and walletAddress = walletAddress and a = a and tok = tok and tc = "checkedAt w' a"
        and ts = "storedAt w' a" and rpc = "balanceOf w' a", OF g]
    have "cache ?r (walletAddress @ ''-'' @ b) = cache ?r' (walletAddress @ ''-'' @ b)"
      if "b \<noteq> t" for b
    proof (cases "b = a")
      case True
      with loc eq show ?thesis by simp
    next
      case False
      with that R show ?thesis
        using fetchTokenBalance_cache_other [of "walletAddress @ ''-'' @ b" walletAddress a]
        by (simp add: agreeAway_def)
    qed
    moreover have "returned ?r = returned ?r'"
      using loc eq by simp
    ultimately show ?thesis
      using R unfolding st st' by (simp add: agreeAway_def)
  qed
qed

lemma foldl_fetchOne_agreeAway:
  assumes "agreeAway walletAddress t st st'"
    and "\<forall>a. a \<noteq> t \<longrightarrow> balanceOf w a = balanceOf w' a \<and>
                 checkedAt w a = checkedAt w' a \<and> storedAt w a = storedAt w' a"
  shows "agreeAway walletAddress t (foldl (fetchOne w walletAddress toks) st as)
           (foldl (fetchOne w' walletAddress toks) st' as)"
  using assms
proof (induction as arbitrary: st st')
  case Nil
  then show ?case by simp
next
  case (Cons a as)
  from Cons.prems have "agreeAway walletAddress t (fetchOne w walletAddress toks st a)
      (fetchOne w' walletAddress toks st' a)"
    by (rule fetchOne_agreeAway)
  with Cons.IH Cons.prems(2) show ?case by simp
qed

lemma foldl_batches_agreeAway:
  assumes "agreeAway walletAddress t st st'"
    and "\<forall>a. a \<noteq> t \<longrightarrow> balanceOf w a = balanceOf w' a \<and>
                 checkedAt w a = checkedAt w' a \<and> storedAt w a = storedAt w' a"
  shows "agreeAway walletAddress t
           (foldl (\<lambda>st batch. foldl (fetchOne w walletAddress toks) st batch) st bs)
           (foldl (\<lambda>st batch. foldl (fetchOne w' walletAddress toks) st batch) st' bs)"
  using assms
proof (induction bs arbitrary: st st')
  case Nil
  then show ?case by simp
next
  case (Cons b bs)
  from Cons.prems have "agreeAway walletAddress t (foldl (fetchOne w walletAddress toks) st b)
      (foldl (fetchOne w' walletAddress toks) st' b)"
    by (rule foldl_fetchOne_agreeAway)
  with Cons.IH Cons.prems(2) show ?case by simp
qed

lemma balanceLoop_isolated:
  "filter (\<lambda>p. fst p \<noteq> t)
     (batchResults (balanceLoop (w\<lparr>balanceOf := (balanceOf w)(t := x)\<rparr>) walletAddress toks g))
   = filter (\<lambda>p. fst p \<noteq> t) (batchResults (balanceLoop w walletAddress toks g))"
proof -
  let ?w' = "w\<lparr>balanceOf := (balanceOf w)(t := x)\<rparr>"
  let ?st0 = "\<lparr>globalCache = g, batchResults = [], tokenBalances = [], requested = [],
               errorLines = []\<rparr>"
  have "agreeAway walletAddress t ?st0 ?st0" by (simp add: agreeAway_def)
  moreover have "\<forall>a. a \<noteq> t \<longrightarrow> balanceOf ?w' a = balanceOf w a \<and>
                 checkedAt ?w' a = checkedAt w a \<and> storedAt ?w' a = storedAt w a"
    by simp
  ultimately have "agreeAway walletAddress t
      (balanceLoop ?w' walletAddress toks g) (balanceLoop w walletAddress toks g)"
    unfolding balanceLoop_def by (rule foldl_batches_agreeAway)
  then show ?thesis by (simp add: agreeAway_def)
qed

lemma fetchPrice_other:
  "k \<noteq> sy \<Longrightarrow> priceData (fetchPrice w st sy) k = priceData st k"
  by (simp add: fetchPrice_def setProperty_def split: outcome.splits body.splits)

lemma fetchPrice_same:
  assumes "priceData st sy = priceData st' sy" and "proxy w sy = proxy w' sy"
  shows "priceData (fetchPrice w st sy) sy = priceData (fetchPrice w' st' sy) sy"
  using assms by (auto simp: fetchPrice_def setProperty_def split: outcome.splits body.splits)

lemma fetchPrice_rejected:
  "proxy w sy = Rejected e \<Longrightarrow>
   fetchPrice w st sy =
     st\<lparr>asked := asked st @ [sy],
        priceErrors := priceErrors st @ [''Error fetching price for '' @ sy @ '':'']\<rparr>"
  by (simp add: fetchPrice_def)

lemma foldl_fetchPrice_away:
  assumes "\<forall>k. k \<noteq> t \<longrightarrow> priceData st k = priceData st' k"
    and "\<forall>k. k \<noteq> t \<longrightarrow> proxy w k = proxy w' k"
  shows "\<forall>k. k \<noteq> t \<longrightarrow>
           priceData (foldl (fetchPrice w) st sys) k = priceData (foldl (fetchPrice w') st' sys) k"
  using assms
proof (induction sys arbitrary: st st')
  case Nil
  then show ?case by simp
next
  case (Cons sy sys)
  have "\<forall>k. k \<noteq> t \<longrightarrow> priceData (fetchPrice w st sy) k = priceData (fetchPrice w' st' sy) k"
  proof (intro allI impI)
    fix k assume k: "k \<noteq> t"
    show "priceData (fetchPrice w st sy) k = priceData (fetchPrice w' st' sy) k"
    proof (cases "k = sy")
      case True
      with k Cons.prems show ?thesis using fetchPrice_same [of st sy st' w w'] by simp
    next
      case False
      with k Cons.prems show ?thesis by (simp add: fetchPrice_other)
    qed
  qed
  with Cons.IH Cons.prems(2) show ?case by simp
qed

lemma foldl_foldl_concat: "foldl (\<lambda>st batch. foldl f st batch) st bs = foldl f st (concat bs)"
  by (induction bs arbitrary: st) simp_all

lemma priceLoop_flat:
  "priceLoop w pc toFetch =
     foldl (fetchPrice w) \<lparr>priceData = pc, asked = [], priceErrors = []\<rparr> toFetch"
proof -
  have "concat (priceData_batches toFetch) = toFetch"
    unfolding priceData_batches_def by (rule concat_batches [of 3 toFetch 0, simplified])
  then show ?thesis
    by (simp add: priceLoop_def foldl_foldl_concat)
qed

lemma balanceLoop_flat:
  "balanceLoop w walletAddress toks g =
     foldl (fetchOne w walletAddress toks)
       \<lparr>globalCache = g, batchResults = [], tokenBalances = [], requested = [], errorLines = []\<rparr>
       (sortedAddresses toks)"
proof -
  have "concat (tokenBalance_batches (sortedAddresses toks)) = sortedAddresses toks"
    unfolding tokenBalance_batches_def
    by (rule concat_batches [of 5 "sortedAddresses toks" 0, simplified])
  then show ?thesis
    by (simp add: balanceLoop_def foldl_foldl_concat)
qed

lemma proxy_free:
  "priceCacheOf session (w\<lparr>proxy := p\<rparr>) = priceCacheOf session w"
  "symbolsToFetch session allAssets (w\<lparr>proxy := p\<rparr>) = symbolsToFetch session allAssets w"
  by (simp_all add: priceCacheOf_def symbolsToFetch_def cong: option.case_cong)

lemma fetchPriceData_isolated:
  assumes "sy \<noteq> t"
  shows "returned (fetchPriceData session allAssets (w\<lparr>proxy := (proxy w)(t := x)\<rparr>)) sy
           = returned (fetchPriceData session allAssets w) sy"
proof -
  let ?w' = "w\<lparr>proxy := (proxy w)(t := x)\<rparr>"
  let ?st0 = "\<lparr>priceData = priceCacheOf session w, asked = [], priceErrors = []\<rparr>"
  have "\<forall>k. k \<noteq> t \<longrightarrow> priceData ?st0 k = priceData ?st0 k" by simp
  moreover have "\<forall>k. k \<noteq> t \<longrightarrow> proxy ?w' k = proxy w k" by simp
  ultimately have "\<forall>k. k \<noteq> t \<longrightarrow>
      priceData (foldl (fetchPrice ?w') ?st0 (symbolsToFetch session allAssets w)) k
      = priceData (foldl (fetchPrice w) ?st0 (symbolsToFetch session allAssets w)) k"
    by (rule foldl_fetchPrice_away)
  with assms show ?thesis
    by (simp add: fetchPriceData_def proxy_free priceLoop_flat Let_def)
qed

lemma foldl_fetchPrice_rejected:
  "proxy w t = Rejected e \<Longrightarrow> priceData (foldl (fetchPrice w) st sys) t = priceData st t"
proof (induction sys arbitrary: st)
  case Nil
  then show ?case by simp
next
  case (Cons sy sys)
  have "priceData (fetchPrice w st sy) t = priceData st t"
  proof (cases "sy = t")
    case True
    with Cons.prems show ?thesis by (simp add: fetchPrice_rejected)
  next
    case False
    then show ?thesis by (simp add: fetchPrice_other)
  qed
  with Cons show ?case by simp
qed

lemma fetchPriceData_rejected:
  assumes "proxy w t = Rejected e"
  shows "returned (fetchPriceData session allAssets w) t
           = (if allAssets = [] then None else priceCacheOf session w t)"
  using foldl_fetchPrice_rejected [OF assms]
  by (simp add: fetchPriceData_def priceLoop_flat Let_def)

lemma ethRpc_free:
  "fetchTokenData (w\<lparr>ethRpc := x\<rparr>) = fetchTokenData w"
  "fetchOne (w\<lparr>ethRpc := x\<rparr>) = fetchOne w"
  "fetchPrice (w\<lparr>ethRpc := x\<rparr>) = fetchPrice w"
  "priceCacheOf session (w\<lparr>ethRpc := x\<rparr>) = priceCacheOf session w"
  "symbolsToFetch session allAssets (w\<lparr>ethRpc := x\<rparr>) = symbolsToFetch session allAssets w"
  by (simp_all add: fetchTokenData_def fetchOne_def fetchPrice_def priceCacheOf_def
      symbolsToFetch_def fun_eq_iff cong: option.case_cong)

lemma ethRpc_free_loops:
  "balanceLoop (w\<lparr>ethRpc := x\<rparr>) walletAddress toks g = balanceLoop w walletAddress toks g"
  "priceLoop (w\<lparr>ethRpc := x\<rparr>) pc toFetch = priceLoop w pc toFetch"
  by (simp_all add: balanceLoop_def priceLoop_def ethRpc_free)

lemma ethRpc_free_balances:
  "fetchTokenBalances session g walletAddress toks (w\<lparr>ethRpc := x\<rparr>)
     = fetchTokenBalances session g walletAddress toks w"
  by (simp add: fetchTokenBalances_def ethRpc_free_loops cong: option.case_cong)

lemma ethRpc_free_prices:
  "fetchPriceData session allAssets (w\<lparr>ethRpc := x\<rparr>) = fetchPriceData session allAssets w"
  by (simp add: fetchPriceData_def ethRpc_free_loops ethRpc_free)

lemma fetchAssets_eth_isolated:
  "completed (fst (fetchAssets s addr captured (w\<lparr>ethRpc := x\<rparr>)))
     = completed (fst (fetchAssets s addr captured w)) \<and>
   setIsRateLimited (fst (fetchAssets s addr captured (w\<lparr>ethRpc := x\<rparr>)))
     = setIsRateLimited (fst (fetchAssets s addr captured w))"
  by (simp add: fetchAssets_def Let_def ethRpc_free ethRpc_free_balances ethRpc_free_prices
      split: prod.splits sum.splits)
text \<open>
  Claim C1. A rejected request is caught where it is made, logged with
  \<^verbatim>\<open>console.error\<close>, and replaced by a default: the ETH balance request by the
  balance \<^verbatim>\<open>'Error'\<close>, a token balance request by the token with balance
  \<^verbatim>\<open>'Error'\<close>, a price request by no change of the price object, which then holds
  for the symbol what the fresh cached object held, or no entry. No cache is written.
  The results of the other requests stay as they are: rejecting the balance request of
  one token address leaves the results for all other addresses unchanged, rejecting the
  price request of one symbol leaves the price entries of all other symbols unchanged,
  and rejecting the ETH balance request leaves everything a completed run delivers
  unchanged.
\<close>

theorem request_failures_isolated:
  "(fetched (fetchEthBalance ethSession addr tc ts (Rejected e)) \<longrightarrow>
      fetchEthBalance ethSession addr tc ts (Rejected e) =
        \<lparr>returned = ''Error'', cache = ethSession, fetched = True,
         logged = [''Failed to fetch ETH balance:'']\<rparr>) \<and>
   (fetched (fetchTokenBalance g addr tok a tc ts (Rejected e)) \<longrightarrow>
      fetchTokenBalance g addr tok a tc ts (Rejected e) =
        \<lparr>returned = Some (token.extend tok (tokenData.fields ''Error'' ''0'' None True)),
         cache = g, fetched = True,
         logged = [''Error fetching balance for '' @ symbol tok @ '':'']\<rparr>) \<and>
   (proxy w t = Rejected e \<longrightarrow>
      fetchPrice w st t =
        st\<lparr>asked := asked st @ [t],
           priceErrors := priceErrors st @ [''Error fetching price for '' @ t @ '':'']\<rparr> \<and>
      returned (fetchPriceData priceSession allAssets w) t =
        (if allAssets = [] then None else priceCacheOf priceSession w t)) \<and>
   filter (\<lambda>p. fst p \<noteq> t)
     (batchResults (balanceLoop (w\<lparr>balanceOf := (balanceOf w)(t := Rejected e)\<rparr>) addr toks g))
     = filter (\<lambda>p. fst p \<noteq> t) (batchResults (balanceLoop w addr toks g)) \<and>
   (\<forall>sy. sy \<noteq> t \<longrightarrow>
      returned (fetchPriceData priceSession allAssets (w\<lparr>proxy := (proxy w)(t := Rejected e)\<rparr>)) sy
        = returned (fetchPriceData priceSession allAssets w) sy) \<and>
   completed (fst (fetchAssets s addr captured (w\<lparr>ethRpc := Rejected e\<rparr>)))
     = completed (fst (fetchAssets s addr captured w))"
proof -
  have eth: "fetched (fetchEthBalance ethSession addr tc ts (Rejected e)) \<longrightarrow>
      fetchEthBalance ethSession addr tc ts (Rejected e) =
        \<lparr>returned = ''Error'', cache = ethSession, fetched = True,
         logged = [''Failed to fetch ETH balance:'']\<rparr>"
    by (simp add: fetchEthBalance_def split: option.splits)
  have tok: "fetched (fetchTokenBalance g addr tok a tc ts (Rejected e)) \<longrightarrow>
      fetchTokenBalance g addr tok a tc ts (Rejected e) =
        \<lparr>returned = Some (token.extend tok (tokenData.fields ''Error'' ''0'' None True)),
         cache = g, fetched = True,
         logged = [''Error fetching balance for '' @ symbol tok @ '':'']\<rparr>"
    by (simp add: fetchTokenBalance_def Let_def split: option.splits)
  have pr: "proxy w t = Rejected e \<longrightarrow>
      fetchPrice w st t =
        st\<lparr>asked := asked st @ [t],
           priceErrors := priceErrors st @ [''Error fetching price for '' @ t @ '':'']\<rparr> \<and>
      returned (fetchPriceData priceSession allAssets w) t =
        (if allAssets = [] then None else priceCacheOf priceSession w t)"
    using fetchPrice_rejected fetchPriceData_rejected by blast
  have iso: "\<forall>sy. sy \<noteq> t \<longrightarrow>
      returned (fetchPriceData priceSession allAssets (w\<lparr>proxy := (proxy w)(t := Rejected e)\<rparr>)) sy
        = returned (fetchPriceData priceSession allAssets w) sy"
    using fetchPriceData_isolated by blast
  from eth tok pr iso show ?thesis
    using balanceLoop_isolated [where t = t and w = w and x = "Rejected e" and toks = toks
        and walletAddress = addr and g = g]
      fetchAssets_eth_isolated [where s = s and addr = addr and captured = captured and w = w
        and x = "Rejected e"]
    by blast
qed

lemma example_price_run:
  "returned (fetchPriceData None
      [\<lparr>address = [], symbol = ''ETH'', name = ''Ethereum'', decimals = 0\<rparr>,
       \<lparr>address = ''0xAB'', symbol = ''USDC'', name = ''USD Coin'', decimals = 6\<rparr>]
      exampleWorld) ''ETH''
     = Some \<lparr>price = 2000, percentChange24h = 1, lastUpdated = ''t''\<rparr>"
  by (simp add: fetchPriceData_def symbolsToFetch_def priceCacheOf_def symbolsOf_def unique_def
      priceLoop_flat fetchPrice_def exampleWorld_def Let_def getProperty_def setProperty_def
      Object_prototype_def)

theorem request_failures_isolated_witness:
  "returned (fetchEthBalance Map.empty ''0xW'' 1000 1900 (Rejected tooManyRequests)) = ''Error'' \<and>
   map_option balance (returned (fetchTokenBalance Map.empty ''0xW''
       \<lparr>address = ''0xAB'', symbol = ''USDC'', name = ''USD Coin'', decimals = 6\<rparr> ''0xab''
       1200 1500 (Rejected tooManyRequests)))
     = Some ''Error'' \<and>
   returned (fetchPriceData None
      [\<lparr>address = [], symbol = ''ETH'', name = ''Ethereum'', decimals = 0\<rparr>,
       \<lparr>address = ''0xAB'', symbol = ''USDC'', name = ''USD Coin'', decimals = 6\<rparr>]
      (exampleWorld\<lparr>proxy := (proxy exampleWorld)(''USDC'' := Rejected tooManyRequests)\<rparr>)) ''USDC''
     = None \<and>
   returned (fetchPriceData None
      [\<lparr>address = [], symbol = ''ETH'', name = ''Ethereum'', decimals = 0\<rparr>,
       \<lparr>address = ''0xAB'', symbol = ''USDC'', name = ''USD Coin'', decimals = 6\<rparr>]
      (exampleWorld\<lparr>proxy := (proxy exampleWorld)(''USDC'' := Rejected tooManyRequests)\<rparr>)) ''ETH''
     = Some \<lparr>price = 2000, percentChange24h = 1, lastUpdated = ''t''\<rparr>"
proof -
  let ?usdc = "\<lparr>address = ''0xAB'', symbol = ''USDC'', name = ''USD Coin'', decimals = 6\<rparr>"
  let ?as = "[\<lparr>address = [], symbol = ''ETH'', name = ''Ethereum'', decimals = 0\<rparr>, ?usdc]"
  let ?w' = "exampleWorld\<lparr>proxy := (proxy exampleWorld)(''USDC'' := Rejected tooManyRequests)\<rparr>"
  note inst = request_failures_isolated [where ethSession = Map.empty and addr = "''0xW''"
      and tc = 1000 and ts = 1900 and e = tooManyRequests and g = Map.empty and tok = ?usdc
      and a = "''0xab''" and w = ?w' and t = "''USDC''" and priceSession = None
      and allAssets = ?as]
  have "fetched (fetchEthBalance Map.empty ''0xW'' 1000 1900 (Rejected tooManyRequests))"
    by (simp add: fetchEthBalance_def)
  with inst have c1: "returned (fetchEthBalance Map.empty ''0xW'' 1000 1900
      (Rejected tooManyRequests)) = ''Error''"
    by simp
  have "fetched (fetchTokenBalance Map.empty ''0xW'' ?usdc ''0xab'' 1000 1900
      (Rejected tooManyRequests))"
    by (simp add: fetchTokenBalance_def Let_def containsUrlPattern_def example_url_tests
        trim_def isWhiteSpace_def)
  with inst have c2: "map_option balance (returned (fetchTokenBalance Map.empty ''0xW'' ?usdc
      ''0xab'' 1000 1900 (Rejected tooManyRequests))) = Some ''Error''"
    by (simp add: token.defs tokenData.defs)
  have "proxy ?w' ''USDC'' = Rejected tooManyRequests" by simp
  with inst have c3: "returned (fetchPriceData None ?as ?w') ''USDC'' = None"
    by (simp add: priceCacheOf_def)
  have c4: "returned (fetchPriceData None ?as ?w') ''ETH''
      = Some \<lparr>price = 2000, percentChange24h = 1, lastUpdated = ''t''\<rparr>"
    using fetchPriceData_isolated [where sy = "''ETH''" and t = "''USDC''" and session = None
        and allAssets = ?as and w = exampleWorld and x = "Rejected tooManyRequests"]
      example_price_run
    by simp
  have c2': "map_option balance (returned (fetchTokenBalance Map.empty ''0xW'' ?usdc
      ''0xab'' 1200 1500 (Rejected tooManyRequests))) = Some ''Error''"
    by (simp add: fetchTokenBalance_def Let_def containsUrlPattern_def example_url_tests
        trim_def isWhiteSpace_def token.defs tokenData.defs)
  from c1 c2' c3 c4 show ?thesis by simp
qed

section \<open>Properties of the batched loops\<close>

lemma foldl_fetchPrice_asked:
  "asked (foldl (fetchPrice w) st sys) = asked st @ sys"
proof (induction sys arbitrary: st)
  case Nil
  then show ?case by simp
next
  case (Cons sy sys)
  have "asked (fetchPrice w st sy) = asked st @ [sy]"
    by (simp add: fetchPrice_def split: outcome.splits body.splits)
  with Cons.IH show ?case by simp
qed






lemma foldl_fetchBatchPrices_requests:
  "batchRequests (foldl (fetchBatchPrices batchProxy) st bs) = batchRequests st @ bs"
proof (induction bs arbitrary: st)
  case Nil
  then show ?case by simp
next
  case (Cons b bs)
  have "batchRequests (fetchBatchPrices batchProxy st b) = batchRequests st @ [b]"
    by (simp add: fetchBatchPrices_def Let_def split: outcome.splits)
  with Cons.IH show ?case by simp
qed

lemma tokenPriceLoop_requests:
  "batchRequests (tokenPriceLoop batchProxy cachedPrices symbols) = walletSymbols_batches symbols"
  by (simp add: tokenPriceLoop_def foldl_fetchBatchPrices_requests)



section \<open>Properties of the valuation\<close>

lemma constructor_url_tests:
  "\<not> URL_PATTERN_REGEX_test ''constructor''" "\<not> URL_PATTERN_REGEX_test ''Constructor Token''"
  by (simp_all add: url_test_eval)

lemma constructor_tokens:
  "uniqueTokens (processTokenTransactions
      [\<lparr>contractAddress = ''0xC0'', tokenSymbol = ''constructor'',
        tokenName = ''Constructor Token'', tokenDecimal = ''18''\<rparr>]) =
     [(''0xc0'', \<lparr>address = ''0xC0'', symbol = ''constructor'', name = ''Constructor Token'',
                 decimals = 18\<rparr>)]"
  by (simp add: processTokenTransactions_def processTx_def Let_def
      containsUrlPattern_def constructor_url_tests trim_def parse_eval
      toLowerCase_def toLowerCase_char_def)

lemma constructor_balances:
  "returned (fetchTokenBalances Map.empty Map.empty ''0xW''
      [(''0xc0'', \<lparr>address = ''0xC0'', symbol = ''constructor'', name = ''Constructor Token'',
                 decimals = 18\<rparr>)] constructorWorld) =
     [\<lparr>address = ''0xC0'', symbol = ''constructor'', name = ''Constructor Token'', decimals = 18,
       balance = ''2.0'', balanceRaw = ''2000000000000000000'', cacheTime = Some 1500,
       error = False\<rparr>]"
  by (simp add: fetchTokenBalances_def balanceLoop_flat sortedAddresses_def sort_by_def
      fetchOne_def fetchTokenBalance_def containsUrlPattern_def constructor_url_tests trim_def
      isWhiteSpace_def exampleWorld_def constructorWorld_def Let_def token.defs tokenData.defs)

lemma constructor_valid:
  "validBalances
     [\<lparr>address = ''0xC0'', symbol = ''constructor'', name = ''Constructor Token'', decimals = 18,
       balance = ''2.0'', balanceRaw = ''2000000000000000000'', cacheTime = Some 1500,
       error = False\<rparr>] =
     [\<lparr>address = ''0xC0'', symbol = ''constructor'', name = ''Constructor Token'', decimals = 18,
       balance = ''2.0'', balanceRaw = ''2000000000000000000'', cacheTime = Some 1500,
       error = False\<rparr>]"
  by (simp add: validBalances_def containsUrlPattern_def constructor_url_tests
      trim_def parse_eval js_gt_def)

lemma constructor_prices:
  "fetchPriceData None
      [ethAsset ''1.5'' Map.empty,
       withUsdValue Map.empty
         \<lparr>address = ''0xC0'', symbol = ''constructor'', name = ''Constructor Token'', decimals = 18,
          balance = ''2.0'', balanceRaw = ''2000000000000000000'', cacheTime = Some 1500,
          error = False\<rparr>] constructorWorld
   = \<lparr>returned = [''ETH'' \<mapsto> \<lparr>price = 2000, percentChange24h = 1, lastUpdated = ''t''\<rparr>],
      cache = Some \<lparr>data = [''ETH'' \<mapsto> \<lparr>price = 2000, percentChange24h = 1,
                                             lastUpdated = ''t''\<rparr>],
                    timestamp = 1900\<rparr>,
      fetched = True, logged = []\<rparr>"
  by (simp add: fetchPriceData_def symbolsToFetch_def priceCacheOf_def symbolsOf_def unique_def
      priceLoop_flat fetchPrice_def exampleWorld_def constructorWorld_def Let_def getProperty_def
      setProperty_def Object_prototype_def ethAsset_def withUsdValue_fields)

lemma constructor_run:
  "fst (fetchAssets noStores ''0xW'' ''1.5'' constructorWorld) =
     \<lparr>setEthBalance = Some ''1.5'', setIsRateLimited = False,
      completed = Some (fetchAssets_finish ''1.5''
        [\<lparr>address = ''0xC0'', symbol = ''constructor'', name = ''Constructor Token'',
          decimals = 18, balance = ''2.0'', balanceRaw = ''2000000000000000000'',
          cacheTime = Some 1500, error = False\<rparr>]
        [''ETH'' \<mapsto> \<lparr>price = 2000, percentChange24h = 1, lastUpdated = ''t''\<rparr>]),
      consoleErrors = []\<rparr> \<and>
   priceItem (snd (fetchAssets noStores ''0xW'' ''1.5'' constructorWorld)) =
     Some \<lparr>data = [''ETH'' \<mapsto> \<lparr>price = 2000, percentChange24h = 1, lastUpdated = ''t''\<rparr>],
           timestamp = 1900\<rparr>"
proof -
  have td: "fetchTokenData constructorWorld =
      (Inr [\<lparr>contractAddress = ''0xC0'', tokenSymbol = ''constructor'',
             tokenName = ''Constructor Token'', tokenDecimal = ''18''\<rparr>], False)"
    by (simp add: fetchTokenData_def constructorWorld_def exampleWorld_def)
  have eth: "fetchEthBalance Map.empty ''0xW'' 1000 1900 (Resolved ''1.5'') =
      \<lparr>returned = ''1.5'', cache = [''0xW'' \<mapsto> \<lparr>data = ''1.5'', timestamp = 1900\<rparr>],
       fetched = True, logged = []\<rparr>"
    by (simp add: fetchEthBalance_def)
  have tb: "logged (fetchTokenBalances Map.empty Map.empty ''0xW''
      [(''0xc0'', \<lparr>address = ''0xC0'', symbol = ''constructor'', name = ''Constructor Token'',
                 decimals = 18\<rparr>)] constructorWorld) = []"
    by (simp add: fetchTokenBalances_def balanceLoop_flat sortedAddresses_def sort_by_def
        fetchOne_def fetchTokenBalance_def containsUrlPattern_def constructor_url_tests trim_def
        isWhiteSpace_def exampleWorld_def constructorWorld_def Let_def)
  have w: "ethRpc constructorWorld = Resolved ''1.5''" "t_check constructorWorld = 1000"
    "t_store constructorWorld = 1900"
    by (simp_all add: constructorWorld_def exampleWorld_def)
  show ?thesis
    by (simp add: fetchAssets_def td w eth tb Let_def noStores_def constructor_tokens
        constructor_balances constructor_valid constructor_prices)
qed

text \<open>
  Claim C7 fails in the code for a token whose symbol names a property of
  \<^verbatim>\<open>Object.prototype\<close>. In the example the wallet holds 2.0 of a token with the
  symbol \<^verbatim>\<open>constructor\<close>. The run requests the price of ETH only, the price object
  it gets has no price for \<^verbatim>\<open>constructor\<close>, and yet the \<open>usdValue\<close> of the token in
  the list given to \<^verbatim>\<open>onAssetsLoaded\<close> is \<^verbatim>\<open>NaN\<close>, where the claim says 0.
\<close>

theorem inherited_price_usdValue:
  "map_option (\<lambda>l. map (\<lambda>a. (symbol a, balance a, usdValue a)) (onAssetsLoaded l))
     (completed (fst (fetchAssets noStores ''0xW'' ''1.5'' constructorWorld)))
     = Some [(''ETH'', ''1.5'', Num 3000), (''constructor'', ''2.0'', NaN)] \<and>
   map_option updateNetWorth (completed (fst (fetchAssets noStores ''0xW'' ''1.5'' constructorWorld)))
     = Some 3000 \<and>
   map_option (\<lambda>c. data c ''constructor'')
     (priceItem (snd (fetchAssets noStores ''0xW'' ''1.5'' constructorWorld))) = Some None \<and>
   map_option (\<lambda>l. symbolsToFetch None (onAssetsLoaded l) constructorWorld)
     (completed (fst (fetchAssets noStores ''0xW'' ''1.5'' constructorWorld))) = Some [''ETH'']"
  by (simp add: constructor_run [THEN conjunct1] constructor_run [THEN conjunct2]
      fetchAssets_finish_def assetsWithValue_def constructor_valid totalNetWorth_def ethAsset_def
      withUsdValue_fields getProperty_def Object_prototype_def parse_eval js_times_def Let_def
      symbolsToFetch_def priceCacheOf_def symbolsOf_def unique_def)

section \<open>Properties of the rate-limit flag\<close>

lemma fetchAssets_flag:
  "setIsRateLimited (fst (fetchAssets s addr captured w)) =
     (case fetchTokenData w of
        (Inl err, flag) \<Rightarrow> flag \<or> isRateLimitMessage err
      | (Inr tokenTxs, flag) \<Rightarrow> flag)"
  by (simp add: fetchAssets_def Let_def split: prod.splits sum.splits)

lemma fetchTokenData_free:
  "fetchTokenData (w\<lparr>ethRpc := x, balanceOf := y\<rparr>) = fetchTokenData w"
  by (simp add: fetchTokenData_def)

lemma react_limited: "isRateLimited c \<Longrightarrow> react c h = c"
  by (cases h) (simp_all add: react_def)

lemma foldl_react_limited: "isRateLimited c \<Longrightarrow> foldl react c hs = c"
  by (induction hs) (simp_all add: react_limited)

text \<open>
  Claim C2, as amended. When the Etherscan request of \<^verbatim>\<open>fetchTokenData\<close> fails with a
  rate-limit condition (it is rejected with an error whose message contains
  \<^verbatim>\<open>rate limit\<close>, \<^verbatim>\<open>too many requests\<close> or \<^verbatim>\<open>429\<close> or whose response has status
  429, or it is answered with a status other than \<^verbatim>\<open>'1'\<close> and such a message), the
  function returns no transactions and the run calls \<^verbatim>\<open>setIsRateLimited(true)\<close>.
  Whether a run sets the flag does not depend on the outcomes of the ETH balance and token
  balance requests. A run that sets the flag makes \<^verbatim>\<open>isRateLimited\<close> true, and while
  it is true, whatever happens, the flag stays true and no further call of
  \<^verbatim>\<open>fetchAssets\<close> is started.
\<close>

theorem rate_limit_flag:
  "(apiKeyDefined w \<and> etherscanApi w = Rejected err \<and> isRateLimitError err \<longrightarrow>
      fetchTokenData w = (Inr [], True) \<and>
      setIsRateLimited (fst (fetchAssets s addr captured w))) \<and>
   (apiKeyDefined w \<and> etherscanApi w = Resolved response \<and> es_status response \<noteq> ''1'' \<and>
    isRateLimitError (Error (''Etherscan API error: '' @
       (if es_message response \<noteq> [] then es_message response else ''Unknown error''))) \<longrightarrow>
      fetchTokenData w = (Inr [], True) \<and>
      setIsRateLimited (fst (fetchAssets s addr captured w))) \<and>
   setIsRateLimited (fst (fetchAssets s addr captured (w\<lparr>ethRpc := x, balanceOf := y\<rparr>)))
     = setIsRateLimited (fst (fetchAssets s addr captured w)) \<and>
   (setIsRateLimited r \<longrightarrow> isRateLimited (react c (FetchSettles r))) \<and>
   (isRateLimited c \<longrightarrow>
      isRateLimited (foldl react c hs) \<and> fetchesStarted (foldl react c hs) = fetchesStarted c)"
proof -
  have rej: "apiKeyDefined w \<and> etherscanApi w = Rejected err \<and> isRateLimitError err \<longrightarrow>
      fetchTokenData w = (Inr [], True)"
    by (simp add: fetchTokenData_def)
  have res: "apiKeyDefined w \<and> etherscanApi w = Resolved response \<and> es_status response \<noteq> ''1'' \<and>
    isRateLimitError (Error (''Etherscan API error: '' @
       (if es_message response \<noteq> [] then es_message response else ''Unknown error''))) \<longrightarrow>
      fetchTokenData w = (Inr [], True)"
    by (simp add: fetchTokenData_def)
  have free: "setIsRateLimited (fst (fetchAssets s addr captured (w\<lparr>ethRpc := x, balanceOf := y\<rparr>)))
     = setIsRateLimited (fst (fetchAssets s addr captured w))"
    by (simp only: fetchAssets_flag fetchTokenData_free)
  have settle: "setIsRateLimited r \<longrightarrow> isRateLimited (react c (FetchSettles r))"
    by (simp add: react_def)
  have stay: "isRateLimited c \<longrightarrow>
      isRateLimited (foldl react c hs) \<and> fetchesStarted (foldl react c hs) = fetchesStarted c"
    by (simp add: foldl_react_limited)
  from rej res have
    "apiKeyDefined w \<and> etherscanApi w = Rejected err \<and> isRateLimitError err \<longrightarrow>
       setIsRateLimited (fst (fetchAssets s addr captured w))"
    "apiKeyDefined w \<and> etherscanApi w = Resolved response \<and> es_status response \<noteq> ''1'' \<and>
     isRateLimitError (Error (''Etherscan API error: '' @
       (if es_message response \<noteq> [] then es_message response else ''Unknown error''))) \<longrightarrow>
       setIsRateLimited (fst (fetchAssets s addr captured w))"
    by (auto simp: fetchAssets_flag)
  with rej res free settle stay show ?thesis by blast
qed

lemma tooManyRequests_is_rate_limit: "isRateLimitError tooManyRequests"
  by (simp add: isRateLimitError_def tooManyRequests_def)

theorem rate_limit_flag_witness:
  "fetchTokenData (exampleWorld\<lparr>etherscanApi := Rejected tooManyRequests\<rparr>) = (Inr [], True) \<and>
   setIsRateLimited (fst (fetchAssets noStores ''0xW'' ''0''
      (exampleWorld\<lparr>etherscanApi := Rejected tooManyRequests\<rparr>))) \<and>
   fetchesStarted (foldl react
      \<lparr>isRateLimited = False, initialFetchDone = False, fetchesStarted = 0\<rparr>
      [EffectRuns ''0xW'',
       FetchSettles (fst (fetchAssets noStores ''0xW'' ''0''
          (exampleWorld\<lparr>etherscanApi := Rejected tooManyRequests\<rparr>))),
       EffectRuns ''0xW'', EffectRuns ''0xV'']) = 1"
proof -
  let ?w = "exampleWorld\<lparr>etherscanApi := Rejected tooManyRequests\<rparr>"
  let ?r = "fst (fetchAssets noStores ''0xW'' ''0'' ?w)"
  let ?c1 = "\<lparr>isRateLimited = False, initialFetchDone = True, fetchesStarted = 1\<rparr>"
  note inst = rate_limit_flag [where w = ?w and err = tooManyRequests and s = noStores
      and addr = "''0xW''" and captured = "''0''" and r = ?r and c = ?c1]
  have pre: "apiKeyDefined ?w \<and> etherscanApi ?w = Rejected tooManyRequests"
    by (simp add: exampleWorld_def)
  with inst tooManyRequests_is_rate_limit
  have a: "fetchTokenData ?w = (Inr [], True)" and b: "setIsRateLimited ?r"
    by blast+
  with inst have lim: "isRateLimited (react ?c1 (FetchSettles ?r))" by blast
  have "fetchesStarted (foldl react (react ?c1 (FetchSettles ?r))
          [EffectRuns ''0xW'', EffectRuns ''0xV'']) = fetchesStarted (react ?c1 (FetchSettles ?r))"
    using rate_limit_flag [where c = "react ?c1 (FetchSettles ?r)"
        and hs = "[EffectRuns ''0xW'', EffectRuns ''0xV'']"] lim
    by blast
  also have "\<dots> = 1" using b by (simp add: react_def)
  finally have c: "fetchesStarted (foldl react
      \<lparr>isRateLimited = False, initialFetchDone = False, fetchesStarted = 0\<rparr>
      [EffectRuns ''0xW'', FetchSettles ?r, EffectRuns ''0xW'', EffectRuns ''0xV'']) = 1"
    by (simp add: react_def)
  from a b c show ?thesis by simp
qed

text \<open>
  Claim C2 as stated fails for the balance requests. In the example every token balance
  request is rejected with HTTP 429, a rate-limit condition; the error is caught and
  logged by \<^verbatim>\<open>fetchTokenBalance\<close>, the run does not call
  \<^verbatim>\<open>setIsRateLimited(true)\<close>, and the next run of the effect starts another fetch.
\<close>

lemma example_balance_run:
  "logged (fetchTokenBalances Map.empty Map.empty ''0xW''
      [(''0xab'', \<lparr>address = ''0xAB'', symbol = ''USDC'', name = ''USD Coin'', decimals = 6\<rparr>)]
      exampleWorld)
     = [''Error fetching balance for USDC:'']"
  by (simp add: fetchTokenBalances_def balanceLoop_flat sortedAddresses_def sort_by_def
      fetchOne_def fetchTokenBalance_def containsUrlPattern_def example_url_tests trim_def
      isWhiteSpace_def exampleWorld_def Let_def)

lemma example_flag: "\<not> setIsRateLimited (fst (fetchAssets noStores ''0xW'' ''0'' exampleWorld))"
  by (simp add: fetchAssets_flag fetchTokenData_def exampleWorld_def)

theorem balance_rate_limit_counterexample:
  "isRateLimitError tooManyRequests \<and>
   balanceOf exampleWorld ''0xab'' = Rejected tooManyRequests \<and>
   logged (fetchTokenBalances Map.empty Map.empty ''0xW''
      (uniqueTokens (processTokenTransactions exampleTxs)) exampleWorld)
     = [''Error fetching balance for USDC:''] \<and>
   \<not> setIsRateLimited (fst (fetchAssets noStores ''0xW'' ''0'' exampleWorld)) \<and>
   fetchesStarted (foldl react
      \<lparr>isRateLimited = False, initialFetchDone = False, fetchesStarted = 0\<rparr>
      [EffectRuns ''0xW'',
       FetchSettles (fst (fetchAssets noStores ''0xW'' ''0'' exampleWorld)),
       EffectRuns ''0xW'']) = 2"
  using example_flag
  by (simp add: tooManyRequests_is_rate_limit example_uniqueTokens example_balance_run react_def)
     (simp add: exampleWorld_def)

section \<open>Properties of the caches\<close>

lemma eth_lookup:
  "ttlLookup 120000 tc (session a) (fetchEthBalance session a tc ts rpc) session"
  by (simp add: ttlLookup_def fresh_def fetchEthBalance_def split: option.splits outcome.splits)

lemma balance_lookup:
  "(if fresh 300000 tc (stampedBalance (g (a @ ''-'' @ ta)))
    then \<not> fetched (fetchTokenBalance g a tok ta tc ts rpc) \<and>
         returned (fetchTokenBalance g a tok ta tc ts rpc) = g (a @ ''-'' @ ta) \<and>
         cache (fetchTokenBalance g a tok ta tc ts rpc) = g
    else fetched (fetchTokenBalance g a tok ta tc ts rpc) \<or>
         returned (fetchTokenBalance g a tok ta tc ts rpc) = None)"
  by (simp add: fresh_def stampedBalance_def fetchTokenBalance_def CACHE_EXPIRY_def Let_def
      split: option.splits outcome.splits)

lemma batch_lookup:
  "toks \<noteq> [] \<Longrightarrow>
   (if fresh 300000 (t_check w) (session a) \<and> storedValid toks (session a) \<noteq> []
    then \<not> fetched (fetchTokenBalances session g a toks w) \<and>
         returned (fetchTokenBalances session g a toks w) = storedValid toks (session a) \<and>
         cache (fetchTokenBalances session g a toks w) = (session, g)
    else returned (fetchTokenBalances session g a toks w) = tokenBalances (balanceLoop w a toks g) \<and>
         fetched (fetchTokenBalances session g a toks w) = (requested (balanceLoop w a toks g) \<noteq> []))"
  by (simp add: fresh_def storedValid_def fetchTokenBalances_def CACHE_EXPIRY_def Let_def
      split: option.splits)

lemma priceCacheOf_fresh:
  "priceCacheOf session w =
     (if fresh 120000 (t_check w) session then storedPrices session else Map.empty)"
  by (simp add: priceCacheOf_def fresh_def storedPrices_def split: option.splits)

lemma foldl_fetchPrice_untouched:
  "k \<notin> set sys \<Longrightarrow> priceData (foldl (fetchPrice w) st sys) k = priceData st k"
  by (induction sys arbitrary: st) (simp_all add: fetchPrice_other)

lemma fetchPrice_dom:
  "dom (priceData st) \<subseteq> dom (priceData (fetchPrice w st sy)) \<and>
   dom (priceData (fetchPrice w st sy)) \<subseteq> insert sy (dom (priceData st))"
  by (auto simp: fetchPrice_def setProperty_def split: outcome.splits body.splits if_splits)

lemma foldl_fetchPrice_dom:
  "dom (priceData st) \<subseteq> dom (priceData (foldl (fetchPrice w) st sys)) \<and>
   dom (priceData (foldl (fetchPrice w) st sys)) \<subseteq> dom (priceData st) \<union> set sys"
proof (induction sys arbitrary: st)
  case Nil
  then show ?case by simp
next
  case (Cons sy sys)
  from fetchPrice_dom [of st w sy] Cons.IH [of "fetchPrice w st sy"]
  show ?case by (simp only: foldl_Cons list.set) blast
qed

lemma ETH_in_symbolsOf: "''ETH'' \<in> set (symbolsOf allAssets)"
  by (simp add: symbolsOf_def Let_def)

lemma price_lookup:
  "symbolsToFetch session allAssets w =
     filter (\<lambda>sy. \<not> (fresh 120000 (t_check w) session \<and> storedPrices session sy \<noteq> None) \<and>
                  sy \<notin> set Object_prototype)
       (symbolsOf allAssets) \<and>
   asked (priceLoop w (priceCacheOf session w) (symbolsToFetch session allAssets w))
     = symbolsToFetch session allAssets w \<and>
   fetched (fetchPriceData session allAssets w)
     = (allAssets \<noteq> [] \<and> symbolsToFetch session allAssets w \<noteq> []) \<and>
   (allAssets \<noteq> [] \<and> fresh 120000 (t_check w) session \<and> storedPrices session sy \<noteq> None \<longrightarrow>
      returned (fetchPriceData session allAssets w) sy = storedPrices session sy)"
proof -
  have a: "symbolsToFetch session allAssets w =
     filter (\<lambda>sy. \<not> (fresh 120000 (t_check w) session \<and> storedPrices session sy \<noteq> None) \<and>
                  sy \<notin> set Object_prototype)
       (symbolsOf allAssets)"
    by (auto simp: symbolsToFetch_def priceCacheOf_fresh getProperty_def
        intro!: filter_cong split: option.splits)
  have b: "asked (priceLoop w (priceCacheOf session w) (symbolsToFetch session allAssets w))
     = symbolsToFetch session allAssets w"
    by (simp add: priceLoop_flat foldl_fetchPrice_asked)
  have c: "fetched (fetchPriceData session allAssets w)
     = (allAssets \<noteq> [] \<and> symbolsToFetch session allAssets w \<noteq> [])"
    by (simp add: fetchPriceData_def Let_def)
  have d: "returned (fetchPriceData session allAssets w) sy = storedPrices session sy"
    if "allAssets \<noteq> []" "fresh 120000 (t_check w) session" "storedPrices session sy \<noteq> None"
  proof -
    from that have "sy \<notin> set (symbolsToFetch session allAssets w)"
      by (simp add: a)
    then have "priceData (priceLoop w (priceCacheOf session w)
        (symbolsToFetch session allAssets w)) sy = priceCacheOf session w sy"
      by (simp add: priceLoop_flat foldl_fetchPrice_untouched)
    with that show ?thesis
      by (simp add: fetchPriceData_def Let_def priceCacheOf_fresh)
  qed
  from a b c d show ?thesis by blast
qed

lemma symbolsToFetch_own:
  "sy \<in> set (symbolsToFetch session allAssets w) \<Longrightarrow> sy \<notin> set Object_prototype"
  by (simp add: price_lookup [THEN conjunct1])

lemma price_refresh:
  "(fresh 120000 (t_check w) session \<longrightarrow>
      dom (storedPrices session) \<subseteq> dom (storedPrices (cache (fetchPriceData session allAssets w)))) \<and>
   (\<not> fresh 120000 (t_check w) session \<and> allAssets \<noteq> [] \<longrightarrow>
      cache (fetchPriceData session allAssets w)
        = Some \<lparr>data = returned (fetchPriceData session allAssets w), timestamp = t_store w\<rparr> \<and>
      dom (returned (fetchPriceData session allAssets w))
        \<subseteq> set (symbolsToFetch session allAssets w))"
proof (intro conjI impI)
  assume f: "fresh 120000 (t_check w) session"
  let ?st0 = "\<lparr>priceData = priceCacheOf session w, asked = [], priceErrors = []\<rparr>"
  have "dom (storedPrices session)
      \<subseteq> dom (priceData (foldl (fetchPrice w) ?st0 (symbolsToFetch session allAssets w)))"
    using foldl_fetchPrice_dom [of ?st0 w "symbolsToFetch session allAssets w"] f
    by (simp add: priceCacheOf_fresh)
  then show "dom (storedPrices session)
      \<subseteq> dom (storedPrices (cache (fetchPriceData session allAssets w)))"
    by (simp add: fetchPriceData_def Let_def priceLoop_flat storedPrices_def)
next
  assume s: "\<not> fresh 120000 (t_check w) session \<and> allAssets \<noteq> []"
  let ?st0 = "\<lparr>priceData = Map.empty, asked = [], priceErrors = []\<rparr>"
  from s have pc: "priceCacheOf session w = Map.empty"
    by (simp add: priceCacheOf_fresh)
  have "''ETH'' \<in> set (symbolsToFetch session allAssets w)"
    using s ETH_in_symbolsOf [of allAssets]
    by (simp add: price_lookup [THEN conjunct1] Object_prototype_def)
  then have ne: "symbolsToFetch session allAssets w \<noteq> []" by auto
  show "cache (fetchPriceData session allAssets w)
        = Some \<lparr>data = returned (fetchPriceData session allAssets w), timestamp = t_store w\<rparr>"
    using s ne by (simp add: fetchPriceData_def Let_def)
  show "dom (returned (fetchPriceData session allAssets w))
        \<subseteq> set (symbolsToFetch session allAssets w)"
    using s ne foldl_fetchPrice_dom [of ?st0 w "symbolsToFetch session allAssets w"]
    by (simp add: fetchPriceData_def Let_def priceLoop_flat pc)
qed

lemma symbols_lookup:
  "symbols \<noteq> [] \<Longrightarrow>
   ttlLookup 120000 tc session (fetchTokenPrices session symbols tc ts batchProxy) session"
proof -
  assume "symbols \<noteq> []"
  then have "walletSymbols_batches symbols \<noteq> []"
    by (simp add: walletSymbols_batches_def batches_step)
  then show ?thesis
    by (simp add: ttlLookup_def fresh_def fetchTokenPrices_def Let_def tokenPriceLoop_requests
        split: option.splits)
qed

lemma fetchBatchPrices_kept:
  "dom (newPrices st) \<subseteq> dom (newPrices (fetchBatchPrices batchProxy st batch))"
proof -
  have "dom m \<subseteq> dom (foldl (\<lambda>m sy. case getProperty answer sy of
                                Own d \<Rightarrow>
                                  setProperty m sy
                                    \<lparr>sp_price = Some (price d),
                                     sp_percentChange24h = Some (percentChange24h d)\<rparr>
                              | Inherited \<Rightarrow>
                                  setProperty m sy
                                    \<lparr>sp_price = None, sp_percentChange24h = None\<rparr>
                              | Absent \<Rightarrow> m) m sys)" for answer :: "string \<rightharpoonup> priceInfo" and m sys
  proof (induction sys arbitrary: m)
    case Nil
    then show ?case by simp
  next
    case (Cons sy sys)
    have "dom m \<subseteq> dom (case getProperty answer sy of
                                Own d \<Rightarrow>
                                  setProperty m sy
                                    \<lparr>sp_price = Some (price d),
                                     sp_percentChange24h = Some (percentChange24h d)\<rparr>
                              | Inherited \<Rightarrow>
                                  setProperty m sy
                                    \<lparr>sp_price = None, sp_percentChange24h = None\<rparr>
                              | Absent \<Rightarrow> m)"
      by (auto simp: setProperty_def split: property.splits if_splits)
    with Cons.IH show ?case by (simp del: dom_eq_empty_conv) blast
  qed
  then show ?thesis
    by (simp add: fetchBatchPrices_def Let_def split: outcome.splits)
qed

lemma tokenPriceLoop_kept:
  "dom cachedPrices \<subseteq> dom (newPrices (tokenPriceLoop batchProxy cachedPrices symbols))"
proof -
  have "dom (newPrices st) \<subseteq> dom (newPrices (foldl (fetchBatchPrices batchProxy) st bs))" for st bs
  proof (induction bs arbitrary: st)
    case Nil
    then show ?case by simp
  next
    case (Cons b bs)
    have "dom (newPrices st) \<subseteq> dom (newPrices (fetchBatchPrices batchProxy st b))"
      by (rule fetchBatchPrices_kept)
    also have "\<dots> \<subseteq> dom (newPrices (foldl (fetchBatchPrices batchProxy)
                                     (fetchBatchPrices batchProxy st b) bs))"
      by (rule Cons.IH)
    finally show ?case by simp
  qed
  from this [of "\<lparr>newPrices = cachedPrices, batchRequests = [], batchErrors = []\<rparr>"]
  show ?thesis by (simp add: tokenPriceLoop_def)
qed

lemma symbols_kept:
  "dom (storedPrices session)
     \<subseteq> dom (storedPrices (cache (fetchTokenPrices session symbols tc ts batchProxy)))"
  using tokenPriceLoop_kept [of "storedPrices session" batchProxy symbols]
  by (auto simp: fetchTokenPrices_def storedPrices_def Let_def split: option.splits if_splits)

lemma staking_lookup:
  "walletAddress \<noteq> [] \<Longrightarrow>
   ttlLookup 600000 tc session
     (fetchStakingData session walletAddress tc ts api stakingData) session"
  by (simp add: ttlLookup_def fresh_def fetchStakingData_def
      split: option.splits outcome.splits sum.splits)

lemma lending_lookup:
  "ttlLookup 900000 tc session (fetchLendingData session tc ts api lendingData) session"
  by (simp add: ttlLookup_def fresh_def fetchLendingData_def split: option.splits outcome.splits)

lemma proxy_lookup:
  "snd (snd (price_endpoint pc tc isoNow sy up)) = (\<not> fresh 300000 tc (pc (toUpperCase sy))) \<and>
   (fresh 300000 tc (pc (toUpperCase sy)) \<longrightarrow>
      map_option (\<lambda>c. Reply 200 (PriceJson (data c))) (pc (toUpperCase sy))
        = Some (fst (price_endpoint pc tc isoNow sy up)) \<and>
      fst (snd (price_endpoint pc tc isoNow sy up)) = pc)"
  by (simp add: fresh_def price_endpoint_def CACHE_DURATION_def Let_def
      split: option.splits outcome.splits property.splits jsonNumber.splits)

lemma proxy_batch_lookup:
  "snd (prices_from_cache pc tc symbolArray) = filter (\<lambda>sy. \<not> fresh 300000 tc (pc sy)) symbolArray \<and>
   map fst (fst (prices_from_cache pc tc symbolArray)) = filter (\<lambda>sy. fresh 300000 tc (pc sy)) symbolArray"
  by (induction symbolArray)
     (simp_all add: prices_from_cache_def fresh_def CACHE_DURATION_def Let_def
        List.map_filter_simps split: option.splits)

lemma eth_kept: "dom session \<subseteq> dom (cache (fetchEthBalance session a tc ts rpc))"
  by (auto simp: fetchEthBalance_def split: option.splits outcome.splits if_splits)

lemma balance_kept: "dom g \<subseteq> dom (cache (fetchTokenBalance g a tok ta tc ts rpc))"
  by (auto simp: fetchTokenBalance_def Let_def split: option.splits outcome.splits if_splits)

lemma fetchOne_kept: "dom (globalCache st) \<subseteq> dom (globalCache (fetchOne w a toks st ta))"
  using balance_kept by (simp add: fetchOne_def Let_def split: option.splits)

lemma foldl_fetchOne_kept:
  "dom (globalCache st) \<subseteq> dom (globalCache (foldl (fetchOne w a toks) st tas))"
proof (induction tas arbitrary: st)
  case Nil
  then show ?case by simp
next
  case (Cons ta tas)
  have "dom (globalCache st) \<subseteq> dom (globalCache (fetchOne w a toks st ta))"
    by (rule fetchOne_kept)
  also have "\<dots> \<subseteq> dom (globalCache (foldl (fetchOne w a toks) (fetchOne w a toks st ta) tas))"
    by (rule Cons.IH)
  finally show ?case by simp
qed

lemma batch_kept:
  "dom session \<subseteq> dom (fst (cache (fetchTokenBalances session g a toks w))) \<and>
   dom g \<subseteq> dom (snd (cache (fetchTokenBalances session g a toks w)))"
proof -
  have "dom g \<subseteq> dom (globalCache (balanceLoop w a toks g))"
    using foldl_fetchOne_kept [of "\<lparr>globalCache = g, batchResults = [], tokenBalances = [],
        requested = [], errorLines = []\<rparr>" w a toks "sortedAddresses toks"]
    by (simp add: balanceLoop_flat)
  then show ?thesis
    by (auto simp: fetchTokenBalances_def Let_def split: option.splits if_splits)
qed

lemma proxy_kept: "dom pc \<subseteq> dom (fst (snd (price_endpoint pc tc isoNow sy up)))"
  by (auto simp: price_endpoint_def Let_def
      split: option.splits outcome.splits if_splits property.splits jsonNumber.splits)

lemma items_kept:
  "(priceSession \<noteq> None \<longrightarrow> cache (fetchPriceData priceSession allAssets w) \<noteq> None) \<and>
   (symbolSession \<noteq> None \<longrightarrow>
      cache (fetchTokenPrices symbolSession symbols tc ts batchProxy) \<noteq> None) \<and>
   (stakingSession \<noteq> None \<longrightarrow>
      cache (fetchStakingData stakingSession walletAddress tc ts api stakingData) \<noteq> None) \<and>
   (lendingSession \<noteq> None \<longrightarrow>
      cache (fetchLendingData lendingSession tc ts lapi lendingData) \<noteq> None)"
  by (auto simp: fetchPriceData_def fetchTokenPrices_def fetchStakingData_def
      fetchLendingData_def Let_def split: option.splits outcome.splits if_splits sum.splits)

text \<open>
  Claim C3, as amended. Each cache is a lookup with a fixed time to live. With a stored
  entry younger than the time to live, no request is made, the stored value is the result
  and the cache stays as it is; otherwise the request is made. The times are 2 minutes for
  the ETH balance and the two browser price caches, 5 minutes for the two token balance
  caches and the proxy's price cache, 10 minutes for the staking data and 15 minutes for
  the lending data. Three caches differ from the plain lookup. For a token balance, a
  token without a fresh entry that the spam checks reject is not requested either. The
  stored batch of token balances is used only when it is young enough and holds a balance
  of a current token, and what is used is its balances of current tokens. The price
  object of WalletAssets is consulted per symbol: a symbol is requested when the object is
  missing or too old or has no price for it (and the symbol names no property of
  \<^verbatim>\<open>Object.prototype\<close>). No operation removes a key or a stored item: every key a
  cache holds before a run it holds after it, and the symbols of the price objects are
  kept too, except that a run which finds the price object of WalletAssets too old
  replaces it by an object that holds prices for the symbols it requested only.
\<close>

theorem caches_are_ttl_lookups:
  "ttlLookup 120000 tc (ethSession a) (fetchEthBalance ethSession a tc ts rpc) ethSession \<and>
   (if fresh 300000 tc (stampedBalance (g (a @ ''-'' @ ta)))
    then \<not> fetched (fetchTokenBalance g a tok ta tc ts brpc) \<and>
         returned (fetchTokenBalance g a tok ta tc ts brpc) = g (a @ ''-'' @ ta) \<and>
         cache (fetchTokenBalance g a tok ta tc ts brpc) = g
    else fetched (fetchTokenBalance g a tok ta tc ts brpc) \<or>
         returned (fetchTokenBalance g a tok ta tc ts brpc) = None) \<and>
   (toks \<noteq> [] \<longrightarrow>
      (if fresh 300000 (t_check w) (batchSession a) \<and> storedValid toks (batchSession a) \<noteq> []
       then \<not> fetched (fetchTokenBalances batchSession g a toks w) \<and>
            returned (fetchTokenBalances batchSession g a toks w) = storedValid toks (batchSession a) \<and>
            cache (fetchTokenBalances batchSession g a toks w) = (batchSession, g)
       else returned (fetchTokenBalances batchSession g a toks w)
              = tokenBalances (balanceLoop w a toks g) \<and>
            fetched (fetchTokenBalances batchSession g a toks w)
              = (requested (balanceLoop w a toks g) \<noteq> []))) \<and>
   (symbolsToFetch priceSession allAssets w =
      filter (\<lambda>sy. \<not> (fresh 120000 (t_check w) priceSession \<and>
                      storedPrices priceSession sy \<noteq> None) \<and>
                   sy \<notin> set Object_prototype)
        (symbolsOf allAssets) \<and>
    asked (priceLoop w (priceCacheOf priceSession w) (symbolsToFetch priceSession allAssets w))
      = symbolsToFetch priceSession allAssets w \<and>
    fetched (fetchPriceData priceSession allAssets w)
      = (allAssets \<noteq> [] \<and> symbolsToFetch priceSession allAssets w \<noteq> []) \<and>
    (allAssets \<noteq> [] \<and> fresh 120000 (t_check w) priceSession \<and>
     storedPrices priceSession sy \<noteq> None \<longrightarrow>
       returned (fetchPriceData priceSession allAssets w) sy = storedPrices priceSession sy)) \<and>
   (symbols \<noteq> [] \<longrightarrow>
      ttlLookup 120000 tc symbolSession
        (fetchTokenPrices symbolSession symbols tc ts batchProxy) symbolSession) \<and>
   (snd (snd (price_endpoint pc tc isoNow sy up)) = (\<not> fresh 300000 tc (pc (toUpperCase sy))) \<and>
    (fresh 300000 tc (pc (toUpperCase sy)) \<longrightarrow>
       map_option (\<lambda>c. Reply 200 (PriceJson (data c))) (pc (toUpperCase sy))
         = Some (fst (price_endpoint pc tc isoNow sy up)) \<and>
       fst (snd (price_endpoint pc tc isoNow sy up)) = pc)) \<and>
   (snd (prices_from_cache pc tc symbolArray)
      = filter (\<lambda>sy. \<not> fresh 300000 tc (pc sy)) symbolArray \<and>
    map fst (fst (prices_from_cache pc tc symbolArray))
      = filter (\<lambda>sy. fresh 300000 tc (pc sy)) symbolArray) \<and>
   (walletAddress \<noteq> [] \<longrightarrow>
      ttlLookup 600000 tc stakingSession
        (fetchStakingData stakingSession walletAddress tc ts api stakingData) stakingSession) \<and>
   ttlLookup 900000 tc lendingSession
     (fetchLendingData lendingSession tc ts lapi lendingData) lendingSession \<and>
   (dom ethSession \<subseteq> dom (cache (fetchEthBalance ethSession a tc ts rpc)) \<and>
    dom g \<subseteq> dom (cache (fetchTokenBalance g a tok ta tc ts brpc)) \<and>
    dom batchSession \<subseteq> dom (fst (cache (fetchTokenBalances batchSession g a toks w))) \<and>
    dom g \<subseteq> dom (snd (cache (fetchTokenBalances batchSession g a toks w))) \<and>
    dom pc \<subseteq> dom (fst (snd (price_endpoint pc tc isoNow sy up))) \<and>
    (priceSession \<noteq> None \<longrightarrow> cache (fetchPriceData priceSession allAssets w) \<noteq> None) \<and>
    (symbolSession \<noteq> None \<longrightarrow>
       cache (fetchTokenPrices symbolSession symbols tc ts batchProxy) \<noteq> None) \<and>
    (stakingSession \<noteq> None \<longrightarrow>
       cache (fetchStakingData stakingSession walletAddress tc ts api stakingData) \<noteq> None) \<and>
    (lendingSession \<noteq> None \<longrightarrow>
       cache (fetchLendingData lendingSession tc ts lapi lendingData) \<noteq> None) \<and>
    dom (storedPrices symbolSession)
      \<subseteq> dom (storedPrices (cache (fetchTokenPrices symbolSession symbols tc ts batchProxy))) \<and>
    (fresh 120000 (t_check w) priceSession \<longrightarrow>
       dom (storedPrices priceSession)
         \<subseteq> dom (storedPrices (cache (fetchPriceData priceSession allAssets w)))) \<and>
    (\<not> fresh 120000 (t_check w) priceSession \<and> allAssets \<noteq> [] \<longrightarrow>
       cache (fetchPriceData priceSession allAssets w)
         = Some \<lparr>data = returned (fetchPriceData priceSession allAssets w),
                 timestamp = t_store w\<rparr> \<and>
       dom (returned (fetchPriceData priceSession allAssets w))
         \<subseteq> set (symbolsToFetch priceSession allAssets w)))"
proof -
  have batch: "toks \<noteq> [] \<longrightarrow>
      (if fresh 300000 (t_check w) (batchSession a) \<and> storedValid toks (batchSession a) \<noteq> []
       then \<not> fetched (fetchTokenBalances batchSession g a toks w) \<and>
            returned (fetchTokenBalances batchSession g a toks w) = storedValid toks (batchSession a) \<and>
            cache (fetchTokenBalances batchSession g a toks w) = (batchSession, g)
       else returned (fetchTokenBalances batchSession g a toks w)
              = tokenBalances (balanceLoop w a toks g) \<and>
            fetched (fetchTokenBalances batchSession g a toks w)
              = (requested (balanceLoop w a toks g) \<noteq> []))"
    using batch_lookup by blast
  have sym: "symbols \<noteq> [] \<longrightarrow>
      ttlLookup 120000 tc symbolSession
        (fetchTokenPrices symbolSession symbols tc ts batchProxy) symbolSession"
    using symbols_lookup by blast
  have stk: "walletAddress \<noteq> [] \<longrightarrow>
      ttlLookup 600000 tc stakingSession
        (fetchStakingData stakingSession walletAddress tc ts api stakingData) stakingSession"
    using staking_lookup by blast
  show ?thesis
    apply (intro conjI)
                      apply (rule eth_lookup)
                      apply (rule balance_lookup)
                      apply (rule batch)
                      apply (rule price_lookup [THEN conjunct1])
                      apply (rule price_lookup [THEN conjunct2, THEN conjunct1])
                     apply (rule price_lookup [THEN conjunct2, THEN conjunct2, THEN conjunct1])
                    apply (rule price_lookup [THEN conjunct2, THEN conjunct2, THEN conjunct2])
                   apply (rule sym)
                  apply (rule proxy_lookup [THEN conjunct1])
                 apply (rule proxy_lookup [THEN conjunct2])
                apply (rule proxy_batch_lookup [THEN conjunct1])
               apply (rule proxy_batch_lookup [THEN conjunct2])
              apply (rule stk)
             apply (rule lending_lookup)
            apply (rule eth_kept)
           apply (rule balance_kept)
          apply (rule batch_kept [THEN conjunct1])
         apply (rule batch_kept [THEN conjunct2])
        apply (rule proxy_kept)
       apply (rule items_kept [THEN conjunct1])
      apply (rule items_kept [THEN conjunct2, THEN conjunct1])
     apply (rule items_kept [THEN conjunct2, THEN conjunct2, THEN conjunct1])
        apply (rule items_kept [THEN conjunct2, THEN conjunct2, THEN conjunct2])
       apply (rule symbols_kept)
      apply (rule price_refresh [THEN conjunct1])
     apply (rule price_refresh [THEN conjunct2])
    done
qed

theorem caches_are_ttl_lookups_witness:
  "returned (fetchEthBalance [''0xW'' \<mapsto> \<lparr>data = ''2.0'', timestamp = 0\<rparr>] ''0xW'' 119999 120500
       (Resolved ''3.0'')) = ''2.0'' \<and>
   \<not> fetched (fetchEthBalance [''0xW'' \<mapsto> \<lparr>data = ''2.0'', timestamp = 0\<rparr>] ''0xW'' 119999 120500
       (Resolved ''3.0'')) \<and>
   fetched (fetchEthBalance [''0xW'' \<mapsto> \<lparr>data = ''2.0'', timestamp = 0\<rparr>] ''0xW'' 120000 120500
       (Resolved ''3.0'')) \<and>
   returned (fetchStakingData (Some \<lparr>data = [], timestamp = 0\<rparr>) ''0xW'' 599999 600500
       (Resolved exampleStaking) []) = [] \<and>
   fetched (fetchStakingData (Some \<lparr>data = [], timestamp = 0\<rparr>) ''0xW'' 600000 600500
       (Resolved exampleStaking) []) \<and>
   \<not> fetched (fetchTokenBalances usdcBatch Map.empty ''0xW''
      [(''0xab'', \<lparr>address = ''0xAB'', symbol = ''USDC'', name = ''USD Coin'', decimals = 6\<rparr>)]
      constructorWorld) \<and>
   map balance (returned (fetchTokenBalances usdcBatch Map.empty ''0xW''
      [(''0xab'', \<lparr>address = ''0xAB'', symbol = ''USDC'', name = ''USD Coin'', decimals = 6\<rparr>)]
      constructorWorld)) = [''12.50''] \<and>
   symbolsToFetch usdcPrices
      [\<lparr>address = [], symbol = ''ETH'', name = ''Ethereum'', decimals = 0\<rparr>,
       \<lparr>address = ''0xAB'', symbol = ''USDC'', name = ''USD Coin'', decimals = 6\<rparr>]
      exampleWorld = [''ETH'']"
proof -
  let ?s = "[''0xW'' \<mapsto> \<lparr>data = ''2.0'', timestamp = (0::int)\<rparr>]"
  let ?k = "Some \<lparr>data = ([]::opportunity list), timestamp = (0::int)\<rparr>"
  let ?toks = "[(''0xab'', \<lparr>address = ''0xAB'', symbol = ''USDC'', name = ''USD Coin'',
                            decimals = 6\<rparr>)]"
  let ?as = "[\<lparr>address = [], symbol = ''ETH'', name = ''Ethereum'', decimals = 0\<rparr>,
              \<lparr>address = ''0xAB'', symbol = ''USDC'', name = ''USD Coin'', decimals = 6\<rparr>]"
  note young = caches_are_ttl_lookups [where ethSession = ?s and a = "''0xW''" and tc = 119999
      and ts = 120500 and rpc = "Resolved ''3.0''"]
  note old = caches_are_ttl_lookups [where ethSession = ?s and a = "''0xW''" and tc = 120000
      and ts = 120500 and rpc = "Resolved ''3.0''"]
  note kyoung = caches_are_ttl_lookups [where stakingSession = ?k and walletAddress = "''0xW''"
      and tc = 599999 and ts = 600500 and api = "Resolved exampleStaking" and stakingData = "[]"]
  note kold = caches_are_ttl_lookups [where stakingSession = ?k and walletAddress = "''0xW''"
      and tc = 600000 and ts = 600500 and api = "Resolved exampleStaking" and stakingData = "[]"]
  note stored = caches_are_ttl_lookups [where batchSession = usdcBatch and a = "''0xW''"
      and toks = ?toks and w = constructorWorld and g = Map.empty]
  note priced = caches_are_ttl_lookups [where priceSession = usdcPrices and allAssets = ?as
      and w = exampleWorld]
  from young have 1: "ttlLookup 120000 119999 (?s ''0xW'')
      (fetchEthBalance ?s ''0xW'' 119999 120500 (Resolved ''3.0'')) ?s"
    by (rule conjunct1)
  from old have 2: "ttlLookup 120000 120000 (?s ''0xW'')
      (fetchEthBalance ?s ''0xW'' 120000 120500 (Resolved ''3.0'')) ?s"
    by (rule conjunct1)
  have w: "''0xW'' \<noteq> []" by simp
  note staking = conjunct2 [THEN conjunct2, THEN conjunct2, THEN conjunct2, THEN conjunct2,
      THEN conjunct2, THEN conjunct2, THEN conjunct1, THEN mp, OF _ w]
  from kyoung have 3: "ttlLookup 600000 599999 ?k
      (fetchStakingData ?k ''0xW'' 599999 600500 (Resolved exampleStaking) []) ?k"
    by (rule staking)
  from kold have 4: "ttlLookup 600000 600000 ?k
      (fetchStakingData ?k ''0xW'' 600000 600500 (Resolved exampleStaking) []) ?k"
    by (rule staking)
  have t: "?toks \<noteq> []" by simp
  have valid: "storedValid ?toks (usdcBatch ''0xW'') =
      [\<lparr>address = ''0xAB'', symbol = ''USDC'', name = ''USD Coin'', decimals = 6,
        balance = ''12.50'', balanceRaw = ''12500000'', cacheTime = Some 800, error = False\<rparr>]"
    by (simp add: storedValid_def usdcBatch_def validCachedBalances_def toLowerCase_def
        toLowerCase_char_def)
  have young_batch: "fresh 300000 (t_check constructorWorld) (usdcBatch ''0xW'')"
    by (simp add: fresh_def usdcBatch_def constructorWorld_def exampleWorld_def)
  from stored [THEN conjunct2, THEN conjunct2, THEN conjunct1, THEN mp, OF t]
  have 5: "\<not> fetched (fetchTokenBalances usdcBatch Map.empty ''0xW'' ?toks constructorWorld) \<and>
      returned (fetchTokenBalances usdcBatch Map.empty ''0xW'' ?toks constructorWorld)
        = storedValid ?toks (usdcBatch ''0xW'')"
    by (simp add: young_batch valid)
  from priced [THEN conjunct2, THEN conjunct2, THEN conjunct2, THEN conjunct1, THEN conjunct1]
  have 6: "symbolsToFetch usdcPrices ?as exampleWorld = [''ETH'']"
    by (simp add: fresh_def exampleWorld_def storedPrices_def usdcPrices_def symbolsOf_def
        unique_def Object_prototype_def)
  from 1 2 3 4 5 6 show ?thesis
    by (simp add: ttlLookup_def fresh_def valid)
qed

text \<open>
  Claim C3 as stated fails for the stored batch of token balances and for the price object
  of WalletAssets. In the first example the stored batch is 100 ms old, but its only
  balance belongs to a token that is not among the current tokens: the batch is not used,
  and the balance of the current token is requested. In the second example the stored
  price object is 1 s old and holds a price of USDC only: the price of ETH is requested.
  In the third example the stored price object is too old; the run replaces it by an
  object with the price of ETH only, and the stored price of USDC is gone.
\<close>

theorem fresh_batch_refetched_counterexample:
  "fresh 300000 (t_check constructorWorld) (staleBatch ''0xW'') \<and>
   fetched (fetchTokenBalances staleBatch Map.empty ''0xW''
      [(''0xab'', \<lparr>address = ''0xAB'', symbol = ''USDC'', name = ''USD Coin'', decimals = 6\<rparr>)]
      constructorWorld) \<and>
   map balance (returned (fetchTokenBalances staleBatch Map.empty ''0xW''
      [(''0xab'', \<lparr>address = ''0xAB'', symbol = ''USDC'', name = ''USD Coin'', decimals = 6\<rparr>)]
      constructorWorld)) = [''2.0''] \<and>
   fresh 120000 (t_check exampleWorld) usdcPrices \<and>
   fetched (fetchPriceData usdcPrices
      [\<lparr>address = [], symbol = ''ETH'', name = ''Ethereum'', decimals = 0\<rparr>] exampleWorld) \<and>
   map_option (\<lambda>c. data c ''USDC'') usdcPrices
     = Some (Some \<lparr>price = 1, percentChange24h = 0, lastUpdated = ''t''\<rparr>) \<and>
   map_option (\<lambda>c. (data c ''USDC'', data c ''ETH''))
     (cache (fetchPriceData usdcPrices
        [\<lparr>address = [], symbol = ''ETH'', name = ''Ethereum'', decimals = 0\<rparr>]
        (exampleWorld\<lparr>t_check := 500000, t_store := 500900\<rparr>)))
     = Some (None, Some \<lparr>price = 2000, percentChange24h = 1, lastUpdated = ''t''\<rparr>)"
proof -
  have w: "t_check constructorWorld = 1000"
    by (simp add: constructorWorld_def exampleWorld_def)
  have a: "fresh 300000 (t_check constructorWorld) (staleBatch ''0xW'')"
    by (simp add: w fresh_def staleBatch_def)
  have b: "fetchTokenBalances staleBatch Map.empty ''0xW''
      [(''0xab'', \<lparr>address = ''0xAB'', symbol = ''USDC'', name = ''USD Coin'', decimals = 6\<rparr>)]
      constructorWorld =
      \<lparr>returned = [\<lparr>address = ''0xAB'', symbol = ''USDC'', name = ''USD Coin'', decimals = 6,
                    balance = ''2.0'', balanceRaw = ''2000000000000000000'',
                    cacheTime = Some 1500, error = False\<rparr>],
       cache = cache (fetchTokenBalances staleBatch Map.empty ''0xW''
          [(''0xab'', \<lparr>address = ''0xAB'', symbol = ''USDC'', name = ''USD Coin'', decimals = 6\<rparr>)]
          constructorWorld),
       fetched = True, logged = []\<rparr>"
    by (simp add: fetchTokenBalances_def staleBatch_def validCachedBalances_def
        toLowerCase_def toLowerCase_char_def CACHE_EXPIRY_def
        balanceLoop_flat sortedAddresses_def sort_by_def
        fetchOne_def fetchTokenBalance_def containsUrlPattern_def example_url_tests trim_def
        isWhiteSpace_def exampleWorld_def constructorWorld_def Let_def token.defs tokenData.defs)
  have c: "map_option (\<lambda>c. (data c ''USDC'', data c ''ETH''))
     (cache (fetchPriceData usdcPrices
        [\<lparr>address = [], symbol = ''ETH'', name = ''Ethereum'', decimals = 0\<rparr>]
        (exampleWorld\<lparr>t_check := 500000, t_store := 500900\<rparr>)))
     = Some (None, Some \<lparr>price = 2000, percentChange24h = 1, lastUpdated = ''t''\<rparr>)"
    by (simp add: fetchPriceData_def symbolsToFetch_def priceCacheOf_def symbolsOf_def unique_def
        priceLoop_flat fetchPrice_def exampleWorld_def usdcPrices_def Let_def getProperty_def
        setProperty_def Object_prototype_def)
  have d: "map_option (\<lambda>c. data c ''USDC'') usdcPrices
     = Some (Some \<lparr>price = 1, percentChange24h = 0, lastUpdated = ''t''\<rparr>)"
    by (simp add: usdcPrices_def)
  have b1: "fetched (fetchTokenBalances staleBatch Map.empty ''0xW''
      [(''0xab'', \<lparr>address = ''0xAB'', symbol = ''USDC'', name = ''USD Coin'', decimals = 6\<rparr>)]
      constructorWorld)"
    by (subst b) simp
  have b2: "map balance (returned (fetchTokenBalances staleBatch Map.empty ''0xW''
      [(''0xab'', \<lparr>address = ''0xAB'', symbol = ''USDC'', name = ''USD Coin'', decimals = 6\<rparr>)]
      constructorWorld)) = [''2.0'']"
    by (subst b) simp
  have e: "fresh 120000 (t_check exampleWorld) usdcPrices"
    by (simp add: fresh_def usdcPrices_def exampleWorld_def)
  have f: "fetched (fetchPriceData usdcPrices
      [\<lparr>address = [], symbol = ''ETH'', name = ''Ethereum'', decimals = 0\<rparr>] exampleWorld)"
    by (simp add: fetchPriceData_def symbolsToFetch_def priceCacheOf_def symbolsOf_def unique_def
        exampleWorld_def usdcPrices_def Let_def getProperty_def Object_prototype_def)
  from a b1 b2 c d e f show ?thesis by simp
qed

end
